(* ===== verification/Prelude.thy ===== *)
theory Prelude
  imports Complex_Main "HOL-Library.Multiset" "HOL-Library.Sublist"
begin

text \<open>
  Shared vocabulary of the recommendation-engine model.
  \<^item> \<open>error\<close>: the Python exceptions the modelled code can raise, as values
    (\<open>error + 'a\<close>, \<open>Inl\<close> the exception).
  \<^item> \<open>'a field\<close>: one key of a Python \<open>dict\<close>, which may be absent, present with
    the value \<open>None\<close> (JSON \<open>null\<close>), or present with a value; \<open>dict_index\<close> is
    \<open>d[k]\<close> and \<open>dict_get\<close> is \<open>d.get(k, default)\<close>.
  \<^item> \<open>prefs\<close>: the preference dictionary that \<open>chatbot.py\<close> produces and
    \<open>clustering.py\<close> consumes (the interface between the two components).
  \<^item> \<open>py_head\<close>: pandas \<open>DataFrame.head(n)\<close>, that is \<open>iloc[:n]\<close>, with Python's
    slice rule for a negative \<open>n\<close>.
  \<^item> \<open>guarded_filter\<close>: the "narrow only if something is left" step that
    \<open>get_recommendations\<close> repeats for month, region, terrain and cluster.
  \<^item> \<open>pyrt\<close>: the parts of Python's text runtime the code calls and the model does
    not re-implement (\<open>str.lower\<close>, \<open>re.compile\<close>, \<open>re.search\<close> and the
    number read from a match's first group); \<open>rt_literal_ok\<close> is what Python
    guarantees of them that the lemmas use: a pattern without regex metacharacters
    compiles and matches exactly where it occurs as a substring.
  The generic lemmas on these are collected in \<open>engine_simps\<close>.
\<close>

named_theorems engine_simps "evaluation facts for the engine's helper operations"

datatype error =
    KeyError string | ValueError string | TypeError string | RegexError string
  | AttributeError string | HTTPError int string

datatype 'a field = Absent | Null | Val 'a

text \<open>\<open>d[k]\<close>: \<open>KeyError\<close> for a missing key, otherwise the stored value
  (\<open>None\<close> for a stored null).\<close>

fun dict_index :: "string \<Rightarrow> 'a field \<Rightarrow> error + 'a option" where
  "dict_index k Absent = Inl (KeyError k)"
| "dict_index k Null = Inr None"
| "dict_index k (Val v) = Inr (Some v)"

text \<open>\<open>d.get(k, default)\<close>: the default only for a missing key.\<close>

fun dict_get :: "'a field \<Rightarrow> 'a \<Rightarrow> 'a option" where
  "dict_get Absent d = Some d"
| "dict_get Null d = None"
| "dict_get (Val v) d = Some v"

text \<open>\<open>d.get(k)\<close> (default \<open>None\<close>), the form \<open>d.get(k) is not None\<close> tests.\<close>

fun dict_get_opt :: "'a field \<Rightarrow> 'a option" where
  "dict_get_opt (Val v) = Some v"
| "dict_get_opt _ = None"

record prefs =
  pref_avgtemp_c :: "real field"
  pref_maxwind_kph :: "real field"
  pref_totalprecip_mm :: "real field"
  pref_avghumidity :: "real field"
  pref_cloud_cover_mean :: "real field"
  pref_month :: "real field"
  pref_region :: "string field"
  pref_terrain :: "string field"
  pref_preferences :: "string field"

text \<open>pandas \<open>head(n)\<close> is \<open>iloc[:n]\<close>: a negative \<open>n\<close> drops the last
  \<open>|n|\<close> rows instead of returning nothing.\<close>

definition py_head :: "int \<Rightarrow> 'a list \<Rightarrow> 'a list" where
  "py_head n xs = (if 0 \<le> n then take (nat n) xs else take (nat (int (length xs) + n)) xs)"

definition guarded_filter :: "('a \<Rightarrow> bool) \<Rightarrow> 'a list \<Rightarrow> 'a list" where
  "guarded_filter P xs = (let ys = filter P xs in if 0 < length ys then ys else xs)"

text \<open>The text runtime. \<open>rt_re_num p s\<close> is \<open>float(m.group(1))\<close> for the
  first match \<open>m\<close> of \<open>re.search(p, s)\<close>, \<open>None\<close> when there is no match.\<close>

record pyrt =
  rt_lower :: "string \<Rightarrow> string"
  rt_re_valid :: "string \<Rightarrow> bool"
  rt_re_search :: "string \<Rightarrow> string \<Rightarrow> bool"
  rt_re_num :: "string \<Rightarrow> string \<Rightarrow> real option"
  rt_str_float :: "real \<Rightarrow> string"
  rt_fmt_fixed :: "nat \<Rightarrow> real \<Rightarrow> string"

text \<open>\<open>rt_str_float x\<close> is \<open>str(x)\<close> (the form an f-string \<open>{x}\<close> prints) and
  \<open>rt_fmt_fixed n x\<close> is the format spec \<open>{x:.nf}\<close>.\<close>

text \<open>Raising and propagating an exception: \<open>ebind m f\<close> runs \<open>f\<close> on the value of
  \<open>m\<close> and passes an exception of \<open>m\<close> on unchanged.\<close>

definition ebind :: "error + 'a \<Rightarrow> ('a \<Rightarrow> error + 'b) \<Rightarrow> error + 'b" where
  "ebind m f = (case m of Inl err \<Rightarrow> Inl err | Inr a \<Rightarrow> f a)"

text \<open>Source text outside ASCII. The model's strings are byte strings, so a literal of
  the source that holds Vietnamese letters is its UTF-8 encoding, written here with
  percent escapes (\<open>%E1%BB%8B\<close> is the three bytes of the letter U+1ECB) and decoded
  by \<open>pct\<close>; \<open>%25\<close> is the percent sign itself and \<open>%5C\<close> the backslash of a
  regular expression.\<close>

definition hex_val :: "char \<Rightarrow> nat option" where
  "hex_val c =
     (let n = of_char c :: nat in
      if 48 \<le> n \<and> n \<le> 57 then Some (n - 48)
      else if 65 \<le> n \<and> n \<le> 70 then Some (n - 55)
      else if 97 \<le> n \<and> n \<le> 102 then Some (n - 87)
      else None)"

fun pct :: "string \<Rightarrow> string" where
  "pct (c # h1 # h2 # cs) =
     (if c = CHR ''%'' \<and> hex_val h1 \<noteq> None \<and> hex_val h2 \<noteq> None
      then char_of (16 * the (hex_val h1) + the (hex_val h2)) # pct cs
      else c # pct (h1 # h2 # cs))"
| "pct cs = cs"

text \<open>\<open>str.strip()\<close> and \<open>str.split()\<close> on the ASCII whitespace characters.\<close>

definition py_space :: "char \<Rightarrow> bool" where
  "py_space c \<longleftrightarrow> of_char c \<in> {9, 10, 11, 12, 13, 32 :: nat}"

definition py_strip :: "string \<Rightarrow> string" where
  "py_strip s = rev (dropWhile py_space (rev (dropWhile py_space s)))"

fun split_acc :: "string \<Rightarrow> string \<Rightarrow> string list" where
  "split_acc [] w = (if w = [] then [] else [rev w])"
| "split_acc (c # cs) w =
     (if py_space c then (if w = [] then split_acc cs [] else rev w # split_acc cs [])
      else split_acc cs (c # w))"

definition py_split :: "string \<Rightarrow> string list" where
  "py_split s = split_acc s []"

definition regex_meta :: "char list" where
  "regex_meta = ''.^$*+?{}[]|()'' @ [CHR 0x5C]"

definition literal_pattern :: "string \<Rightarrow> bool" where
  "literal_pattern p \<longleftrightarrow> list_all (\<lambda>c. c \<notin> set regex_meta) p"

definition rt_literal_ok :: "pyrt \<Rightarrow> bool" where
  "rt_literal_ok rt \<longleftrightarrow>
     (\<forall>p s. literal_pattern p \<longrightarrow> rt_re_valid rt p \<and> (rt_re_search rt p s \<longleftrightarrow> sublist p s))"

subsection \<open>Lemmas on the helpers\<close>

lemma rt_literal_okD:
  "rt_literal_ok rt \<Longrightarrow> literal_pattern p \<Longrightarrow> rt_re_valid rt p"
  "rt_literal_ok rt \<Longrightarrow> literal_pattern p \<Longrightarrow> rt_re_search rt p s \<longleftrightarrow> sublist p s"
  by (simp_all add: rt_literal_ok_def)

lemma ebind_simps [simp]: "ebind (Inl err) f = Inl err" "ebind (Inr a) f = f a"
  by (simp_all add: ebind_def)

lemma ebind_eq_Inr: "ebind m f = Inr b \<longleftrightarrow> (\<exists>a. m = Inr a \<and> f a = Inr b)"
  by (cases m) simp_all

lemma literal_pattern_Nil [simp]: "literal_pattern []"
  by (simp add: literal_pattern_def)

lemma sum_list_length_filter_partition:
  "distinct cs \<Longrightarrow> set (map f xs) \<subseteq> set cs \<Longrightarrow>
   sum_list (map (\<lambda>c. length (filter (\<lambda>r. f r = c) xs)) cs) = length xs"
proof (induction xs)
  case Nil
  then show ?case by (simp add: sum_list_map_eq_sum_count)
next
  case (Cons x xs)
  have one: "sum_list (map (\<lambda>c. if f x = c then 1 else 0) cs) = (1::nat)"
    using Cons.prems by (simp add: sum_list_distinct_conv_sum_set)
  have "sum_list (map (\<lambda>c. length (filter (\<lambda>r. f r = c) (x # xs))) cs) =
        sum_list (map (\<lambda>c. (if f x = c then 1 else 0) + length (filter (\<lambda>r. f r = c) xs)) cs)"
    by (intro arg_cong [where f = sum_list] map_cong) simp_all
  also have "\<dots> = 1 + length xs"
    using Cons one by (simp add: sum_list_addf)
  finally show ?case by simp
qed

lemma py_head_take [engine_simps]: "\<exists>m. py_head n xs = take m xs"
  by (auto simp: py_head_def)

lemma py_head_nonneg [engine_simps]: "0 \<le> n \<Longrightarrow> py_head n xs = take (nat n) xs"
  by (simp add: py_head_def)

lemma py_head_neg [engine_simps]:
  "n < 0 \<Longrightarrow> py_head n xs = take (nat (int (length xs) + n)) xs"
  by (simp add: py_head_def)

lemma length_py_head_le: "0 \<le> n \<Longrightarrow> int (length (py_head n xs)) \<le> n"
  by (simp add: py_head_def)

lemma length_py_head: "0 \<le> n \<Longrightarrow> length (py_head n xs) = min (nat n) (length xs)"
  by (simp add: py_head_def)

lemma set_py_head [intro]: "x \<in> set (py_head n xs) \<Longrightarrow> x \<in> set xs"
  by (auto simp: py_head_def split: if_splits dest: in_set_takeD)

lemma sorted_wrt_py_head [intro]: "sorted_wrt R xs \<Longrightarrow> sorted_wrt R (py_head n xs)"
  by (simp add: py_head_def)

lemma guarded_filter_hit [engine_simps]:
  "\<exists>x \<in> set xs. P x \<Longrightarrow> guarded_filter P xs = filter P xs"
  by (simp add: guarded_filter_def Let_def filter_empty_conv)

lemma guarded_filter_miss [engine_simps]:
  "\<not> (\<exists>x \<in> set xs. P x) \<Longrightarrow> guarded_filter P xs = xs"
  by (simp add: guarded_filter_def Let_def filter_empty_conv)

lemma guarded_filter_cases: "guarded_filter P xs = filter P xs \<or> guarded_filter P xs = xs"
  by (simp add: guarded_filter_def Let_def)

lemma set_guarded_filter [intro]: "x \<in> set (guarded_filter P xs) \<Longrightarrow> x \<in> set xs"
  using guarded_filter_cases [of P xs] by auto

lemma guarded_filter_Nil_iff [simp]: "guarded_filter P xs = [] \<longleftrightarrow> xs = []"
  by (auto simp: guarded_filter_def Let_def)

lemma guarded_filter_is_filter: "\<exists>Q. guarded_filter P xs = filter Q xs"
proof (cases "guarded_filter P xs = xs")
  case True
  then have "guarded_filter P xs = filter (\<lambda>_. True) xs" by simp
  then show ?thesis by blast
next
  case False
  then have "guarded_filter P xs = filter P xs" using guarded_filter_cases by blast
  then show ?thesis by blast
qed

lemma guarded_filter_filter: "\<exists>Q'. guarded_filter P (filter Q xs) = filter Q' xs"
proof (cases "guarded_filter P (filter Q xs) = filter Q xs")
  case True
  then show ?thesis by blast
next
  case False
  then have "guarded_filter P (filter Q xs) = filter (\<lambda>x. Q x \<and> P x) xs"
    using guarded_filter_cases [of P "filter Q xs"] by simp
  then show ?thesis by blast
qed

lemma mset_take_drop: "mset (take n xs) + mset (drop n xs) = mset xs"
  by (simp flip: mset_append)

lemma sorted_wrt_take_drop:
  "sorted_wrt R xs \<Longrightarrow> \<forall>x \<in> set (take n xs). \<forall>y \<in> set (drop n xs). R x y"
proof -
  assume "sorted_wrt R xs"
  then have "sorted_wrt R (take n xs @ drop n xs)" by simp
  then show ?thesis unfolding sorted_wrt_append by blast
qed

lemma mset_take_subseteq: "mset (take n xs) \<subseteq># mset xs"
  using mset_subset_eq_add_left [of "mset (take n xs)" "mset (drop n xs)"]
  by (simp only: mset_take_drop)

lemma mset_minus_take: "mset xs - mset (take n xs) = mset (drop n xs)"
  using add_diff_cancel_left' [of "mset (take n xs)" "mset (drop n xs)"]
  by (simp only: mset_take_drop)

lemma filter_take_prefix: "\<exists>m. filter P (take n xs) = take m (filter P xs)"
proof (induction xs arbitrary: n)
  case Nil
  then show ?case by simp
next
  case (Cons x xs)
  show ?case
  proof (cases n)
    case 0
    then show ?thesis by (auto intro: exI [of _ 0])
  next
    case (Suc n')
    obtain m where m: "filter P (take n' xs) = take m (filter P xs)"
      using Cons.IH by blast
    show ?thesis
    proof (cases "P x")
      case True
      with Suc m have "filter P (take n (x # xs)) = take (Suc m) (filter P (x # xs))" by simp
      then show ?thesis by blast
    next
      case False
      with Suc m show ?thesis by auto
    qed
  qed
qed

lemma filter_distinct_key:
  "distinct (map f xs) \<Longrightarrow> k \<in> set xs \<Longrightarrow> filter (\<lambda>x. f k = f x) xs = [k]"
proof (induction xs)
  case Nil
  then show ?case by simp
next
  case (Cons x xs)
  show ?case
  proof (cases "k = x")
    case True
    with Cons.prems have "\<forall>y \<in> set xs. f k \<noteq> f y" by auto
    with True show ?thesis by (simp add: filter_empty_conv)
  next
    case False
    with Cons.prems have "f k \<noteq> f x" and "k \<in> set xs" and "distinct (map f xs)"
      by (auto simp: image_iff)
    with Cons.IH show ?thesis by simp
  qed
qed

lemma length5_cases: "length xs = 5 \<Longrightarrow> \<exists>a b c d f. xs = [a, b, c, d, f]"
  by (auto simp: numeral_eq_Suc length_Suc_conv)

lemma length_dropWhile_less_Suc: "length (dropWhile P xs) - n < Suc (length xs)"
  using length_dropWhile_le [of P xs] by linarith

lemma length_guarded_filter_le: "length (guarded_filter P xs) \<le> length xs"
  by (simp add: guarded_filter_def Let_def)

end
