(* ===== verification/Dataset.thy ===== *)
theory Dataset
  imports Prelude
begin

text \<open>
  The dataset store and the feature normaliser of \<open>src/clustering.py\<close>
  (\<open>TravelRecommendationEngine.__init__\<close>, lines 8--24): one \<open>obs\<close> per CSV row,
  the \<open>StandardScaler\<close> fitted on the five weather columns of the whole table,
  the scaled copy \<open>df_scaled\<close> and the centroid rows. The engine handle is the
  record \<open>engine\<close>; \<open>engine_init\<close> builds it and \<open>engine_wf\<close> is what
  every later query may assume of it.
\<close>

record obs =
  name :: string
  province :: string
  region :: string
  terrain :: string
  lat :: real
  lon :: real
  month :: int
  avgtemp_c :: real
  maxwind_kph :: real
  totalprecip_mm :: real
  avghumidity :: real
  cloud_cover_mean :: real
  cluster :: int
  is_centroid :: bool
  hci :: real

text \<open>\<open>self.features\<close>, in the column order the scaler is fitted with.\<close>

definition features :: "(obs \<Rightarrow> real) list" where
  "features = [avgtemp_c, maxwind_kph, totalprecip_mm, avghumidity, cloud_cover_mean]"

definition feature_vector :: "obs \<Rightarrow> real list" where
  "feature_vector r = map (\<lambda>f. f r) features"

subsection \<open>The standard scaler\<close>

text \<open>
  \<open>StandardScaler.fit\<close>: per column the mean and the population standard
  deviation (\<open>ddof = 0\<close>); a zero scale is replaced by 1
  (\<open>_handle_zeros_in_scale\<close>). Fitting on no rows raises \<open>ValueError\<close>.
\<close>

record scaler =
  sc_mean :: "real list"
  sc_scale :: "real list"

definition col_mean :: "real list \<Rightarrow> real" where
  "col_mean xs = sum_list xs / real (length xs)"

definition col_var :: "real list \<Rightarrow> real" where
  "col_var xs = (let m = col_mean xs in sum_list (map (\<lambda>x. (x - m)\<^sup>2) xs) / real (length xs))"

definition handle_zero_scale :: "real \<Rightarrow> real" where
  "handle_zero_scale s = (if s = 0 then 1 else s)"

definition scaler_fit :: "obs list \<Rightarrow> error + scaler" where
  "scaler_fit rows =
     (if rows = [] then Inl (ValueError ''Found array with 0 sample(s)'')
      else Inr \<lparr>sc_mean = map (\<lambda>f. col_mean (map f rows)) features,
                sc_scale = map (\<lambda>f. handle_zero_scale (sqrt (col_var (map f rows)))) features\<rparr>)"

definition scaler_transform :: "scaler \<Rightarrow> real list \<Rightarrow> real list" where
  "scaler_transform sc v = map (\<lambda>(x, m, s). (x - m) / s) (zip v (zip (sc_mean sc) (sc_scale sc)))"

text \<open>\<open>transform\<close> on input that may hold \<open>None\<close> (NaN): sklearn's input check
  raises \<open>ValueError\<close> before any arithmetic.\<close>

definition scaler_transform_checked :: "scaler \<Rightarrow> real option list \<Rightarrow> error + real list" where
  "scaler_transform_checked sc v =
     (if None \<in> set v then Inl (ValueError ''Input contains NaN'')
      else Inr (scaler_transform sc (map the v)))"

subsection \<open>The engine handle\<close>

definition scale_row :: "scaler \<Rightarrow> obs \<Rightarrow> obs" where
  "scale_row sc r =
     (let v = scaler_transform sc (feature_vector r)
      in r\<lparr>avgtemp_c := v ! 0, maxwind_kph := v ! 1, totalprecip_mm := v ! 2,
           avghumidity := v ! 3, cloud_cover_mean := v ! 4\<rparr>)"

record engine =
  df :: "obs list"
  eng_scaler :: scaler
  df_scaled :: "obs list"
  centroids :: "obs list"

definition engine_init :: "obs list \<Rightarrow> error + engine" where
  "engine_init rows =
     (case scaler_fit rows of
        Inl err \<Rightarrow> Inl err
      | Inr sc \<Rightarrow> Inr \<lparr>df = rows, eng_scaler = sc, df_scaled = map (scale_row sc) rows,
                       centroids = filter (\<lambda>r. is_centroid r = True) rows\<rparr>)"

definition engine_wf :: "engine \<Rightarrow> bool" where
  "engine_wf e \<longleftrightarrow>
     scaler_fit (df e) = Inr (eng_scaler e) \<and>
     df_scaled e = map (scale_row (eng_scaler e)) (df e) \<and>
     centroids e = filter is_centroid (df e)"

subsection \<open>Features and the scaler\<close>

lemma length_features [simp]: "length features = 5"
  by (simp add: features_def)

lemma length_feature_vector [simp]: "length (feature_vector r) = 5"
  by (simp add: feature_vector_def)

lemma nth_feature_vector [simp]: "j < 5 \<Longrightarrow> feature_vector r ! j = (features ! j) r"
  by (simp add: feature_vector_def)

lemma col_var_nonneg: "0 \<le> col_var xs"
  by (auto simp: col_var_def Let_def intro!: divide_nonneg_nonneg sum_list_nonneg)

lemma handle_zero_scale_pos: "0 < handle_zero_scale (sqrt (col_var xs))"
  using col_var_nonneg [of xs] by (auto simp: handle_zero_scale_def)

lemma sum_list_map_divide: "sum_list (map (\<lambda>x. f x / c) xs) = sum_list (map f xs) / (c :: real)"
  by (induction xs) (simp_all add: add_divide_distrib)

lemma sum_list_centered: "sum_list (map (\<lambda>x. x - m) xs) = sum_list xs - real (length xs) * (m :: real)"
  by (induction xs) (simp_all add: algebra_simps)

lemma col_mean_centered: "col_mean (map (\<lambda>x. (x - col_mean xs) / s) xs) = 0"
proof (cases "xs = []")
  case True
  then show ?thesis by (simp add: col_mean_def)
next
  case False
  then have "real (length xs) \<noteq> 0" by simp
  then have "sum_list (map (\<lambda>x. x - col_mean xs) xs) = 0"
    by (simp add: sum_list_centered col_mean_def)
  then show ?thesis
    by (simp add: col_mean_def sum_list_map_divide)
qed

lemma col_var_standardized:
  assumes nz: "col_var xs \<noteq> 0"
  shows "col_var (map (\<lambda>x. (x - col_mean xs) / sqrt (col_var xs)) xs) = 1"
proof -
  let ?m = "col_mean xs" and ?v = "col_var xs" and ?n = "real (length xs)"
  have ne: "xs \<noteq> []" using nz by (auto simp: col_var_def)
  then have n: "?n \<noteq> 0" by simp
  have v: "0 < ?v" using nz col_var_nonneg [of xs] by simp
  have sq: "(sqrt ?v)\<^sup>2 = ?v" using v by simp
  have ss: "sum_list (map (\<lambda>x. (x - ?m)\<^sup>2) xs) = ?v * ?n"
    using n by (simp add: col_var_def Let_def)
  have "col_var (map (\<lambda>x. (x - ?m) / sqrt ?v) xs)
      = sum_list (map (\<lambda>x. ((x - ?m) / sqrt ?v)\<^sup>2) xs) / ?n"
    by (simp add: col_var_def Let_def col_mean_centered comp_def)
  also have "\<dots> = sum_list (map (\<lambda>x. (x - ?m)\<^sup>2) xs) / ?v / ?n"
    by (simp add: power_divide sq sum_list_map_divide)
  also have "\<dots> = 1"
    using n v ss by simp
  finally show ?thesis .
qed

lemma length_scaler_transform [simp]:
  "length (scaler_transform sc v) = min (length v) (min (length (sc_mean sc)) (length (sc_scale sc)))"
  by (simp add: scaler_transform_def)

lemma nth_scaler_transform:
  "j < length v \<Longrightarrow> j < length (sc_mean sc) \<Longrightarrow> j < length (sc_scale sc) \<Longrightarrow>
   scaler_transform sc v ! j = (v ! j - sc_mean sc ! j) / sc_scale sc ! j"
  by (simp add: scaler_transform_def)

lemma scaler_fit_Inr:
  "scaler_fit rows = Inr sc \<Longrightarrow> rows \<noteq> [] \<and>
     sc_mean sc = map (\<lambda>f. col_mean (map f rows)) features \<and>
     sc_scale sc = map (\<lambda>f. handle_zero_scale (sqrt (col_var (map f rows)))) features"
  by (auto simp: scaler_fit_def split: if_splits)

lemma scaler_fit_lengths:
  "scaler_fit rows = Inr sc \<Longrightarrow> length (sc_mean sc) = 5 \<and> length (sc_scale sc) = 5"
  by (simp add: scaler_fit_Inr)

lemma scaler_fit_nth:
  "scaler_fit rows = Inr sc \<Longrightarrow> j < 5 \<Longrightarrow>
     sc_mean sc ! j = col_mean (map (features ! j) rows) \<and>
     sc_scale sc ! j = handle_zero_scale (sqrt (col_var (map (features ! j) rows)))"
  by (simp add: scaler_fit_Inr)

lemma scaler_fit_column:
  assumes fit: "scaler_fit rows = Inr sc" and j: "j < 5"
  shows "map (\<lambda>r. scaler_transform sc (feature_vector r) ! j) rows =
         map (\<lambda>x. (x - col_mean (map (features ! j) rows)) /
                   handle_zero_scale (sqrt (col_var (map (features ! j) rows)))) (map (features ! j) rows)"
  using scaler_fit_lengths [OF fit] scaler_fit_nth [OF fit j] j
  by (simp add: nth_scaler_transform)

lemma scaler_fit_scale_nth_pos: "scaler_fit rows = Inr sc \<Longrightarrow> j < 5 \<Longrightarrow> 0 < sc_scale sc ! j"
  by (auto simp: scaler_fit_Inr handle_zero_scale_pos)


text \<open>C24. Every normalised weather column of the dataset has mean zero.\<close>

theorem scaler_fit_zero_mean:
  "scaler_fit rows = Inr sc \<Longrightarrow> j < 5 \<Longrightarrow>
     col_mean (map (\<lambda>r. scaler_transform sc (feature_vector r) ! j) rows) = 0"
  by (simp only: scaler_fit_column col_mean_centered)

text \<open>C25. Every normalised weather column with non-zero variance has variance one.\<close>

theorem scaler_fit_unit_variance:
  assumes fit: "scaler_fit rows = Inr sc" and j: "j < 5"
    and nz: "col_var (map (features ! j) rows) \<noteq> 0"
  shows "col_var (map (\<lambda>r. scaler_transform sc (feature_vector r) ! j) rows) = 1"
proof -
  let ?xs = "map (features ! j) rows"
  have "handle_zero_scale (sqrt (col_var ?xs)) = sqrt (col_var ?xs)"
    using nz by (simp add: handle_zero_scale_def)
  then have col: "map (\<lambda>r. scaler_transform sc (feature_vector r) ! j) rows =
             map (\<lambda>x. (x - col_mean ?xs) / sqrt (col_var ?xs)) ?xs"
    by (simp only: scaler_fit_column [OF fit j])
  show ?thesis
    unfolding col by (rule col_var_standardized [OF nz])
qed

theorem scaler_transform_inj:
  assumes fit: "scaler_fit rows = Inr sc" and u: "length u = 5" and v: "length v = 5"
    and eq: "scaler_transform sc u = scaler_transform sc v"
  shows "u = v"
proof (rule nth_equalityI)
  show "length u = length v" using u v by simp
next
  fix j assume "j < length u"
  with u have j: "j < 5" by simp
  have pos: "0 < sc_scale sc ! j"
    by (rule scaler_fit_scale_nth_pos [OF fit j])
  have "scaler_transform sc u ! j = scaler_transform sc v ! j" using eq by simp
  then have "(u ! j - sc_mean sc ! j) / sc_scale sc ! j = (v ! j - sc_mean sc ! j) / sc_scale sc ! j"
    using scaler_fit_lengths [OF fit] u v j by (simp add: nth_scaler_transform)
  with pos show "u ! j = v ! j" by (simp add: divide_cancel_right)
qed


subsection \<open>Loading the engine\<close>

lemma engine_init_eq:
  "engine_init rows =
     (if rows = [] then Inl (ValueError ''Found array with 0 sample(s)'')
      else (case scaler_fit rows of Inl err \<Rightarrow> Inl err
            | Inr sc \<Rightarrow> Inr \<lparr>df = rows, eng_scaler = sc, df_scaled = map (scale_row sc) rows,
                             centroids = filter is_centroid rows\<rparr>))"
  by (simp add: engine_init_def scaler_fit_def)



lemma engine_wf_df_ne: "engine_wf e \<Longrightarrow> df e \<noteq> []"
  by (simp add: engine_wf_def scaler_fit_Inr)

lemma engine_wf_fit: "engine_wf e \<Longrightarrow> scaler_fit (df e) = Inr (eng_scaler e)"
  by (simp add: engine_wf_def)

lemma set_centroids: "engine_wf e \<Longrightarrow> r \<in> set (centroids e) \<longleftrightarrow> r \<in> set (df e) \<and> is_centroid r"
  by (simp add: engine_wf_def)

end
