(* ===== verification/Fixture.thy ===== *)
theory Fixture
  imports Dataset
begin

text \<open>
  A concrete dataset on which the lemmas of the development are applied: the
  two-cluster example of the specification (section 8). Cluster 0 has centroid
  weather (30, 20, 25, 80, 70), cluster 1 has (18, 10, 5, 55, 20); each cluster has
  one centroid row and one ordinary row with the same weather, so that the fitted
  scaler has mean (24, 15, 15, 67.5, 45) and scale (6, 5, 10, 12.5, 25).
  Months, regions and scores differ between the rows so that every filter of the
  pipeline has something to select. No month is 5.
\<close>

definition fx_row ::
  "string \<Rightarrow> string \<Rightarrow> string \<Rightarrow> int \<Rightarrow> real list \<Rightarrow> int \<Rightarrow> bool \<Rightarrow> real \<Rightarrow> obs" where
  "fx_row nm rg tr mo w c ic h =
     \<lparr>name = nm, province = nm, region = rg, terrain = tr, lat = 0, lon = 0,
      month = mo, avgtemp_c = w ! 0, maxwind_kph = w ! 1, totalprecip_mm = w ! 2,
      avghumidity = w ! 3, cloud_cover_mean = w ! 4, cluster = c, is_centroid = ic, hci = h\<rparr>"

definition fx_A :: obs where
  "fx_A = fx_row ''Nha Trang'' ''Central'' ''coast'' 1 [30, 20, 25, 80, 70] 0 True 8"

definition fx_B :: obs where
  "fx_B = fx_row ''Vung Tau'' ''South'' ''coast'' 2 [30, 20, 25, 80, 70] 0 False 9"

definition fx_C :: obs where
  "fx_C = fx_row ''Da Lat'' ''Central'' ''mountain'' 1 [18, 10, 5, 55, 20] 1 True 5"

definition fx_D :: obs where
  "fx_D = fx_row ''Sa Pa'' ''North'' ''mountain'' 7 [18, 10, 5, 55, 20] 1 False 9"

definition fx_rows :: "obs list" where
  "fx_rows = [fx_A, fx_B, fx_C, fx_D]"

definition fx_scaler :: scaler where
  "fx_scaler = \<lparr>sc_mean = [24, 15, 15, 135 / 2, 45], sc_scale = [6, 5, 10, 25 / 2, 25]\<rparr>"

definition fx_engine :: engine where
  "fx_engine = \<lparr>df = fx_rows, eng_scaler = fx_scaler,
                df_scaled = map (scale_row fx_scaler) fx_rows, centroids = [fx_A, fx_C]\<rparr>"

text \<open>The preference of the specification's example, as \<open>_validate_preferences\<close>
  would produce it with no month, region or terrain.\<close>

definition fx_pref :: prefs where
  "fx_pref = \<lparr>pref_avgtemp_c = Val 28, pref_maxwind_kph = Val 18, pref_totalprecip_mm = Val 22,
      pref_avghumidity = Val 78, pref_cloud_cover_mean = Val 65, pref_month = Null,
      pref_region = Null, pref_terrain = Null, pref_preferences = Val ''du lich''\<rparr>"

text \<open>A text runtime for the instances: every pattern compiles and matches as a
  literal substring (which is all \<open>rt_literal_ok\<close> asks); \<open>str.lower\<close> is left
  as the identity, which the instances do not depend on.\<close>

definition fx_rt :: pyrt where
  "fx_rt = \<lparr>rt_lower = id, rt_re_valid = (\<lambda>p. True), rt_re_search = sublist,
            rt_re_num = (\<lambda>p s. None), rt_str_float = (\<lambda>x. []), rt_fmt_fixed = (\<lambda>n x. [])\<rparr>"

lemmas fx_defs = fx_A_def fx_B_def fx_C_def fx_D_def fx_row_def

lemma fx_sqrt_aux: "sqrt 36 = 6" "sqrt 25 = 5" "sqrt 100 = 10" "sqrt 4 = 2" "sqrt 625 = 25"
  by (simp_all add: real_sqrt_unique power2_eq_square)

lemma fx_sqrt: "sqrt 36 = 6" "sqrt 25 = 5" "sqrt 100 = 10" "sqrt (625 / 4) = 25 / 2" "sqrt 625 = 25"
  by (simp_all add: fx_sqrt_aux real_sqrt_divide)

lemma fx_scaler_fit: "scaler_fit fx_rows = Inr fx_scaler"
  by (simp add: scaler_fit_def fx_rows_def fx_defs fx_scaler_def features_def col_mean_def
      col_var_def handle_zero_scale_def fx_sqrt power2_eq_square)

lemma fx_centroids: "filter is_centroid fx_rows = [fx_A, fx_C]"
  by (simp add: fx_rows_def fx_defs)

lemma fx_engine_init: "engine_init fx_rows = Inr fx_engine"
  by (simp add: engine_init_def fx_scaler_fit fx_engine_def fx_centroids)

lemma fx_fields [simp]:
  "month fx_A = 1" "month fx_B = 2" "month fx_C = 1" "month fx_D = 7"
  "region fx_A = ''Central''" "region fx_B = ''South''" "region fx_C = ''Central''" "region fx_D = ''North''"
  "terrain fx_A = ''coast''" "terrain fx_B = ''coast''" "terrain fx_C = ''mountain''" "terrain fx_D = ''mountain''"
  "cluster fx_A = 0" "cluster fx_B = 0" "cluster fx_C = 1" "cluster fx_D = 1"
  "hci fx_A = 8" "hci fx_B = 9" "hci fx_C = 5" "hci fx_D = 9"
  "is_centroid fx_A" "\<not> is_centroid fx_B" "is_centroid fx_C" "\<not> is_centroid fx_D"
  by (simp_all add: fx_defs)

lemma fx_engine_fields [simp]:
  "df fx_engine = fx_rows" "centroids fx_engine = [fx_A, fx_C]" "eng_scaler fx_engine = fx_scaler"
  by (simp_all add: fx_engine_def)

lemma fx_rt_literal_ok: "rt_literal_ok fx_rt"
  by (simp add: rt_literal_ok_def fx_rt_def)

lemma fx_engine_wf: "engine_wf fx_engine"
  by (simp add: engine_wf_def fx_scaler_fit fx_centroids fx_engine_def)

end
