(* ===== verification/Matcher.thy ===== *)
theory Matcher
  imports Fixture
begin

text \<open>
  The nearest-centroid matcher, \<open>TravelRecommendationEngine.find_best_cluster\<close>
  (\<open>src/clustering.py\<close>, lines 26--52): the preference dictionary becomes a
  five-element vector (\<open>user_vector\<close>, with the defaults 20.0 and 50.0 for
  precipitation and cloud cover and a \<open>KeyError\<close> for the other three keys),
  is normalised with the engine's fitted scaler, and the cluster of the centroid
  row at the least Euclidean distance is returned; \<open>np_argmin\<close> keeps the
  first index of the minimum, so ties go to the earlier centroid row.
\<close>

definition euclidean_distance :: "real list \<Rightarrow> real list \<Rightarrow> real" where
  "euclidean_distance u v = sqrt (sum_list (map (\<lambda>(a, b). (a - b)\<^sup>2) (zip u v)))"

text \<open>\<open>np.argmin\<close>: one scan that replaces the best index only on a strictly
  smaller value; an empty input raises \<open>ValueError\<close>.\<close>

fun argmin_scan :: "nat \<Rightarrow> nat \<Rightarrow> real \<Rightarrow> real list \<Rightarrow> nat" where
  "argmin_scan i bi b [] = bi"
| "argmin_scan i bi b (x # xs) =
     (if x < b then argmin_scan (Suc i) i x xs else argmin_scan (Suc i) bi b xs)"

definition np_argmin :: "real list \<Rightarrow> error + nat" where
  "np_argmin xs =
     (case xs of
        [] \<Rightarrow> Inl (ValueError ''attempt to get argmin of an empty sequence'')
      | x # rest \<Rightarrow> Inr (argmin_scan 1 0 x rest))"

text \<open>The reference meaning of "first index of the minimum".\<close>

definition is_argmin :: "real list \<Rightarrow> nat \<Rightarrow> bool" where
  "is_argmin xs i \<longleftrightarrow>
     i < length xs \<and> (\<forall>j < length xs. xs ! i \<le> xs ! j) \<and> (\<forall>j < i. xs ! i < xs ! j)"

definition user_vector :: "prefs \<Rightarrow> error + real option list" where
  "user_vector p =
     (case dict_index ''avgtemp_c'' (pref_avgtemp_c p) of
        Inl err \<Rightarrow> Inl err
      | Inr t \<Rightarrow>
          (case dict_index ''maxwind_kph'' (pref_maxwind_kph p) of
             Inl err \<Rightarrow> Inl err
           | Inr w \<Rightarrow>
               (case dict_index ''avghumidity'' (pref_avghumidity p) of
                  Inl err \<Rightarrow> Inl err
                | Inr h \<Rightarrow>
                    Inr [t, w, dict_get (pref_totalprecip_mm p) 20, h,
                         dict_get (pref_cloud_cover_mean p) 50])))"

definition centroid_distances :: "engine \<Rightarrow> real list \<Rightarrow> real list" where
  "centroid_distances e us =
     map (\<lambda>r. euclidean_distance us (scaler_transform (eng_scaler e) (feature_vector r))) (centroids e)"

definition find_best_cluster :: "engine \<Rightarrow> prefs \<Rightarrow> error + int" where
  "find_best_cluster e p =
     (case user_vector p of
        Inl err \<Rightarrow> Inl err
      | Inr uv \<Rightarrow>
          (case scaler_transform_checked (eng_scaler e) uv of
             Inl err \<Rightarrow> Inl err
           | Inr us \<Rightarrow>
               (if centroids e = [] then Inl (ValueError ''Found array with 0 sample(s)'')
                else (case np_argmin (centroid_distances e us) of
                        Inl err \<Rightarrow> Inl err
                      | Inr i \<Rightarrow> Inr (cluster (centroids e ! i))))))"

text \<open>A preference dictionary holding exactly the five weather values of a row.\<close>

definition prefs_of_weather :: "real list \<Rightarrow> prefs" where
  "prefs_of_weather w =
     \<lparr>pref_avgtemp_c = Val (w ! 0), pref_maxwind_kph = Val (w ! 1),
      pref_totalprecip_mm = Val (w ! 2), pref_avghumidity = Val (w ! 3),
      pref_cloud_cover_mean = Val (w ! 4), pref_month = Null, pref_region = Null,
      pref_terrain = Null, pref_preferences = Absent\<rparr>"

text \<open>The weather keys are usable: the three indexed keys hold numbers and the two
  keys read with a default are not stored as null.\<close>

definition weather_complete :: "prefs \<Rightarrow> bool" where
  "weather_complete p \<longleftrightarrow>
     (\<exists>t. pref_avgtemp_c p = Val t) \<and> (\<exists>w. pref_maxwind_kph p = Val w) \<and>
     (\<exists>h. pref_avghumidity p = Val h) \<and>
     pref_totalprecip_mm p \<noteq> Null \<and> pref_cloud_cover_mean p \<noteq> Null"

subsection \<open>The argmin scan against its reference\<close>

lemma argmin_scan_is_argmin:
  assumes "bi < length pre" "b = pre ! bi" "\<forall>j < length pre. b \<le> pre ! j" "\<forall>j < bi. b < pre ! j"
  shows "is_argmin (pre @ xs) (argmin_scan (length pre) bi b xs)"
  using assms
proof (induction xs arbitrary: pre bi b)
  case Nil
  then show ?case by (simp add: is_argmin_def)
next
  case (Cons x xs)
  show ?case
  proof (cases "x < b")
    case True
    have "is_argmin ((pre @ [x]) @ xs) (argmin_scan (length (pre @ [x])) (length pre) x xs)"
      using True Cons.prems
      by (intro Cons.IH) (auto simp: nth_append less_Suc_eq)
    with True show ?thesis by simp
  next
    case False
    have "is_argmin ((pre @ [x]) @ xs) (argmin_scan (length (pre @ [x])) bi b xs)"
      using False Cons.prems
      by (intro Cons.IH) (auto simp: nth_append less_Suc_eq)
    with False show ?thesis by simp
  qed
qed

lemma is_argmin_unique: "is_argmin xs i \<Longrightarrow> is_argmin xs j \<Longrightarrow> i = j"
  unfolding is_argmin_def by (metis linorder_neqE_nat not_less)

lemma np_argmin_Inl [simp]: "np_argmin xs = Inl err \<longleftrightarrow> xs = [] \<and> err = ValueError ''attempt to get argmin of an empty sequence''"
  by (auto simp: np_argmin_def split: list.splits)

lemma np_argmin_iff: "np_argmin xs = Inr i \<longleftrightarrow> is_argmin xs i"
proof (cases xs)
  case Nil
  then show ?thesis by (simp add: np_argmin_def is_argmin_def)
next
  case (Cons x rest)
  have "is_argmin ([x] @ rest) (argmin_scan (length [x]) 0 x rest)"
    by (rule argmin_scan_is_argmin) auto
  then have "is_argmin xs (argmin_scan 1 0 x rest)" using Cons by simp
  then show ?thesis
    using Cons is_argmin_unique by (auto simp: np_argmin_def)
qed


subsection \<open>Distances\<close>

lemma euclidean_distance_nonneg: "0 \<le> euclidean_distance u v"
  by (auto simp: euclidean_distance_def intro!: sum_list_nonneg)

lemma euclidean_distance_eq_0:
  assumes "length u = length v"
  shows "euclidean_distance u v = 0 \<longleftrightarrow> u = v"
proof -
  let ?sq = "map (\<lambda>(a, b). (a - b)\<^sup>2) (zip u v) :: real list"
  have "sum_list ?sq = 0 \<longleftrightarrow> (\<forall>x \<in> set ?sq. x = 0)"
    by (rule sum_list_nonneg_eq_0_iff) auto
  then have "euclidean_distance u v = 0 \<longleftrightarrow> (\<forall>(a, b) \<in> set (zip u v). a = b)"
    by (auto simp: euclidean_distance_def)
  also have "\<dots> \<longleftrightarrow> u = v"
    using assms by (auto simp: list_eq_iff_zip_eq)
  finally show ?thesis .
qed

lemma length_centroid_distances [simp]: "length (centroid_distances e us) = length (centroids e)"
  by (simp add: centroid_distances_def)

lemma nth_centroid_distances:
  "i < length (centroids e) \<Longrightarrow>
   centroid_distances e us ! i = euclidean_distance us (scaler_transform (eng_scaler e) (feature_vector (centroids e ! i)))"
  by (simp add: centroid_distances_def)

subsection \<open>The preference vector\<close>

lemma user_vector_complete:
  "weather_complete p \<Longrightarrow> \<exists>uv. user_vector p = Inr uv \<and> None \<notin> set uv"
  by (cases "pref_totalprecip_mm p"; cases "pref_cloud_cover_mean p")
     (auto simp: weather_complete_def user_vector_def)

lemma user_vector_prefs_of_weather:
  "length w = 5 \<Longrightarrow> user_vector (prefs_of_weather w) = Inr (map Some w)"
  by (auto simp: user_vector_def prefs_of_weather_def dest!: length5_cases)

lemma scaler_transform_checked_Some [simp]:
  "scaler_transform_checked sc (map Some v) = Inr (scaler_transform sc v)"
  by (auto simp: scaler_transform_checked_def comp_def)

lemma scaler_transform_checked_total:
  "None \<notin> set uv \<Longrightarrow> \<exists>us. scaler_transform_checked sc uv = Inr us"
  by (simp add: scaler_transform_checked_def)

lemma incomplete_user_vector_fails:
  "\<not> weather_complete p \<Longrightarrow>
   (case user_vector p of Inl err \<Rightarrow> True | Inr uv \<Rightarrow> None \<in> set uv)"
  by (cases "pref_avgtemp_c p"; cases "pref_maxwind_kph p"; cases "pref_avghumidity p";
      cases "pref_totalprecip_mm p"; cases "pref_cloud_cover_mean p")
     (auto simp: weather_complete_def user_vector_def)

subsection \<open>Functional behaviour of \<open>find_best_cluster\<close>\<close>

lemma find_best_cluster_Inr:
  "find_best_cluster e p = Inr c \<longleftrightarrow>
     (\<exists>uv us i. user_vector p = Inr uv \<and> scaler_transform_checked (eng_scaler e) uv = Inr us \<and>
                is_argmin (centroid_distances e us) i \<and> c = cluster (centroids e ! i))"
proof
  assume "find_best_cluster e p = Inr c"
  then show "\<exists>uv us i. user_vector p = Inr uv \<and> scaler_transform_checked (eng_scaler e) uv = Inr us \<and>
                is_argmin (centroid_distances e us) i \<and> c = cluster (centroids e ! i)"
    by (auto simp: find_best_cluster_def np_argmin_iff split: sum.splits if_splits)
next
  assume "\<exists>uv us i. user_vector p = Inr uv \<and> scaler_transform_checked (eng_scaler e) uv = Inr us \<and>
                is_argmin (centroid_distances e us) i \<and> c = cluster (centroids e ! i)"
  then obtain uv us i where uv: "user_vector p = Inr uv"
    and us: "scaler_transform_checked (eng_scaler e) uv = Inr us"
    and am: "is_argmin (centroid_distances e us) i" and c: "c = cluster (centroids e ! i)"
    by blast
  from am have ne: "centroids e \<noteq> []" by (auto simp: is_argmin_def)
  from am have "np_argmin (centroid_distances e us) = Inr i" by (simp add: np_argmin_iff)
  with uv us ne c show "find_best_cluster e p = Inr c" by (simp add: find_best_cluster_def)
qed

text \<open>C8. find_best_cluster only returns the cluster id of some centroid row.\<close>

theorem find_best_cluster_in_centroids:
  "find_best_cluster e p = Inr c \<Longrightarrow> \<exists>r \<in> set (centroids e). cluster r = c"
  by (auto simp: find_best_cluster_Inr is_argmin_def)

text \<open>C7. find_best_cluster returns the cluster of a centroid whose normalised distance to the normalised preference vector is least, and every earlier centroid row is strictly farther.\<close>

theorem find_best_cluster_nearest:
  assumes "find_best_cluster e p = Inr c"
  shows "\<exists>us i. scaler_transform_checked (eng_scaler e) (projr (user_vector p)) = Inr us \<and>
           i < length (centroids e) \<and> c = cluster (centroids e ! i) \<and>
           (\<forall>j < length (centroids e). centroid_distances e us ! i \<le> centroid_distances e us ! j) \<and>
           (\<forall>j < i. centroid_distances e us ! i < centroid_distances e us ! j)"
  using assms by (auto simp: find_best_cluster_Inr is_argmin_def)

lemma find_best_cluster_total:
  assumes "weather_complete p" and "centroids e \<noteq> []"
  shows "\<exists>c. find_best_cluster e p = Inr c"
proof -
  obtain uv where uv: "user_vector p = Inr uv" "None \<notin> set uv"
    using assms(1) by (blast dest: user_vector_complete)
  then obtain us where us: "scaler_transform_checked (eng_scaler e) uv = Inr us"
    by (blast dest: scaler_transform_checked_total)
  show ?thesis
    using assms(2) uv us by (simp add: find_best_cluster_def centroid_distances_def split: sum.splits)
qed

text \<open>C14. find_best_cluster raises exactly when a weather key is missing or null, or there are no centroid rows.\<close>

theorem find_best_cluster_fails_iff:
  "(\<exists>err. find_best_cluster e p = Inl err) \<longleftrightarrow> \<not> weather_complete p \<or> centroids e = []"
proof (cases "weather_complete p \<and> centroids e \<noteq> []")
  case True
  then show ?thesis using find_best_cluster_total [of p e] by auto
next
  case False
  show ?thesis
  proof (cases "weather_complete p")
    case inc: False
    then show ?thesis
      using incomplete_user_vector_fails [OF inc]
      by (auto simp: find_best_cluster_def scaler_transform_checked_def split: sum.splits)
  next
    case True
    with False have "centroids e = []" by simp
    then show ?thesis
      by (auto simp: find_best_cluster_def split: sum.splits)
  qed
qed

subsection \<open>Round trip: a centroid's own weather selects its own cluster\<close>

lemma user_vector_month_indep [simp]: "user_vector (p\<lparr>pref_month := v\<rparr>) = user_vector p"
  by (simp add: user_vector_def cong: sum.case_cong)

lemma user_vector_region_indep [simp]: "user_vector (p\<lparr>pref_region := v\<rparr>) = user_vector p"
  by (simp add: user_vector_def cong: sum.case_cong)

lemma user_vector_terrain_indep [simp]: "user_vector (p\<lparr>pref_terrain := v\<rparr>) = user_vector p"
  by (simp add: user_vector_def cong: sum.case_cong)

lemma find_best_cluster_month_indep [simp]:
  "find_best_cluster e (p\<lparr>pref_month := v\<rparr>) = find_best_cluster e p"
  by (simp add: find_best_cluster_def)

lemma find_best_cluster_region_indep [simp]:
  "find_best_cluster e (p\<lparr>pref_region := v\<rparr>) = find_best_cluster e p"
  by (simp add: find_best_cluster_def)

lemma find_best_cluster_terrain_indep [simp]:
  "find_best_cluster e (p\<lparr>pref_terrain := v\<rparr>) = find_best_cluster e p"
  by (simp add: find_best_cluster_def)

lemma length_scaler_transform_fit:
  "scaler_fit rows = Inr sc \<Longrightarrow> length v = 5 \<Longrightarrow> length (scaler_transform sc v) = 5"
  by (simp add: scaler_fit_lengths)

text \<open>C22. Round trip: the weather of a centroid row, given as preferences, is matched to that row's own cluster when the centroid weather vectors are pairwise different.\<close>

theorem find_best_cluster_own_centroid:
  assumes wf: "engine_wf e" and r: "r \<in> set (centroids e)"
    and dist: "distinct (map feature_vector (centroids e))"
  shows "find_best_cluster e (prefs_of_weather (feature_vector r)) = Inr (cluster r)"
proof -
  let ?sc = "eng_scaler e" and ?cs = "centroids e"
  let ?us = "scaler_transform ?sc (feature_vector r)"
  let ?ds = "centroid_distances e ?us"
  have fit: "scaler_fit (df e) = Inr ?sc" using wf by (rule engine_wf_fit)
  from r obtain k where k: "k < length ?cs" "?cs ! k = r" by (auto simp: in_set_conv_nth)
  have len: "length (scaler_transform ?sc (feature_vector x)) = 5" for x
    by (rule length_scaler_transform_fit [OF fit]) simp
  have dk: "?ds ! k = 0"
    using k len by (simp add: nth_centroid_distances euclidean_distance_eq_0)
  have pos: "0 < ?ds ! j" if j: "j < length ?cs" "j \<noteq> k" for j
  proof -
    have "feature_vector (?cs ! j) \<noteq> feature_vector (?cs ! k)"
      using dist j k by (auto simp: distinct_conv_nth)
    then have "scaler_transform ?sc (feature_vector (?cs ! j)) \<noteq> ?us"
      using scaler_transform_inj [OF fit] k by auto
    then have "?ds ! j \<noteq> 0"
      using j len by (simp add: nth_centroid_distances euclidean_distance_eq_0)
    then show ?thesis
      using euclidean_distance_nonneg j by (simp add: nth_centroid_distances order_le_neq_trans)
  qed
  have nonneg: "0 \<le> ?ds ! j" if "j < length ?cs" for j
    using that by (simp add: nth_centroid_distances euclidean_distance_nonneg)
  have "is_argmin ?ds k"
    unfolding is_argmin_def using k dk pos nonneg by auto
  then have "np_argmin ?ds = Inr k" by (simp add: np_argmin_iff)
  moreover have "?cs \<noteq> []" using r by auto
  ultimately show ?thesis
    using k by (simp add: find_best_cluster_def user_vector_prefs_of_weather)
qed

subsection \<open>The example of the specification\<close>

lemma fx_find_best_cluster: "find_best_cluster fx_engine fx_pref = Inr 0"
  by (simp add: find_best_cluster_def user_vector_def fx_pref_def fx_engine_def fx_scaler_def
      scaler_transform_checked_def scaler_transform_def centroid_distances_def euclidean_distance_def
      np_argmin_def feature_vector_def features_def fx_defs power2_eq_square)

end
