(* ===== verification/Pipeline.thy ===== *)
theory Pipeline
  imports Matcher
begin

text \<open>
  The filter-and-rank pipeline, \<open>TravelRecommendationEngine.get_recommendations\<close>
  (\<open>src/clustering.py\<close>, lines 54--108), in the three stages the code runs:
  \<^item> \<open>filter_stage\<close> (lines 69--88): month, then region, then terrain, each applied
    only when the key holds a value and only when it leaves at least one row
    (\<open>guarded_filter\<close>);
  \<^item> \<open>cluster_stage\<close> (lines 90--100): an empty working set falls back to the
    nearest cluster's rows; a working set of more than \<open>2 * top_k\<close> rows is narrowed
    to the nearest cluster when that leaves something; otherwise it is kept;
  \<^item> sorting by \<open>hci\<close> descending, \<open>head(top_k)\<close> and \<open>_row_to_dict\<close>
    (lines 102--108).
  The sort is pandas' \<open>sort_values('hci', ascending=False)\<close> with its default
  algorithm, which promises a permutation ordered by \<open>hci\<close> and nothing about ties.
  It is therefore a parameter \<open>srt\<close> of \<open>get_recommendations_with\<close>, constrained by
  the contract \<open>sort_desc_ok\<close>; \<open>sort_values_stable\<close> is the stable sort
  (\<open>kind='stable'\<close>) that the specification asks for.
\<close>

record recommendation =
  rec_city :: string
  rec_province :: string
  rec_region :: string
  rec_terrain :: string
  rec_lat :: real
  rec_lon :: real
  rec_month :: int
  rec_avgtemp_c :: real
  rec_maxwind_kph :: real
  rec_totalprecip_mm :: real
  rec_avghumidity :: real
  rec_cloud_cover_mean :: real
  rec_score :: real
  rec_cluster :: int

definition row_to_dict :: "obs \<Rightarrow> recommendation" where
  "row_to_dict r =
     \<lparr>rec_city = name r, rec_province = province r, rec_region = region r,
      rec_terrain = terrain r, rec_lat = lat r, rec_lon = lon r, rec_month = month r,
      rec_avgtemp_c = avgtemp_c r, rec_maxwind_kph = maxwind_kph r,
      rec_totalprecip_mm = totalprecip_mm r, rec_avghumidity = avghumidity r,
      rec_cloud_cover_mean = cloud_cover_mean r, rec_score = hci r, rec_cluster = cluster r\<rparr>"

definition sort_desc_ok :: "(obs list \<Rightarrow> obs list) \<Rightarrow> bool" where
  "sort_desc_ok srt \<longleftrightarrow>
     (\<forall>xs. mset (srt xs) = mset xs \<and> sorted_wrt (\<lambda>a b. hci b \<le> hci a) (srt xs))"

definition sort_values_stable :: "obs list \<Rightarrow> obs list" where
  "sort_values_stable xs = sort_key (\<lambda>r. - hci r) xs"

text \<open>One categorical filter: skipped when the key holds no value.\<close>

definition optional_filter :: "'a option \<Rightarrow> ('a \<Rightarrow> obs \<Rightarrow> bool) \<Rightarrow> obs list \<Rightarrow> obs list" where
  "optional_filter v P xs = (case v of None \<Rightarrow> xs | Some a \<Rightarrow> guarded_filter (P a) xs)"

definition month_stage :: "prefs \<Rightarrow> obs list \<Rightarrow> obs list" where
  "month_stage p xs = optional_filter (dict_get_opt (pref_month p)) (\<lambda>m r. real_of_int (month r) = m) xs"

definition region_stage :: "prefs \<Rightarrow> obs list \<Rightarrow> obs list" where
  "region_stage p xs = optional_filter (dict_get_opt (pref_region p)) (\<lambda>g r. region r = g) xs"

definition terrain_stage :: "prefs \<Rightarrow> obs list \<Rightarrow> obs list" where
  "terrain_stage p xs = optional_filter (dict_get_opt (pref_terrain p)) (\<lambda>t r. terrain r = t) xs"

definition filter_stage :: "prefs \<Rightarrow> obs list \<Rightarrow> obs list" where
  "filter_stage p xs = terrain_stage p (region_stage p (month_stage p xs))"

definition cluster_stage :: "engine \<Rightarrow> prefs \<Rightarrow> int \<Rightarrow> obs list \<Rightarrow> error + obs list" where
  "cluster_stage e p top_k xs =
     (if length xs = 0 then
        (case find_best_cluster e p of
           Inl err \<Rightarrow> Inl err
         | Inr c \<Rightarrow> Inr (filter (\<lambda>r. cluster r = c) (df e)))
      else if top_k * 2 < int (length xs) then
        (case find_best_cluster e p of
           Inl err \<Rightarrow> Inl err
         | Inr c \<Rightarrow> Inr (guarded_filter (\<lambda>r. cluster r = c) xs))
      else Inr xs)"

definition get_recommendations_with ::
  "(obs list \<Rightarrow> obs list) \<Rightarrow> engine \<Rightarrow> prefs \<Rightarrow> int \<Rightarrow> error + recommendation list" where
  "get_recommendations_with srt e p top_k =
     (case cluster_stage e p top_k (filter_stage p (df e)) of
        Inl err \<Rightarrow> Inl err
      | Inr xs \<Rightarrow> Inr (map row_to_dict (py_head top_k (srt xs))))"

text \<open>The contract of top-\<open>k\<close> selection that sorting and truncating implement:
  at most \<open>k\<close> rows of the working set, best first, and no row left out scores
  higher than a row taken.\<close>

definition top_k_spec :: "int \<Rightarrow> obs list \<Rightarrow> obs list \<Rightarrow> bool" where
  "top_k_spec k ws ys \<longleftrightarrow>
     mset ys \<subseteq># mset ws \<and> length ys = min (nat k) (length ws) \<and>
     sorted_wrt (\<lambda>a b. hci b \<le> hci a) ys \<and>
     (\<forall>r \<in># mset ws - mset ys. \<forall>y \<in> set ys. hci r \<le> hci y)"

subsection \<open>The stages\<close>

lemma optional_filter_filter: "\<exists>Q'. optional_filter v P (filter Q xs) = filter Q' xs"
  by (cases v) (auto simp: optional_filter_def guarded_filter_filter)

lemma optional_filter_Nil_iff [simp]: "optional_filter v P xs = [] \<longleftrightarrow> xs = []"
  by (cases v) (simp_all add: optional_filter_def)

lemma filter_stage_filter: "\<exists>Q'. filter_stage p (filter Q xs) = filter Q' xs"
proof -
  obtain Q1 where 1: "month_stage p (filter Q xs) = filter Q1 xs"
    using optional_filter_filter unfolding month_stage_def by blast
  obtain Q2 where 2: "region_stage p (filter Q1 xs) = filter Q2 xs"
    using optional_filter_filter unfolding region_stage_def by blast
  obtain Q3 where 3: "terrain_stage p (filter Q2 xs) = filter Q3 xs"
    using optional_filter_filter unfolding terrain_stage_def by blast
  show ?thesis
    using 1 2 3 by (auto simp: filter_stage_def)
qed

lemma filter_stage_is_filter: "\<exists>Q. filter_stage p xs = filter Q xs"
  using filter_stage_filter [of p "\<lambda>_. True" xs] by simp

lemma filter_stage_Nil_iff [simp]: "filter_stage p xs = [] \<longleftrightarrow> xs = []"
  by (simp add: filter_stage_def month_stage_def region_stage_def terrain_stage_def)

lemma cluster_stage_is_filter:
  assumes "cluster_stage e p k (filter Q (df e)) = Inr ws"
  shows "\<exists>Q'. ws = filter Q' (df e)"
  using assms guarded_filter_filter [of "\<lambda>r. cluster r = _" Q "df e"]
  by (auto simp: cluster_stage_def split: if_splits sum.splits)

subsection \<open>The sort contract\<close>

lemma sort_desc_okD:
  assumes "sort_desc_ok srt"
  shows "mset (srt xs) = mset xs" and "set (srt xs) = set xs" and "length (srt xs) = length xs"
    and "sorted_wrt (\<lambda>a b. hci b \<le> hci a) (srt xs)"
  using assms by (auto simp: sort_desc_ok_def dest: mset_eq_setD mset_eq_length)

lemma sort_values_stable_ok: "sort_desc_ok sort_values_stable"
proof -
  have "sorted_wrt (\<lambda>a b. hci b \<le> hci a) (sort_key (\<lambda>r. - hci r) xs)" for xs
    using sorted_sort_key [of "\<lambda>r. - hci r" xs] by (simp add: sorted_map)
  then show ?thesis
    by (simp add: sort_desc_ok_def sort_values_stable_def) blast
qed

text \<open>With pairwise different scores the contract leaves no choice: every sort that
  meets it returns the stable order.\<close>

lemma sort_desc_ok_unique:
  assumes ok: "sort_desc_ok srt" and d: "distinct (map hci xs)"
  shows "srt xs = sort_values_stable xs"
proof -
  let ?f = "\<lambda>r. - hci r"
  have dneg: "distinct (map ?f xs)" using d by (simp add: distinct_map inj_on_def)
  have m: "mset (srt xs) = mset xs" using ok by (rule sort_desc_okD)
  have ds: "distinct (map ?f (srt xs))"
    using dneg mset_eq_imp_distinct_iff [of "map ?f (srt xs)" "map ?f xs"] m by simp
  have set_eq: "set (srt xs) = set xs" using m by (rule mset_eq_setD)
  have filt: "filter (\<lambda>x. ?f k = ?f x) (srt xs) = filter (\<lambda>x. ?f k = ?f x) xs"
    if k: "k \<in> set (srt xs)" for k
  proof -
    have "filter (\<lambda>x. ?f k = ?f x) (srt xs) = [k]" by (rule filter_distinct_key [OF ds k])
    moreover have "filter (\<lambda>x. ?f k = ?f x) xs = [k]"
      using k set_eq by (intro filter_distinct_key [OF dneg]) simp
    ultimately show ?thesis by simp
  qed
  have srt: "sorted (map ?f (srt xs))"
    using sort_desc_okD(4) [OF ok, of xs] by (simp add: sorted_map)
  have "sort_key ?f xs = srt xs"
    by (rule properties_for_sort_key [OF m filt srt])
  then show ?thesis by (simp add: sort_values_stable_def)
qed

subsection \<open>The working set and the result\<close>

lemma rec_score_row_to_dict [simp]: "rec_score (row_to_dict r) = hci r"
  and rec_month_row_to_dict [simp]: "rec_month (row_to_dict r) = month r"
  and rec_region_row_to_dict [simp]: "rec_region (row_to_dict r) = region r"
  and rec_terrain_row_to_dict [simp]: "rec_terrain (row_to_dict r) = terrain r"
  and rec_cluster_row_to_dict [simp]: "rec_cluster (row_to_dict r) = cluster r"
  by (simp_all add: row_to_dict_def)

lemma get_recommendations_with_Inr:
  "get_recommendations_with srt e p k = Inr recs \<longleftrightarrow>
     (\<exists>ws. cluster_stage e p k (filter_stage p (df e)) = Inr ws \<and>
           recs = map row_to_dict (py_head k (srt ws)))"
  by (auto simp: get_recommendations_with_def split: sum.splits)

lemma working_set_is_filter:
  "cluster_stage e p k (filter_stage p (df e)) = Inr ws \<Longrightarrow> \<exists>Q. ws = filter Q (df e)"
proof -
  assume ws: "cluster_stage e p k (filter_stage p (df e)) = Inr ws"
  obtain Q where "filter_stage p (df e) = filter Q (df e)"
    using filter_stage_is_filter by blast
  with ws show ?thesis by (auto intro: cluster_stage_is_filter)
qed

lemma cluster_stage_subset:
  "cluster_stage e p k xs = Inr ws \<Longrightarrow> xs \<noteq> [] \<Longrightarrow> set ws \<subseteq> set xs"
  by (auto simp: cluster_stage_def split: if_splits sum.splits)

lemma result_rows:
  assumes ok: "sort_desc_ok srt" and res: "get_recommendations_with srt e p k = Inr recs"
    and x: "x \<in> set recs"
  shows "\<exists>ws r. cluster_stage e p k (filter_stage p (df e)) = Inr ws \<and> r \<in> set ws \<and> x = row_to_dict r"
  using res x sort_desc_okD(2) [OF ok] by (fastforce simp: get_recommendations_with_Inr dest: set_py_head)

lemma set_month_stage: "set (month_stage p xs) \<subseteq> set xs"
  and set_region_stage: "set (region_stage p xs) \<subseteq> set xs"
  and set_terrain_stage: "set (terrain_stage p xs) \<subseteq> set xs"
  by (auto simp: month_stage_def region_stage_def terrain_stage_def optional_filter_def
      split: option.splits)

lemma result_from_filter_stage:
  assumes ok: "sort_desc_ok srt" and res: "get_recommendations_with srt e p k = Inr recs"
    and x: "x \<in> set recs"
  shows "\<exists>r \<in> set (filter_stage p (df e)). x = row_to_dict r"
proof -
  obtain ws r where ws: "cluster_stage e p k (filter_stage p (df e)) = Inr ws"
    and r: "r \<in> set ws" and xr: "x = row_to_dict r"
    using result_rows [OF ok res x] by blast
  have ne: "filter_stage p (df e) \<noteq> []"
  proof
    assume "filter_stage p (df e) = []"
    then have "df e = []" by simp
    with ws r show False by (auto simp: cluster_stage_def split: sum.splits)
  qed
  with ws r xr show ?thesis using cluster_stage_subset by blast
qed

lemma filter_stage_in_region_stage:
  "set (filter_stage p xs) \<subseteq> set (region_stage p (month_stage p xs))"
  by (simp add: filter_stage_def set_terrain_stage)

lemma filter_stage_in_month_stage: "set (filter_stage p xs) \<subseteq> set (month_stage p xs)"
  using filter_stage_in_region_stage set_region_stage by blast

lemma optional_filter_hit:
  "v = Some a \<Longrightarrow> \<exists>x \<in> set xs. P a x \<Longrightarrow> optional_filter v P xs = filter (P a) xs"
  by (simp add: optional_filter_def guarded_filter_hit)

subsection \<open>Properties of \<open>get_recommendations\<close>\<close>

text \<open>C2. For a non-negative top_k the engine returns at most top_k recommendations.\<close>

theorem get_recommendations_at_most_top_k:
  "get_recommendations_with srt e p k = Inr recs \<Longrightarrow> 0 \<le> k \<Longrightarrow> int (length recs) \<le> k"
  by (auto simp: get_recommendations_with_Inr length_py_head_le)

text \<open>C1. The recommendations come out ordered by score (hci), highest first, for every sort that meets pandas' contract.\<close>

theorem get_recommendations_sorted:
  "sort_desc_ok srt \<Longrightarrow> get_recommendations_with srt e p k = Inr recs \<Longrightarrow>
   sorted_wrt (\<lambda>a b. rec_score b \<le> rec_score a) recs"
proof -
  assume ok: "sort_desc_ok srt" and res: "get_recommendations_with srt e p k = Inr recs"
  then obtain ws where recs: "recs = map row_to_dict (py_head k (srt ws))"
    by (auto simp: get_recommendations_with_Inr)
  have "sorted_wrt (\<lambda>a b. hci b \<le> hci a) (py_head k (srt ws))"
    using sort_desc_okD(4) [OF ok] by (rule sorted_wrt_py_head)
  then show ?thesis by (simp add: recs sorted_wrt_map)
qed

text \<open>C3. Every recommendation is the dictionary of a row of the loaded dataset.\<close>

theorem get_recommendations_from_dataset:
  "sort_desc_ok srt \<Longrightarrow> get_recommendations_with srt e p k = Inr recs \<Longrightarrow> x \<in> set recs \<Longrightarrow>
   \<exists>r \<in> set (df e). x = row_to_dict r"
proof -
  assume ok: "sort_desc_ok srt" and res: "get_recommendations_with srt e p k = Inr recs"
    and x: "x \<in> set recs"
  obtain r where "r \<in> set (filter_stage p (df e))" and "x = row_to_dict r"
    using result_from_filter_stage [OF ok res x] by blast
  moreover have "set (filter_stage p (df e)) \<subseteq> set (df e)"
    using filter_stage_in_month_stage set_month_stage by blast
  ultimately show ?thesis by blast
qed

text \<open>C4. When a month is asked for and some row has that month, every recommendation has that month.\<close>

theorem get_recommendations_month:
  assumes ok: "sort_desc_ok srt" and res: "get_recommendations_with srt e p k = Inr recs"
    and m: "dict_get_opt (pref_month p) = Some m"
    and hit: "\<exists>r \<in> set (df e). real_of_int (month r) = m" and x: "x \<in> set recs"
  shows "real_of_int (rec_month x) = m"
proof -
  obtain r where r: "r \<in> set (filter_stage p (df e))" and xr: "x = row_to_dict r"
    using result_from_filter_stage [OF ok res x] by blast
  have "month_stage p (df e) = filter (\<lambda>r. real_of_int (month r) = m) (df e)"
    using m hit by (simp add: month_stage_def optional_filter_hit)
  with r xr show ?thesis using filter_stage_in_month_stage by fastforce
qed

text \<open>C15. When a region is asked for and some row of the month-narrowed set has it, every recommendation has that region.\<close>

theorem get_recommendations_region:
  assumes ok: "sort_desc_ok srt" and res: "get_recommendations_with srt e p k = Inr recs"
    and g: "dict_get_opt (pref_region p) = Some g"
    and hit: "\<exists>r \<in> set (month_stage p (df e)). region r = g" and x: "x \<in> set recs"
  shows "rec_region x = g"
proof -
  obtain r where r: "r \<in> set (filter_stage p (df e))" and xr: "x = row_to_dict r"
    using result_from_filter_stage [OF ok res x] by blast
  have "region_stage p (month_stage p (df e)) = filter (\<lambda>r. region r = g) (month_stage p (df e))"
    using g hit by (simp add: region_stage_def optional_filter_hit)
  with r xr show ?thesis using filter_stage_in_region_stage by fastforce
qed

text \<open>C16. When a terrain is asked for and some row of the region-narrowed set has it, every recommendation has that terrain.\<close>

theorem get_recommendations_terrain:
  assumes ok: "sort_desc_ok srt" and res: "get_recommendations_with srt e p k = Inr recs"
    and t: "dict_get_opt (pref_terrain p) = Some t"
    and hit: "\<exists>r \<in> set (region_stage p (month_stage p (df e))). terrain r = t"
    and x: "x \<in> set recs"
  shows "rec_terrain x = t"
proof -
  obtain r where r: "r \<in> set (filter_stage p (df e))" and xr: "x = row_to_dict r"
    using result_from_filter_stage [OF ok res x] by blast
  have "filter_stage p (df e) = filter (\<lambda>r. terrain r = t) (region_stage p (month_stage p (df e)))"
    using t hit by (simp add: filter_stage_def terrain_stage_def optional_filter_hit)
  with r xr show ?thesis by auto
qed

text \<open>C5. A month that no row has is ignored: the result equals the result for the same preferences with no month.\<close>

theorem get_recommendations_month_skipped:
  assumes "\<forall>r \<in> set (df e). real_of_int (month r) \<noteq> m"
  shows "get_recommendations_with srt e (p\<lparr>pref_month := Val m\<rparr>) k =
         get_recommendations_with srt e (p\<lparr>pref_month := Null\<rparr>) k"
proof -
  have "month_stage (p\<lparr>pref_month := Val m\<rparr>) (df e) = month_stage (p\<lparr>pref_month := Null\<rparr>) (df e)"
    using assms by (simp add: month_stage_def optional_filter_def guarded_filter_miss)
  then have "filter_stage (p\<lparr>pref_month := Val m\<rparr>) (df e) = filter_stage (p\<lparr>pref_month := Null\<rparr>) (df e)"
    by (simp add: filter_stage_def region_stage_def terrain_stage_def)
  then show ?thesis
    by (simp add: get_recommendations_with_def cluster_stage_def)
qed

text \<open>C21. For a loaded engine the filtered working set is never empty, so the cluster fallback branch of get_recommendations is never taken.\<close>

theorem get_recommendations_fallback_unreachable:
  "engine_wf e \<Longrightarrow> filter_stage p (df e) \<noteq> []"
  by (simp add: engine_wf_df_ne)

text \<open>C12. When the filtered working set has at most 2*top_k rows, it is ranked as it is, without consulting the matcher (so no matcher error can occur).\<close>

theorem get_recommendations_small_working_set:
  "df e \<noteq> [] \<Longrightarrow> int (length (filter_stage p (df e))) \<le> k * 2 \<Longrightarrow>
   get_recommendations_with srt e p k = Inr (map row_to_dict (py_head k (srt (filter_stage p (df e)))))"
  by (simp add: get_recommendations_with_def cluster_stage_def)

text \<open>C11. When the filtered working set has more than 2*top_k rows and some of them lie in the nearest cluster, every recommendation lies in that cluster.\<close>

theorem get_recommendations_cluster_narrowing:
  assumes ok: "sort_desc_ok srt" and big: "k * 2 < int (length (filter_stage p (df e)))"
    and c: "find_best_cluster e p = Inr c"
    and hit: "\<exists>r \<in> set (filter_stage p (df e)). cluster r = c"
    and res: "get_recommendations_with srt e p k = Inr recs" and x: "x \<in> set recs"
  shows "rec_cluster x = c"
proof -
  have ne: "filter_stage p (df e) \<noteq> []" using hit by (auto simp del: filter_stage_Nil_iff)
  have "cluster_stage e p k (filter_stage p (df e)) =
        Inr (filter (\<lambda>r. cluster r = c) (filter_stage p (df e)))"
    using ne big c hit by (simp add: cluster_stage_def guarded_filter_hit)
  then show ?thesis
    using result_rows [OF ok res x] by auto
qed

text \<open>C13. get_recommendations raises exactly when the matcher is consulted (empty or larger than 2*top_k working set) and the matcher raises.\<close>

theorem get_recommendations_fails_iff:
  "(\<exists>err. get_recommendations_with srt e p k = Inl err) \<longleftrightarrow>
   (filter_stage p (df e) = [] \<or> k * 2 < int (length (filter_stage p (df e)))) \<and>
   (\<exists>err. find_best_cluster e p = Inl err)"
  by (auto simp: get_recommendations_with_def cluster_stage_def split: sum.splits)

subsection \<open>Sorting and truncating implement top-\<open>k\<close> selection\<close>

lemma py_head_top_k_spec:
  assumes ok: "sort_desc_ok srt" and k: "0 \<le> k"
  shows "top_k_spec k ws (py_head k (srt ws))"
proof -
  let ?ys = "srt ws" and ?n = "nat k"
  have m: "mset ?ys = mset ws" and s: "sorted_wrt (\<lambda>a b. hci b \<le> hci a) ?ys"
    using ok by (rule sort_desc_okD)+
  have len: "length (take ?n ?ys) = min ?n (length ws)"
    using sort_desc_okD(3) [OF ok, of ws] by simp
  show ?thesis
    unfolding top_k_spec_def py_head_nonneg [OF k]
  proof (intro conjI)
    show "mset (take ?n ?ys) \<subseteq># mset ws"
      using mset_take_subseteq [of ?n ?ys] m by simp
    show "length (take ?n ?ys) = min ?n (length ws)" by (rule len)
    show "sorted_wrt (\<lambda>a b. hci b \<le> hci a) (take ?n ?ys)" using s by (rule sorted_wrt_take)
    have "mset ws - mset (take ?n ?ys) = mset (drop ?n ?ys)"
      using mset_minus_take [of ?ys ?n] m by simp
    then show "\<forall>r \<in># mset ws - mset (take ?n ?ys). \<forall>y \<in> set (take ?n ?ys). hci r \<le> hci y"
      using sorted_wrt_take_drop [OF s, of ?n] by auto
  qed
qed
text \<open>C6. Sorting and truncating the working set implement top-k selection: the result is at most k rows of the working set, best first, and no row left out scores higher than a row returned.\<close>

theorem get_recommendations_top_k:
  assumes ok: "sort_desc_ok srt" and k: "0 \<le> k"
    and res: "get_recommendations_with srt e p k = Inr recs"
  shows "\<exists>ws ys. cluster_stage e p k (filter_stage p (df e)) = Inr ws \<and>
                recs = map row_to_dict ys \<and> top_k_spec k ws ys"
proof -
  obtain ws where ws: "cluster_stage e p k (filter_stage p (df e)) = Inr ws"
    and recs: "recs = map row_to_dict (py_head k (srt ws))"
    using res by (auto simp: get_recommendations_with_Inr)
  show ?thesis
    using ws recs py_head_top_k_spec [OF ok k, of ws]
    by (intro exI [of _ ws] exI [of _ "py_head k (srt ws)"]) simp
qed


text \<open>C10. For a loaded engine with centroids, complete weather preferences and a positive top_k, the engine succeeds and returns at least one recommendation.\<close>

theorem get_recommendations_nonempty:
  assumes ok: "sort_desc_ok srt" and wf: "engine_wf e" and wc: "weather_complete p"
    and cs: "centroids e \<noteq> []" and k: "0 < k"
  shows "\<exists>recs. get_recommendations_with srt e p k = Inr recs \<and> recs \<noteq> []"
proof -
  let ?W = "filter_stage p (df e)"
  obtain c where c: "find_best_cluster e p = Inr c" using find_best_cluster_total [OF wc cs] by blast
  have W: "?W \<noteq> []" using wf by (simp add: engine_wf_df_ne)
  have "\<exists>ws. cluster_stage e p k ?W = Inr ws \<and> ws \<noteq> []"
  proof (cases "k * 2 < int (length ?W)")
    case True
    then show ?thesis using W c by (simp add: cluster_stage_def)
  next
    case False
    then show ?thesis using W by (simp add: cluster_stage_def)
  qed
  then obtain ws where ws: "cluster_stage e p k ?W = Inr ws" and ne: "ws \<noteq> []"
    by blast
  have "srt ws \<noteq> []" using ne sort_desc_okD(3) [OF ok, of ws] by auto
  then have "py_head k (srt ws) \<noteq> []" using k by (simp add: py_head_def)
  with ws show ?thesis by (simp add: get_recommendations_with_def)
qed

end
