(* ===== verification/Examples.thy ===== *)
theory Examples
  imports Pipeline
begin

text \<open>
  The scenarios of the specification run on the fixture engine, and the instances at
  which the lemmas of the dataset, matcher and pipeline theories are applied.
\<close>

lemma fx_srt:
  "sort_desc_ok srt \<Longrightarrow> distinct (map hci xs) \<Longrightarrow> srt xs = sort_key (\<lambda>r. - hci r) xs"
  using sort_desc_ok_unique by (simp add: sort_values_stable_def)

lemmas fx_run_simps = get_recommendations_with_def cluster_stage_def filter_stage_def
  month_stage_def region_stage_def terrain_stage_def optional_filter_def guarded_filter_def
  fx_rows_def fx_pref_def

lemma fx_run_k1: "sort_desc_ok srt \<Longrightarrow> get_recommendations_with srt fx_engine fx_pref 1 = Inr [row_to_dict fx_B]"
  by (simp add: fx_run_simps fx_find_best_cluster [unfolded fx_pref_def] fx_srt py_head_def)

lemma fx_run_month1:
  "sort_desc_ok srt \<Longrightarrow>
   get_recommendations_with srt fx_engine (fx_pref\<lparr>pref_month := Val 1\<rparr>) 5 = Inr [row_to_dict fx_A, row_to_dict fx_C]"
  by (simp add: fx_run_simps fx_srt py_head_def)

lemma fx_run_central:
  "sort_desc_ok srt \<Longrightarrow>
   get_recommendations_with srt fx_engine (fx_pref\<lparr>pref_region := Val ''Central''\<rparr>) 5 = Inr [row_to_dict fx_A, row_to_dict fx_C]"
  by (simp add: fx_run_simps fx_srt py_head_def)

lemma fx_run_mountain:
  "sort_desc_ok srt \<Longrightarrow>
   get_recommendations_with srt fx_engine (fx_pref\<lparr>pref_terrain := Val ''mountain''\<rparr>) 5 = Inr [row_to_dict fx_D, row_to_dict fx_C]"
  by (simp add: fx_run_simps fx_srt py_head_def)

lemma fx_filter_stage_pref [simp]: "filter_stage fx_pref fx_rows = fx_rows"
  by (simp add: filter_stage_def month_stage_def region_stage_def terrain_stage_def
      optional_filter_def fx_pref_def)

lemma fx_weather_complete: "weather_complete fx_pref"
  by (simp add: weather_complete_def fx_pref_def)

lemmas fx_k1_stable = fx_run_k1 [OF sort_values_stable_ok]

lemma fx_distinct_centroid_weather: "distinct (map feature_vector (centroids fx_engine))"
  by (simp add: feature_vector_def features_def fx_defs)

subsection \<open>Scenarios of the specification\<close>

text \<open>The month-5 scenario of the specification: no row has month 5, so the filter is skipped and the whole table is ranked; with the stable sort the two rows of score 9 keep their dataset order.\<close>

theorem get_recommendations_spec_month_example:
  "get_recommendations_with sort_values_stable fx_engine (fx_pref\<lparr>pref_month := Val 5\<rparr>) 5 =
   Inr (map row_to_dict [fx_B, fx_D, fx_A, fx_C])"
  by (simp add: fx_run_simps sort_values_stable_def py_head_def)




subsection \<open>Instances of the lemmas\<close>


theorem scaler_fit_zero_mean_witness:
  "scaler_fit fx_rows = Inr fx_scaler \<and> (0::nat) < 5 \<and>
   col_mean (map (\<lambda>r. scaler_transform fx_scaler (feature_vector r) ! 0) fx_rows) = 0"
  using scaler_fit_zero_mean [OF fx_scaler_fit, of 0] fx_scaler_fit by simp

theorem scaler_fit_unit_variance_witness:
  "scaler_fit fx_rows = Inr fx_scaler \<and> (0::nat) < 5 \<and> col_var (map (features ! 0) fx_rows) \<noteq> 0 \<and>
   col_var (map (\<lambda>r. scaler_transform fx_scaler (feature_vector r) ! 0) fx_rows) = 1"
proof -
  have v: "col_var (map (features ! 0) fx_rows) \<noteq> 0"
    by (simp add: col_var_def col_mean_def features_def fx_rows_def fx_defs power2_eq_square)
  show ?thesis
    using scaler_fit_unit_variance [OF fx_scaler_fit _ v] fx_scaler_fit v by simp
qed



theorem find_best_cluster_in_centroids_witness:
  "find_best_cluster fx_engine fx_pref = Inr 0 \<and> (\<exists>r \<in> set (centroids fx_engine). cluster r = 0)"
  using find_best_cluster_in_centroids [OF fx_find_best_cluster] fx_find_best_cluster by simp

theorem find_best_cluster_nearest_witness:
  "find_best_cluster fx_engine fx_pref = Inr 0 \<and>
   (\<exists>us i. scaler_transform_checked (eng_scaler fx_engine) (projr (user_vector fx_pref)) = Inr us \<and>
      i < length (centroids fx_engine) \<and> 0 = cluster (centroids fx_engine ! i) \<and>
      centroid_distances fx_engine us ! i \<le> centroid_distances fx_engine us ! 1)"
proof -
  from find_best_cluster_nearest [OF fx_find_best_cluster] obtain us i
    where u: "scaler_transform_checked (eng_scaler fx_engine) (projr (user_vector fx_pref)) = Inr us"
      and i: "i < length (centroids fx_engine)" and c: "0 = cluster (centroids fx_engine ! i)"
      and le: "\<forall>j < length (centroids fx_engine).
                 centroid_distances fx_engine us ! i \<le> centroid_distances fx_engine us ! j"
    by blast
  have "centroid_distances fx_engine us ! i \<le> centroid_distances fx_engine us ! 1"
    using le by simp
  with u i c show ?thesis
    by (intro conjI fx_find_best_cluster exI [of _ us] exI [of _ i])
qed

theorem find_best_cluster_own_centroid_witness:
  "engine_wf fx_engine \<and> fx_A \<in> set (centroids fx_engine) \<and>
   distinct (map feature_vector (centroids fx_engine)) \<and>
   find_best_cluster fx_engine (prefs_of_weather (feature_vector fx_A)) = Inr (cluster fx_A)"
proof -
  have a: "fx_A \<in> set (centroids fx_engine)" by simp
  show ?thesis
    using find_best_cluster_own_centroid [OF fx_engine_wf a fx_distinct_centroid_weather]
      fx_engine_wf a fx_distinct_centroid_weather by simp
qed

theorem get_recommendations_at_most_top_k_witness:
  "get_recommendations_with sort_values_stable fx_engine fx_pref 1 = Inr [row_to_dict fx_B] \<and>
   (0::int) \<le> 1 \<and> int (length [row_to_dict fx_B]) \<le> 1"
  using get_recommendations_at_most_top_k [OF fx_k1_stable] fx_k1_stable by simp

theorem get_recommendations_sorted_witness:
  "sort_desc_ok sort_values_stable \<and>
   get_recommendations_with sort_values_stable fx_engine fx_pref 1 = Inr [row_to_dict fx_B] \<and>
   sorted_wrt (\<lambda>a b. rec_score b \<le> rec_score a) [row_to_dict fx_B]"
  using get_recommendations_sorted [OF sort_values_stable_ok fx_k1_stable]
    sort_values_stable_ok fx_k1_stable by simp

theorem get_recommendations_from_dataset_witness:
  "sort_desc_ok sort_values_stable \<and>
   get_recommendations_with sort_values_stable fx_engine fx_pref 1 = Inr [row_to_dict fx_B] \<and>
   row_to_dict fx_B \<in> set [row_to_dict fx_B] \<and> (\<exists>r \<in> set (df fx_engine). row_to_dict fx_B = row_to_dict r)"
  using get_recommendations_from_dataset [OF sort_values_stable_ok fx_k1_stable, of "row_to_dict fx_B"]
    sort_values_stable_ok fx_k1_stable by simp

theorem get_recommendations_month_witness:
  "sort_desc_ok sort_values_stable \<and>
   get_recommendations_with sort_values_stable fx_engine (fx_pref\<lparr>pref_month := Val 1\<rparr>) 5 =
     Inr [row_to_dict fx_A, row_to_dict fx_C] \<and>
   dict_get_opt (pref_month (fx_pref\<lparr>pref_month := Val 1\<rparr>)) = Some 1 \<and>
   (\<exists>r \<in> set (df fx_engine). real_of_int (month r) = 1) \<and>
   row_to_dict fx_A \<in> set [row_to_dict fx_A, row_to_dict fx_C] \<and>
   real_of_int (rec_month (row_to_dict fx_A)) = 1"
proof -
  have r: "get_recommendations_with sort_values_stable fx_engine (fx_pref\<lparr>pref_month := Val 1\<rparr>) 5 =
     Inr [row_to_dict fx_A, row_to_dict fx_C]" by (rule fx_run_month1 [OF sort_values_stable_ok])
  have m: "dict_get_opt (pref_month (fx_pref\<lparr>pref_month := Val 1\<rparr>)) = Some 1" by simp
  have h: "\<exists>r \<in> set (df fx_engine). real_of_int (month r) = 1" by (simp add: fx_rows_def)
  show ?thesis
    using get_recommendations_month [OF sort_values_stable_ok r m h, of "row_to_dict fx_A"]
      sort_values_stable_ok r h by simp
qed

theorem get_recommendations_region_witness:
  "sort_desc_ok sort_values_stable \<and>
   get_recommendations_with sort_values_stable fx_engine (fx_pref\<lparr>pref_region := Val ''Central''\<rparr>) 5 =
     Inr [row_to_dict fx_A, row_to_dict fx_C] \<and>
   dict_get_opt (pref_region (fx_pref\<lparr>pref_region := Val ''Central''\<rparr>)) = Some ''Central'' \<and>
   (\<exists>r \<in> set (month_stage (fx_pref\<lparr>pref_region := Val ''Central''\<rparr>) (df fx_engine)). region r = ''Central'') \<and>
   row_to_dict fx_C \<in> set [row_to_dict fx_A, row_to_dict fx_C] \<and>
   rec_region (row_to_dict fx_C) = ''Central''"
proof -
  have r: "get_recommendations_with sort_values_stable fx_engine (fx_pref\<lparr>pref_region := Val ''Central''\<rparr>) 5 =
     Inr [row_to_dict fx_A, row_to_dict fx_C]" by (rule fx_run_central [OF sort_values_stable_ok])
  have g: "dict_get_opt (pref_region (fx_pref\<lparr>pref_region := Val ''Central''\<rparr>)) = Some ''Central''" by simp
  have h: "\<exists>r \<in> set (month_stage (fx_pref\<lparr>pref_region := Val ''Central''\<rparr>) (df fx_engine)). region r = ''Central''"
    by (simp add: month_stage_def optional_filter_def fx_pref_def fx_rows_def)
  show ?thesis
    using get_recommendations_region [OF sort_values_stable_ok r g h, of "row_to_dict fx_C"]
      sort_values_stable_ok r h by simp
qed

theorem get_recommendations_terrain_witness:
  "sort_desc_ok sort_values_stable \<and>
   get_recommendations_with sort_values_stable fx_engine (fx_pref\<lparr>pref_terrain := Val ''mountain''\<rparr>) 5 =
     Inr [row_to_dict fx_D, row_to_dict fx_C] \<and>
   dict_get_opt (pref_terrain (fx_pref\<lparr>pref_terrain := Val ''mountain''\<rparr>)) = Some ''mountain'' \<and>
   (\<exists>r \<in> set (region_stage (fx_pref\<lparr>pref_terrain := Val ''mountain''\<rparr>)
            (month_stage (fx_pref\<lparr>pref_terrain := Val ''mountain''\<rparr>) (df fx_engine))). terrain r = ''mountain'') \<and>
   row_to_dict fx_D \<in> set [row_to_dict fx_D, row_to_dict fx_C] \<and>
   rec_terrain (row_to_dict fx_D) = ''mountain''"
proof -
  have r: "get_recommendations_with sort_values_stable fx_engine (fx_pref\<lparr>pref_terrain := Val ''mountain''\<rparr>) 5 =
     Inr [row_to_dict fx_D, row_to_dict fx_C]" by (rule fx_run_mountain [OF sort_values_stable_ok])
  have t: "dict_get_opt (pref_terrain (fx_pref\<lparr>pref_terrain := Val ''mountain''\<rparr>)) = Some ''mountain''" by simp
  have h: "\<exists>r \<in> set (region_stage (fx_pref\<lparr>pref_terrain := Val ''mountain''\<rparr>)
            (month_stage (fx_pref\<lparr>pref_terrain := Val ''mountain''\<rparr>) (df fx_engine))). terrain r = ''mountain''"
    by (simp add: month_stage_def region_stage_def optional_filter_def fx_pref_def fx_rows_def)
  show ?thesis
    using get_recommendations_terrain [OF sort_values_stable_ok r t h, of "row_to_dict fx_D"]
      sort_values_stable_ok r h by simp
qed

theorem get_recommendations_month_skipped_witness:
  "get_recommendations_with sort_values_stable fx_engine (fx_pref\<lparr>pref_month := Val 5\<rparr>) 5 =
   get_recommendations_with sort_values_stable fx_engine (fx_pref\<lparr>pref_month := Null\<rparr>) 5"
proof -
  have h: "\<forall>r \<in> set (df fx_engine). real_of_int (month r) \<noteq> 5" by (simp add: fx_rows_def)
  show ?thesis by (rule get_recommendations_month_skipped [OF h])
qed

theorem get_recommendations_fallback_unreachable_witness:
  "engine_wf fx_engine \<and> filter_stage fx_pref (df fx_engine) \<noteq> []"
  using get_recommendations_fallback_unreachable [OF fx_engine_wf] fx_engine_wf by simp

theorem get_recommendations_small_working_set_witness:
  "df fx_engine \<noteq> [] \<and> int (length (filter_stage fx_pref (df fx_engine))) \<le> 2 * 2 \<and>
   get_recommendations_with sort_values_stable fx_engine fx_pref 2 =
   Inr (map row_to_dict (py_head 2 (sort_values_stable (filter_stage fx_pref (df fx_engine)))))"
proof -
  have d: "df fx_engine \<noteq> []" by (simp add: fx_rows_def)
  have l: "int (length (filter_stage fx_pref (df fx_engine))) \<le> 2 * 2" by simp (simp add: fx_rows_def)
  show ?thesis using get_recommendations_small_working_set [OF d l] d l by simp
qed

theorem get_recommendations_cluster_narrowing_witness:
  "sort_desc_ok sort_values_stable \<and> 1 * 2 < int (length (filter_stage fx_pref (df fx_engine))) \<and>
   find_best_cluster fx_engine fx_pref = Inr 0 \<and>
   (\<exists>r \<in> set (filter_stage fx_pref (df fx_engine)). cluster r = 0) \<and>
   get_recommendations_with sort_values_stable fx_engine fx_pref 1 = Inr [row_to_dict fx_B] \<and>
   row_to_dict fx_B \<in> set [row_to_dict fx_B] \<and> rec_cluster (row_to_dict fx_B) = 0"
proof -
  have l: "1 * 2 < int (length (filter_stage fx_pref (df fx_engine)))" by simp (simp add: fx_rows_def)
  have h: "\<exists>r \<in> set (filter_stage fx_pref (df fx_engine)). cluster r = 0" by simp (simp add: fx_rows_def)
  show ?thesis
    using get_recommendations_cluster_narrowing [OF sort_values_stable_ok l fx_find_best_cluster h
        fx_k1_stable, of "row_to_dict fx_B"]
      sort_values_stable_ok l fx_find_best_cluster h fx_k1_stable by simp
qed

theorem get_recommendations_top_k_witness:
  "get_recommendations_with sort_values_stable fx_engine fx_pref 1 = Inr [row_to_dict fx_B] \<and>
   (\<exists>ws ys. cluster_stage fx_engine fx_pref 1 (filter_stage fx_pref (df fx_engine)) = Inr ws \<and>
      [row_to_dict fx_B] = map row_to_dict ys \<and> mset ys \<subseteq># mset ws \<and> length ys = min 1 (length ws))"
proof -
  from get_recommendations_top_k [OF sort_values_stable_ok zero_le_one fx_k1_stable] obtain ws ys
    where w: "cluster_stage fx_engine fx_pref 1 (filter_stage fx_pref (df fx_engine)) = Inr ws"
      and y: "[row_to_dict fx_B] = map row_to_dict ys" and t: "top_k_spec 1 ws ys"
    by (elim exE conjE)
  from t have "mset ys \<subseteq># mset ws" and "length ys = min 1 (length ws)"
    by (simp_all add: top_k_spec_def)
  with w y show ?thesis
    by (intro conjI fx_k1_stable exI [of _ ws] exI [of _ ys])
qed


theorem get_recommendations_nonempty_witness:
  "sort_desc_ok sort_values_stable \<and> engine_wf fx_engine \<and> weather_complete fx_pref \<and>
   centroids fx_engine \<noteq> [] \<and> (0::int) < 1 \<and>
   (\<exists>recs. get_recommendations_with sort_values_stable fx_engine fx_pref 1 = Inr recs \<and> recs \<noteq> [])"
proof -
  have c: "centroids fx_engine \<noteq> []" by simp
  show ?thesis
    using get_recommendations_nonempty [OF sort_values_stable_ok fx_engine_wf fx_weather_complete c, of 1]
      sort_values_stable_ok fx_engine_wf fx_weather_complete c by simp
qed



theorem find_best_cluster_fails_iff_witness:
  "\<exists>err. find_best_cluster fx_engine (fx_pref\<lparr>pref_avgtemp_c := Absent\<rparr>) = Inl err"
proof -
  have "\<not> weather_complete (fx_pref\<lparr>pref_avgtemp_c := Absent\<rparr>)"
    by (simp add: weather_complete_def)
  then show ?thesis
    using find_best_cluster_fails_iff [of fx_engine "fx_pref\<lparr>pref_avgtemp_c := Absent\<rparr>"] by blast
qed

theorem get_recommendations_fails_iff_witness:
  "\<exists>err. get_recommendations_with sort_values_stable fx_engine (fx_pref\<lparr>pref_avgtemp_c := Absent\<rparr>) 1 = Inl err"
proof -
  have m: "\<exists>err. find_best_cluster fx_engine (fx_pref\<lparr>pref_avgtemp_c := Absent\<rparr>) = Inl err"
    by (simp add: find_best_cluster_def user_vector_def)
  have l: "1 * 2 < int (length (filter_stage (fx_pref\<lparr>pref_avgtemp_c := Absent\<rparr>) (df fx_engine)))"
    by (simp add: filter_stage_def month_stage_def region_stage_def terrain_stage_def
        optional_filter_def fx_pref_def fx_rows_def)
  show ?thesis
    using get_recommendations_fails_iff [of sort_values_stable fx_engine "fx_pref\<lparr>pref_avgtemp_c := Absent\<rparr>" 1] m l
    by blast
qed


end
