(* ===== verification/Lookup.thy ===== *)
theory Lookup
  imports Pipeline
begin

text \<open>
  The read-only lookup utilities of \<open>TravelRecommendationEngine\<close>
  (\<open>src/clustering.py\<close>, lines 110--162):
  \<^item> \<open>get_cluster_info\<close>: the summary of one cluster (row count, the means of the
    five weather columns and of \<open>hci\<close>, the first centroid row's city and province),
    or the empty dict (here \<open>None\<close>) for a cluster id with no rows;
  \<^item> \<open>search_by_location\<close>: the rows whose lower-cased name or province contains the
    lower-cased query, ranked by \<open>hci\<close> and cut to \<open>top_k\<close>. pandas'
    \<open>str.contains\<close> reads the query as a regular expression (its default
    \<open>regex=True\<close>), so the query goes through the text runtime \<open>pyrt\<close>: it is
    compiled once (\<open>re.error\<close> for an invalid pattern) and searched in every name
    and province;
  \<^item> \<open>get_all_clusters_summary\<close>: the summaries of the distinct cluster ids of the
    table in ascending order, dropping empty ones.
\<close>

definition location_mask :: "pyrt \<Rightarrow> string \<Rightarrow> obs \<Rightarrow> bool" where
  "location_mask rt q r \<longleftrightarrow>
     rt_re_search rt q (rt_lower rt (name r)) \<or> rt_re_search rt q (rt_lower rt (province r))"

definition search_by_location ::
  "pyrt \<Rightarrow> (obs list \<Rightarrow> obs list) \<Rightarrow> engine \<Rightarrow> string \<Rightarrow> int \<Rightarrow> error + recommendation list" where
  "search_by_location rt srt e location_name top_k =
     (let q = rt_lower rt location_name in
      if \<not> rt_re_valid rt q then Inl (RegexError q)
      else Inr (map row_to_dict (py_head top_k (srt (filter (location_mask rt q) (df e))))))"

record cluster_summary =
  cs_cluster_id :: int
  cs_total_locations :: int
  cs_avg_temp :: real
  cs_avg_wind :: real
  cs_avg_precipitation :: real
  cs_avg_humidity :: real
  cs_avg_cloud_cover :: real
  cs_avg_hci :: real
  cs_centroid_location :: "(string \<times> string) option"

definition get_cluster_info :: "engine \<Rightarrow> int \<Rightarrow> cluster_summary option" where
  "get_cluster_info e cluster_id =
     (let cluster_data = filter (\<lambda>r. cluster r = cluster_id) (df e);
          centroid = filter (\<lambda>r. cluster r = cluster_id) (centroids e)
      in if length cluster_data = 0 then None
         else Some
           \<lparr>cs_cluster_id = cluster_id, cs_total_locations = int (length cluster_data),
            cs_avg_temp = col_mean (map avgtemp_c cluster_data),
            cs_avg_wind = col_mean (map maxwind_kph cluster_data),
            cs_avg_precipitation = col_mean (map totalprecip_mm cluster_data),
            cs_avg_humidity = col_mean (map avghumidity cluster_data),
            cs_avg_cloud_cover = col_mean (map cloud_cover_mean cluster_data),
            cs_avg_hci = col_mean (map hci cluster_data),
            cs_centroid_location =
              (if 0 < length centroid
               then Some (if 0 < length centroid then name (centroid ! 0) else ''Unknown'',
                          if 0 < length centroid then province (centroid ! 0) else ''Unknown'')
               else None)\<rparr>)"

definition get_all_clusters_summary :: "engine \<Rightarrow> cluster_summary list" where
  "get_all_clusters_summary e =
     List.map_filter (get_cluster_info e) (sort (remdups (map cluster (df e))))"

subsection \<open>Lemmas\<close>

lemma search_by_location_Inr:
  "search_by_location rt srt e q k = Inr recs \<longleftrightarrow>
     rt_re_valid rt (rt_lower rt q) \<and>
     recs = map row_to_dict (py_head k (srt (filter (location_mask rt (rt_lower rt q)) (df e))))"
  by (auto simp: search_by_location_def Let_def)

lemma location_mask_literal:
  "rt_literal_ok rt \<Longrightarrow> literal_pattern q \<Longrightarrow>
   location_mask rt q r \<longleftrightarrow> sublist q (rt_lower rt (name r)) \<or> sublist q (rt_lower rt (province r))"
  by (simp add: location_mask_def rt_literal_okD)

lemma get_cluster_info_Some:
  assumes "get_cluster_info e c = Some s"
  shows "cs_cluster_id s = c" and "cs_total_locations s = int (length (filter (\<lambda>r. cluster r = c) (df e)))"
    and "filter (\<lambda>r. cluster r = c) (df e) \<noteq> []"
  using assms by (auto simp: get_cluster_info_def Let_def split: if_splits)

lemma get_cluster_info_None_iff:
  "get_cluster_info e c = None \<longleftrightarrow> c \<notin> cluster ` set (df e)"
  by (auto simp: get_cluster_info_def Let_def filter_empty_conv)

lemma map_filter_all_Some:
  "(\<And>x. x \<in> set xs \<Longrightarrow> f x \<noteq> None) \<Longrightarrow> List.map_filter f xs = map (the \<circ> f) xs"
  by (induction xs) (auto simp: List.map_filter_def)

lemma get_all_clusters_summary_eq:
  "get_all_clusters_summary e =
     map (the \<circ> get_cluster_info e) (sorted_list_of_set (cluster ` set (df e)))"
proof -
  have eq: "sort (remdups (map cluster (df e))) = sorted_list_of_set (cluster ` set (df e))"
    using sorted_list_of_set_sort_remdups [of "map cluster (df e)"] by simp
  have ne: "get_cluster_info e c \<noteq> None" if "c \<in> set (sorted_list_of_set (cluster ` set (df e)))" for c
    using that by (simp add: get_cluster_info_None_iff)
  show ?thesis
    unfolding get_all_clusters_summary_def eq by (rule map_filter_all_Some [OF ne])
qed

lemma get_all_clusters_summary_entry:
  assumes "c \<in> cluster ` set (df e)"
  shows "cs_cluster_id (the (get_cluster_info e c)) = c"
    and "cs_total_locations (the (get_cluster_info e c)) = int (length (filter (\<lambda>r. cluster r = c) (df e)))"
proof -
  have "get_cluster_info e c = Some (the (get_cluster_info e c))"
    using assms by (cases "get_cluster_info e c") (simp_all add: get_cluster_info_None_iff)
  then show "cs_cluster_id (the (get_cluster_info e c)) = c"
    and "cs_total_locations (the (get_cluster_info e c)) = int (length (filter (\<lambda>r. cluster r = c) (df e)))"
    by (rule get_cluster_info_Some)+
qed

subsection \<open>Properties of the lookups\<close>

text \<open>C29. search_by_location implements top-k selection over the rows whose lower-cased name or province the query matches: at most top_k of them, best score first, and no matching row left out scores higher than one returned.\<close>

theorem search_by_location_top_k:
  assumes ok: "sort_desc_ok srt" and k: "0 \<le> k"
    and res: "search_by_location rt srt e q k = Inr recs"
  shows "\<exists>ys. recs = map row_to_dict ys \<and> top_k_spec k (filter (location_mask rt (rt_lower rt q)) (df e)) ys"
proof -
  let ?ws = "filter (location_mask rt (rt_lower rt q)) (df e)"
  have "recs = map row_to_dict (py_head k (srt ?ws))"
    using res by (simp add: search_by_location_Inr)
  then show ?thesis
    using py_head_top_k_spec [OF ok k, of ?ws] by blast
qed

text \<open>C30. For a query without regex metacharacters search_by_location never raises, and it ranks exactly the rows whose lower-cased name or province contains the lower-cased query as a substring.\<close>

theorem search_by_location_substring:
  assumes "rt_literal_ok rt" and "literal_pattern (rt_lower rt q)"
  shows "search_by_location rt srt e q k =
    Inr (map row_to_dict (py_head k (srt (filter (\<lambda>r. sublist (rt_lower rt q) (rt_lower rt (name r)) \<or>
                                                    sublist (rt_lower rt q) (rt_lower rt (province r))) (df e)))))"
proof -
  have "location_mask rt (rt_lower rt q) =
        (\<lambda>r. sublist (rt_lower rt q) (rt_lower rt (name r)) \<or> sublist (rt_lower rt q) (rt_lower rt (province r)))"
    using assms by (simp add: fun_eq_iff location_mask_literal)
  then show ?thesis
    using assms by (simp add: search_by_location_def Let_def rt_literal_okD)
qed

text \<open>The empty query matches every row: search_by_location then ranks the whole table.\<close>

theorem search_by_location_empty_query:
  "rt_literal_ok rt \<Longrightarrow> rt_lower rt q = [] \<Longrightarrow>
   search_by_location rt srt e q k = Inr (map row_to_dict (py_head k (srt (df e))))"
  by (simp add: search_by_location_def location_mask_def rt_literal_okD)

text \<open>C32. get_all_clusters_summary lists one summary per distinct cluster id of the table, in ascending id order.\<close>

theorem get_all_clusters_summary_ids:
  "map cs_cluster_id (get_all_clusters_summary e) = sorted_list_of_set (cluster ` set (df e))"
  unfolding get_all_clusters_summary_eq map_map
  by (rule map_idI) (simp add: get_all_clusters_summary_entry)

text \<open>C33. The cluster summaries partition the table: their location counts add up to the number of rows.\<close>

theorem get_all_clusters_summary_partition:
  "sum_list (map cs_total_locations (get_all_clusters_summary e)) = int (length (df e))"
proof -
  let ?L = "sorted_list_of_set (cluster ` set (df e))"
  have "map cs_total_locations (get_all_clusters_summary e) =
        map int (map (\<lambda>c. length (filter (\<lambda>r. cluster r = c) (df e))) ?L)"
    by (simp add: get_all_clusters_summary_eq get_all_clusters_summary_entry cong: map_cong)
  then have "sum_list (map cs_total_locations (get_all_clusters_summary e)) =
             int (sum_list (map (\<lambda>c. length (filter (\<lambda>r. cluster r = c) (df e))) ?L))"
    by (simp only: sum_list_of_nat)
  also have "\<dots> = int (length (df e))"
    by (simp add: sum_list_length_filter_partition)
  finally show ?thesis .
qed

text \<open>C34. For a loaded engine, a cluster summary names the city and province of the cluster's first centroid row, and has no centroid location exactly when the cluster has no centroid row (the 'Unknown' defaults of the code are never used).\<close>

theorem get_cluster_info_centroid:
  assumes wf: "engine_wf e" and s: "get_cluster_info e c = Some s"
  shows "cs_centroid_location s =
           (case filter (\<lambda>r. is_centroid r \<and> cluster r = c) (df e) of
              [] \<Rightarrow> None
            | r # _ \<Rightarrow> Some (name r, province r))"
proof -
  have "filter (\<lambda>r. cluster r = c) (centroids e) = filter (\<lambda>r. is_centroid r \<and> cluster r = c) (df e)"
    using wf by (simp add: engine_wf_def filter_filter)
  with s show ?thesis
    by (auto simp: get_cluster_info_def Let_def split: if_splits list.splits)
qed

subsection \<open>Instances on the fixture\<close>

theorem search_by_location_top_k_witness:
  "sort_desc_ok sort_values_stable \<and> (0::int) \<le> 5 \<and>
   search_by_location fx_rt sort_values_stable fx_engine ''Lat'' 5 = Inr [row_to_dict fx_C] \<and>
   (\<exists>ys. [row_to_dict fx_C] = map row_to_dict ys \<and>
      top_k_spec 5 (filter (location_mask fx_rt (rt_lower fx_rt ''Lat'')) (df fx_engine)) ys)"
proof -
  have r: "search_by_location fx_rt sort_values_stable fx_engine ''Lat'' 5 = Inr [row_to_dict fx_C]"
    by code_simp
  show ?thesis
    using search_by_location_top_k [OF sort_values_stable_ok _ r] sort_values_stable_ok r by simp
qed

theorem search_by_location_substring_witness:
  "rt_literal_ok fx_rt \<and> literal_pattern (rt_lower fx_rt ''Lat'') \<and>
   search_by_location fx_rt sort_values_stable fx_engine ''Lat'' 5 = Inr [row_to_dict fx_C]"
proof -
  have l: "literal_pattern (rt_lower fx_rt ''Lat'')"
    by (simp add: fx_rt_def literal_pattern_def regex_meta_def)
  have "search_by_location fx_rt sort_values_stable fx_engine ''Lat'' 5 =
    Inr (map row_to_dict (py_head 5 (sort_values_stable (filter (\<lambda>r. sublist (rt_lower fx_rt ''Lat'') (rt_lower fx_rt (name r)) \<or>
        sublist (rt_lower fx_rt ''Lat'') (rt_lower fx_rt (province r))) (df fx_engine)))))"
    by (rule search_by_location_substring [OF fx_rt_literal_ok l])
  also have "\<dots> = Inr [row_to_dict fx_C]" by code_simp
  finally show ?thesis using fx_rt_literal_ok l by simp
qed

theorem search_by_location_empty_query_witness:
  "rt_literal_ok fx_rt \<and> rt_lower fx_rt [] = [] \<and>
   search_by_location fx_rt sort_values_stable fx_engine [] 1 = Inr [row_to_dict fx_B]"
proof -
  have l: "rt_lower fx_rt [] = []" by (simp add: fx_rt_def)
  have "search_by_location fx_rt sort_values_stable fx_engine [] 1 =
        Inr (map row_to_dict (py_head 1 (sort_values_stable (df fx_engine))))"
    by (rule search_by_location_empty_query [OF fx_rt_literal_ok l])
  also have "\<dots> = Inr [row_to_dict fx_B]" by code_simp
  finally show ?thesis using fx_rt_literal_ok l by simp
qed

theorem get_cluster_info_centroid_witness:
  "engine_wf fx_engine \<and> get_cluster_info fx_engine 1 = Some (the (get_cluster_info fx_engine 1)) \<and>
   cs_centroid_location (the (get_cluster_info fx_engine 1)) = Some (''Da Lat'', ''Da Lat'')"
proof -
  have s: "get_cluster_info fx_engine 1 = Some (the (get_cluster_info fx_engine 1))"
    by (simp add: get_cluster_info_def Let_def fx_rows_def)
  have "cs_centroid_location (the (get_cluster_info fx_engine 1)) =
          (case filter (\<lambda>r. is_centroid r \<and> cluster r = 1) (df fx_engine) of
              [] \<Rightarrow> None | r # _ \<Rightarrow> Some (name r, province r))"
    by (rule get_cluster_info_centroid [OF fx_engine_wf s])
  also have "\<dots> = Some (''Da Lat'', ''Da Lat'')" by (simp add: fx_rows_def fx_defs)
  finally show ?thesis using fx_engine_wf s by simp
qed

end
