(* ===== verification/Validator.thy ===== *)
theory Validator
  imports Matcher
begin

text \<open>
  The preference validator of the chatbot, \<open>TravelChatbot._validate_preferences\<close>
  (\<open>src/chatbot.py\<close>, lines 390--422), and the default preference dictionary
  \<open>_get_default_preferences\<close> (lines 531--543).

  The validator reads the dictionary that \<open>json.loads\<close> made of the LLM's reply,
  possibly overwritten by the regex fallbacks. Such a dictionary is the record
  \<open>llm_prefs\<close>: each of the six numeric keys holds a JSON scalar \<open>jnum\<close> (a number, a
  string or a boolean, which Python compares as the integers 0 and 1), or is null or
  absent; the region, terrain and description keys hold a string, or are null or absent.
  (Replies that put a JSON array or object under a key are outside the model.)
  The validator clamps each weather value into its range with \<open>max(lo, min(hi, v))\<close>,
  reading a missing key as its default; a null or string weather value makes
  \<open>min\<close> raise \<open>TypeError\<close>. The month goes through \<open>int()\<close>, which truncates a
  float and parses a string (\<open>ValueError\<close> when it is not an integer literal), and is
  clamped into 1--12. The result is the engine's preference record \<open>prefs\<close>, so
  the validator's output is the pipeline's input.
\<close>

datatype jnum = JNum real | JStr string | JBool bool

text \<open>The number Python compares a scalar as: \<open>bool\<close> is a subclass of \<open>int\<close>.\<close>

fun py_num :: "jnum \<Rightarrow> real option" where
  "py_num (JNum x) = Some x"
| "py_num (JBool b) = Some (of_bool b)"
| "py_num (JStr s) = None"

text \<open>\<open>max(lo, min(hi, d.get(key, default)))\<close>.\<close>

definition py_clamp :: "real \<Rightarrow> real \<Rightarrow> real \<Rightarrow> jnum field \<Rightarrow> error + real" where
  "py_clamp lo hi dflt v =
     (case dict_get v (JNum dflt) of
        None \<Rightarrow> Inl (TypeError (pct ''%27<%27 not supported between instances of %27NoneType%27 and %27int%27''))
      | Some x \<Rightarrow>
          (case py_num x of
             None \<Rightarrow> Inl (TypeError (pct ''%27<%27 not supported between instances of %27str%27 and %27int%27''))
           | Some n \<Rightarrow> Inr (max lo (min hi n))))"

text \<open>\<open>int(x)\<close> of a float truncates towards zero.\<close>

definition py_trunc :: "real \<Rightarrow> int" where
  "py_trunc x = (if 0 \<le> x then \<lfloor>x\<rfloor> else - \<lfloor>- x\<rfloor>)"

definition py_digit :: "char \<Rightarrow> bool" where
  "py_digit c \<longleftrightarrow> 48 \<le> (of_char c :: nat) \<and> (of_char c :: nat) \<le> 57"

fun digits_value :: "int \<Rightarrow> string \<Rightarrow> int" where
  "digits_value acc [] = acc"
| "digits_value acc (c # cs) = digits_value (10 * acc + int (of_char c - 48)) cs"

text \<open>The body of an integer literal after the sign: decimal digits, where single
  underscores may separate two digits.\<close>

fun digit_groups_ok :: "string \<Rightarrow> bool" where
  "digit_groups_ok [] = False"
| "digit_groups_ok [c] = py_digit c"
| "digit_groups_ok (c # d # cs) =
     (py_digit c \<and> (if d = CHR ''_'' then cs \<noteq> [] \<and> py_digit (hd cs) \<and> digit_groups_ok cs
                    else digit_groups_ok (d # cs)))"

text \<open>\<open>int(s)\<close> for a string: surrounding whitespace is stripped, an optional sign,
  then the digits.\<close>

definition py_int_of_string :: "string \<Rightarrow> int option" where
  "py_int_of_string s =
     (let t = py_strip s;
          (sg, ds) = (case t of
                        c # r \<Rightarrow> if c = CHR ''-'' then (-1, r) else if c = CHR ''+'' then (1, r) else (1, t)
                      | [] \<Rightarrow> (1, t))
      in if digit_groups_ok ds then Some (sg * digits_value 0 (filter (\<lambda>c. c \<noteq> CHR ''_'') ds)) else None)"

fun py_int :: "jnum \<Rightarrow> error + int" where
  "py_int (JNum x) = Inr (py_trunc x)"
| "py_int (JBool b) = Inr (of_bool b)"
| "py_int (JStr s) =
     (case py_int_of_string s of
        Some n \<Rightarrow> Inr n
      | None \<Rightarrow> Inl (ValueError (''invalid literal for int() with base 10: '' @ s)))"

record llm_prefs =
  lp_avgtemp_c :: "jnum field"
  lp_maxwind_kph :: "jnum field"
  lp_totalprecip_mm :: "jnum field"
  lp_avghumidity :: "jnum field"
  lp_cloud_cover_mean :: "jnum field"
  lp_month :: "jnum field"
  lp_region :: "string field"
  lp_terrain :: "string field"
  lp_preferences :: "string field"

text \<open>The default description \<open>'du l\<dots>ch chung'\<close> (general travel), as UTF-8.\<close>

definition default_desc :: string where
  "default_desc = pct ''du l%E1%BB%8Bch chung''"

text \<open>A value read with \<open>d.get(k)\<close> and stored back: a missing key becomes null.\<close>

definition stored_get :: "'a field \<Rightarrow> 'a field" where
  "stored_get v = (case dict_get_opt v of None \<Rightarrow> Null | Some x \<Rightarrow> Val x)"

definition validate_month :: "jnum field \<Rightarrow> error + real field" where
  "validate_month v =
     (case dict_get_opt v of
        None \<Rightarrow> Inr Null
      | Some m \<Rightarrow> ebind (py_int m) (\<lambda>n. Inr (Val (of_int (max 1 (min 12 n))))))"

definition validate_preferences :: "llm_prefs \<Rightarrow> error + prefs" where
  "validate_preferences p =
     ebind (py_clamp 15 35 25 (lp_avgtemp_c p)) (\<lambda>t.
     ebind (py_clamp 5 30 15 (lp_maxwind_kph p)) (\<lambda>w.
     ebind (py_clamp 0 30 10 (lp_totalprecip_mm p)) (\<lambda>r.
     ebind (py_clamp 50 90 70 (lp_avghumidity p)) (\<lambda>h.
     ebind (py_clamp 0 100 50 (lp_cloud_cover_mean p)) (\<lambda>c.
     ebind (validate_month (lp_month p)) (\<lambda>mo.
       Inr \<lparr>pref_avgtemp_c = Val t, pref_maxwind_kph = Val w, pref_totalprecip_mm = Val r,
            pref_avghumidity = Val h, pref_cloud_cover_mean = Val c, pref_month = mo,
            pref_region = stored_get (lp_region p), pref_terrain = stored_get (lp_terrain p),
            pref_preferences = (case dict_get (lp_preferences p) default_desc of
                                  None \<Rightarrow> Null | Some s \<Rightarrow> Val s)\<rparr>))))))"

definition default_preferences :: prefs where
  "default_preferences =
     \<lparr>pref_avgtemp_c = Val 27, pref_maxwind_kph = Val 15, pref_totalprecip_mm = Val 10,
      pref_avghumidity = Val 65, pref_cloud_cover_mean = Val 60, pref_month = Null,
      pref_region = Null, pref_terrain = Null, pref_preferences = Val default_desc\<rparr>"

subsection \<open>What a validated preference record looks like\<close>

definition in_range :: "real \<Rightarrow> real \<Rightarrow> real field \<Rightarrow> bool" where
  "in_range lo hi v \<longleftrightarrow> (case v of Val x \<Rightarrow> lo \<le> x \<and> x \<le> hi | _ \<Rightarrow> False)"

definition month_ok :: "real field \<Rightarrow> bool" where
  "month_ok v \<longleftrightarrow>
     (case v of Null \<Rightarrow> True | Val x \<Rightarrow> 1 \<le> x \<and> x \<le> 12 \<and> x = of_int \<lfloor>x\<rfloor> | Absent \<Rightarrow> False)"

text \<open>Every key present, the five weather values inside the ranges the validator
  clamps to, the month null or a whole number from 1 to 12.\<close>

definition prefs_valid :: "prefs \<Rightarrow> bool" where
  "prefs_valid p \<longleftrightarrow>
     in_range 15 35 (pref_avgtemp_c p) \<and> in_range 5 30 (pref_maxwind_kph p) \<and>
     in_range 0 30 (pref_totalprecip_mm p) \<and> in_range 50 90 (pref_avghumidity p) \<and>
     in_range 0 100 (pref_cloud_cover_mean p) \<and> month_ok (pref_month p) \<and>
     pref_region p \<noteq> Absent \<and> pref_terrain p \<noteq> Absent \<and> pref_preferences p \<noteq> Absent"

text \<open>The dictionary a validated record is when it is fed back in.\<close>

definition raw_of_prefs :: "prefs \<Rightarrow> llm_prefs" where
  "raw_of_prefs p =
     \<lparr>lp_avgtemp_c = map_field JNum (pref_avgtemp_c p), lp_maxwind_kph = map_field JNum (pref_maxwind_kph p),
      lp_totalprecip_mm = map_field JNum (pref_totalprecip_mm p),
      lp_avghumidity = map_field JNum (pref_avghumidity p),
      lp_cloud_cover_mean = map_field JNum (pref_cloud_cover_mean p),
      lp_month = map_field JNum (pref_month p), lp_region = pref_region p,
      lp_terrain = pref_terrain p, lp_preferences = pref_preferences p\<rparr>"

text \<open>What makes the validator raise: a weather value that is null or a string, a
  month string that \<open>int()\<close> rejects.\<close>

fun weather_bad :: "jnum field \<Rightarrow> bool" where
  "weather_bad Null = True"
| "weather_bad (Val (JStr s)) = True"
| "weather_bad _ = False"

fun month_bad :: "jnum field \<Rightarrow> bool" where
  "month_bad (Val (JStr s)) = (py_int_of_string s = None)"
| "month_bad _ = False"

subsection \<open>Lemmas\<close>

lemma py_clamp_Inr:
  "py_clamp lo hi d v = Inr x \<Longrightarrow> lo \<le> hi \<Longrightarrow> lo \<le> x \<and> x \<le> hi"
  by (auto simp: py_clamp_def split: option.splits)

lemma py_clamp_Val_JNum: "lo \<le> x \<Longrightarrow> x \<le> hi \<Longrightarrow> py_clamp lo hi d (Val (JNum x)) = Inr x"
  by (simp add: py_clamp_def)

lemma py_trunc_of_int [simp]: "py_trunc (of_int n) = n"
  by (simp add: py_trunc_def)

lemma validate_month_ok: "validate_month v = Inr m \<Longrightarrow> month_ok m"
  by (auto simp: validate_month_def month_ok_def ebind_eq_Inr split: option.splits)

lemma stored_get_not_Absent [simp]: "stored_get v \<noteq> Absent"
  by (simp add: stored_get_def split: option.splits)

lemma in_range_Val [simp]: "in_range lo hi (Val x) \<longleftrightarrow> lo \<le> x \<and> x \<le> hi"
  by (simp add: in_range_def)

lemma validate_preferences_Inr:
  "validate_preferences p = Inr v \<longleftrightarrow>
     (\<exists>t w r h c mo. py_clamp 15 35 25 (lp_avgtemp_c p) = Inr t \<and> py_clamp 5 30 15 (lp_maxwind_kph p) = Inr w \<and>
        py_clamp 0 30 10 (lp_totalprecip_mm p) = Inr r \<and> py_clamp 50 90 70 (lp_avghumidity p) = Inr h \<and>
        py_clamp 0 100 50 (lp_cloud_cover_mean p) = Inr c \<and> validate_month (lp_month p) = Inr mo \<and>
        v = \<lparr>pref_avgtemp_c = Val t, pref_maxwind_kph = Val w, pref_totalprecip_mm = Val r,
            pref_avghumidity = Val h, pref_cloud_cover_mean = Val c, pref_month = mo,
            pref_region = stored_get (lp_region p), pref_terrain = stored_get (lp_terrain p),
            pref_preferences = (case dict_get (lp_preferences p) default_desc of
                                  None \<Rightarrow> Null | Some s \<Rightarrow> Val s)\<rparr>)"
  by (simp add: validate_preferences_def ebind_eq_Inr) blast

lemma in_rangeE:
  assumes "in_range lo hi v"
  obtains x where "v = Val x" and "lo \<le> x" and "x \<le> hi"
  using assms by (cases v) (simp_all add: in_range_def)

lemma stored_get_id: "v \<noteq> Absent \<Longrightarrow> stored_get v = v"
  by (cases v) (simp_all add: stored_get_def)

lemma validate_month_id: "month_ok m \<Longrightarrow> validate_month (map_field JNum m) = Inr m"
proof (cases m)
  case (Val x)
  moreover assume "month_ok m"
  ultimately have x: "1 \<le> x" "x \<le> 12" "x = of_int \<lfloor>x\<rfloor>" by (simp_all add: month_ok_def)
  then have "py_trunc x = \<lfloor>x\<rfloor>" and "1 \<le> \<lfloor>x\<rfloor>" and "\<lfloor>x\<rfloor> \<le> 12"
    by (simp_all add: py_trunc_def le_floor_iff floor_le_iff)
  with Val x show ?thesis by (simp add: validate_month_def)
qed (simp_all add: validate_month_def month_ok_def)

lemma prefs_valid_weather_complete: "prefs_valid p \<Longrightarrow> weather_complete p"
  by (auto simp: prefs_valid_def weather_complete_def elim!: in_rangeE)

lemma validate_preferences_Inr_valid:
  "validate_preferences p = Inr v \<Longrightarrow> prefs_valid v"
  by (auto simp: validate_preferences_Inr prefs_valid_def dest: py_clamp_Inr validate_month_ok
      split: option.splits)

lemma Inl_iff_not_Inr: "(\<exists>err. r = Inl err) \<longleftrightarrow> \<not> (\<exists>v. r = Inr v)"
  by (cases r) simp_all

lemma py_clamp_Inr_iff: "(\<exists>x. py_clamp lo hi d v = Inr x) \<longleftrightarrow> \<not> weather_bad v"
  by (cases v rule: weather_bad.cases) (auto simp: py_clamp_def)

lemma validate_month_Inr_iff: "(\<exists>m. validate_month v = Inr m) \<longleftrightarrow> \<not> month_bad v"
  by (cases v rule: month_bad.cases) (auto simp: validate_month_def split: option.splits)

lemma validate_preferences_Inr_iff:
  "(\<exists>v. validate_preferences p = Inr v) \<longleftrightarrow>
     (\<exists>x. py_clamp 15 35 25 (lp_avgtemp_c p) = Inr x) \<and> (\<exists>x. py_clamp 5 30 15 (lp_maxwind_kph p) = Inr x) \<and>
     (\<exists>x. py_clamp 0 30 10 (lp_totalprecip_mm p) = Inr x) \<and> (\<exists>x. py_clamp 50 90 70 (lp_avghumidity p) = Inr x) \<and>
     (\<exists>x. py_clamp 0 100 50 (lp_cloud_cover_mean p) = Inr x) \<and> (\<exists>m. validate_month (lp_month p) = Inr m)"
  by (simp add: validate_preferences_Inr) blast

subsection \<open>Properties of the validator\<close>

text \<open>C31. Type of the validator's output: every record _validate_preferences returns has all keys present, the five weather values numbers inside their clamping ranges and the month null or a whole number from 1 to 12; in particular it has the weather keys find_best_cluster indexes, so the chatbot's output is a well-typed input of the engine.\<close>

theorem validate_preferences_typed:
  assumes "validate_preferences raw = Inr v"
  shows "prefs_valid v \<and> weather_complete v"
proof -
  have "prefs_valid v" using validate_preferences_Inr_valid [OF assms] .
  then show ?thesis using prefs_valid_weather_complete by blast
qed

text \<open>C35. The validator raises exactly when one of the five weather values is null or a string, or the month is a string that int() rejects; a missing key is never an error.\<close>

theorem validate_preferences_fails_iff:
  "(\<exists>err. validate_preferences p = Inl err) \<longleftrightarrow>
     list_ex weather_bad [lp_avgtemp_c p, lp_maxwind_kph p, lp_totalprecip_mm p, lp_avghumidity p,
                          lp_cloud_cover_mean p] \<or> month_bad (lp_month p)"
  by (simp only: Inl_iff_not_Inr validate_preferences_Inr_iff py_clamp_Inr_iff validate_month_Inr_iff)
    simp

text \<open>C36. Round trip: a valid preference record, given back to the validator as a dictionary, comes out unchanged (the validator is the identity on its own outputs).\<close>

theorem validate_preferences_roundtrip:
  assumes "prefs_valid v"
  shows "validate_preferences (raw_of_prefs v) = Inr v"
proof -
  from assms have "in_range 15 35 (pref_avgtemp_c v)" "in_range 5 30 (pref_maxwind_kph v)"
    "in_range 0 30 (pref_totalprecip_mm v)" "in_range 50 90 (pref_avghumidity v)"
    "in_range 0 100 (pref_cloud_cover_mean v)" and m: "month_ok (pref_month v)"
    and g: "pref_region v \<noteq> Absent" and t: "pref_terrain v \<noteq> Absent"
    and d: "pref_preferences v \<noteq> Absent"
    by (simp_all add: prefs_valid_def)
  then obtain a b c h k where "pref_avgtemp_c v = Val a" "15 \<le> a" "a \<le> 35"
    "pref_maxwind_kph v = Val b" "5 \<le> b" "b \<le> 30" "pref_totalprecip_mm v = Val c" "0 \<le> c" "c \<le> 30"
    "pref_avghumidity v = Val h" "50 \<le> h" "h \<le> 90" "pref_cloud_cover_mean v = Val k" "0 \<le> k" "k \<le> 100"
    by (auto elim!: in_rangeE)
  moreover have "(case dict_get (pref_preferences v) default_desc of None \<Rightarrow> Null | Some s \<Rightarrow> Val s) =
                 pref_preferences v"
    using d by (cases "pref_preferences v") simp_all
  ultimately show ?thesis
    using validate_month_id [OF m] stored_get_id [OF g] stored_get_id [OF t]
    by (simp add: validate_preferences_def raw_of_prefs_def py_clamp_Val_JNum)
qed

end
