(* ===== verification/Pref_Extraction.thy ===== *)
theory Pref_Extraction
  imports Validator Pipeline
begin

text \<open>
  Preference extraction of the chatbot (\<open>src/chatbot.py\<close>):
  \<^item> \<open>_extract_fallback\<close> (lines 424--525): the regular-expression fallbacks, one
    definition per branch: \<open>fallback_month\<close> (the first month of
    \<open>month_patterns\<close>, in the dict's order 12, 11, 10, 1, \<dots>, 9, whose patterns
    match), \<open>fallback_numeric\<close> for temperature, wind, humidity, precipitation and
    cloud cover (the first number read by a numeric pattern that lies in the range,
    then the first keyword pattern that matches), \<open>fallback_region\<close> and
    \<open>fallback_terrain\<close>. The patterns are the source's, as UTF-8 bytes (see
    \<open>pct\<close>); matching them is the text runtime's \<open>rt_re_search\<close> and
    \<open>rt_re_num\<close>, on the lower-cased input;
  \<^item> \<open>_get_default_preferences_with_fallback\<close> (lines 545--580): the defaults
    overwritten by every fallback that finds something, with a description built from
    what was found;
  \<^item> \<open>extract_travel_preferences\<close> (lines 331--388): one LLM call (its reply is
    a parameter, \<open>None\<close> when the call raised), the JSON object cut out of the reply
    by the greedy brace-to-brace pattern under \<open>re.DOTALL\<close> (\<open>json_match\<close>), the two
    cleaning substitutions, \<open>json.loads\<close> (a parameter, \<open>None\<close> for
    \<open>JSONDecodeError\<close>), the fallback loop over \<open>fallback_map\<close> and the validator.
    Every exception on the way, including the \<open>TypeError\<close> of comparing a string
    with a range bound, is caught and answered with the defaults-with-fallback.
\<close>

datatype fb_kind = FB_temperature | FB_wind | FB_humidity | FB_precipitation | FB_cloud_cover

subsection \<open>The fallback patterns\<close>

definition month_patterns :: "(int \<times> string list) list" where
  "month_patterns =
     [(12, [pct ''th%C3%A1ng%5Cs*12%5Cb'', pct ''th%C3%A1ng%5Cs*m%C6%B0%E1%BB%9Di%5Cs*hai%5Cb'']),
      (11, [pct ''th%C3%A1ng%5Cs*11%5Cb'', pct ''th%C3%A1ng%5Cs*m%C6%B0%E1%BB%9Di%5Cs*m%E1%BB%99t%5Cb'']),
      (10, [pct ''th%C3%A1ng%5Cs*10%5Cb'', pct ''th%C3%A1ng%5Cs*m%C6%B0%E1%BB%9Di%5Cb(?!%5Cs*(m%E1%BB%99t|hai))'']),
      (1, [pct ''th%C3%A1ng%5Cs*1%5Cb'', pct ''th%C3%A1ng%5Cs*m%E1%BB%99t%5Cb'']),
      (2, [pct ''th%C3%A1ng%5Cs*2%5Cb'', pct ''th%C3%A1ng%5Cs*hai%5Cb'']),
      (3, [pct ''th%C3%A1ng%5Cs*3%5Cb'', pct ''th%C3%A1ng%5Cs*ba%5Cb'']),
      (4, [pct ''th%C3%A1ng%5Cs*4%5Cb'', pct ''th%C3%A1ng%5Cs*t%C6%B0%5Cb'']),
      (5, [pct ''th%C3%A1ng%5Cs*5%5Cb'', pct ''th%C3%A1ng%5Cs*n%C4%83m%5Cb'']),
      (6, [pct ''th%C3%A1ng%5Cs*6%5Cb'', pct ''th%C3%A1ng%5Cs*s%C3%A1u%5Cb'']),
      (7, [pct ''th%C3%A1ng%5Cs*7%5Cb'', pct ''th%C3%A1ng%5Cs*b%E1%BA%A3y%5Cb'']),
      (8, [pct ''th%C3%A1ng%5Cs*8%5Cb'', pct ''th%C3%A1ng%5Cs*t%C3%A1m%5Cb'']),
      (9, [pct ''th%C3%A1ng%5Cs*9%5Cb'', pct ''th%C3%A1ng%5Cs*ch%C3%ADn%5Cb''])]"

definition temperature_patterns :: "string list" where
  "temperature_patterns = [pct ''(%5Cd+(?:%5C.%5Cd+)?)%5Cs*(?:%C4%91%E1%BB%99|%C2%B0)%5Cs*c?%5Cb'', pct ''nhi%E1%BB%87t%5Cs*%C4%91%E1%BB%99%5Cs*(%5Cd+(?:%5C.%5Cd+)?)'']"

definition temperature_keywords :: "(real \<times> string list) list" where
  "temperature_keywords =
     [(20, [pct ''m%C3%A1t%5Cs*m%E1%BA%BB|l%E1%BA%A1nh'']),
      (30, [pct ''n%C3%B3ng|%E1%BA%A5m%5Cs*%C3%A1p'']),
      (25, [pct ''%C3%B4n%5Cs*h%C3%B2a|d%E1%BB%85%5Cs*ch%E1%BB%8Bu''])]"

definition wind_patterns :: "string list" where
  "wind_patterns = [pct ''(%5Cd+(?:%5C.%5Cd+)?)%5Cs*km/h%5Cb'', pct ''gi%C3%B3%5Cs*(%5Cd+(?:%5C.%5Cd+)?)'']"

definition wind_keywords :: "(real \<times> string list) list" where
  "wind_keywords =
     [(6, [pct ''kh%C3%B4ng%5Cs*th%C3%ADch%5Cs*gi%C3%B3|%C3%ADt%5Cs*gi%C3%B3'']),
      (8, [pct ''gi%C3%B3%5Cs*nh%E1%BA%B9'']),
      (25, [pct ''gi%C3%B3%5Cs*m%E1%BA%A1nh''])]"

definition humidity_patterns :: "string list" where
  "humidity_patterns = [pct ''(%5Cd+(?:%5C.%5Cd+)?)%5Cs*%25%5Cb'', pct ''%C4%91%E1%BB%99%5Cs*%E1%BA%A9m%5Cs*(%5Cd+(?:%5C.%5Cd+)?)'']"

definition humidity_keywords :: "(real \<times> string list) list" where
  "humidity_keywords =
     [(55, [pct ''kh%C3%B4%5Cs*r%C3%A1o|kh%C3%B4'']),
      (80, [pct ''%E1%BA%A9m%5Cs*%C6%B0%E1%BB%9Bt|%E1%BA%A9m'']),
      (70, [pct ''v%E1%BB%ABa%5Cs*ph%E1%BA%A3i''])]"

definition precipitation_patterns :: "string list" where
  "precipitation_patterns = [pct ''(%5Cd+(?:%5C.%5Cd+)?)%5Cs*mm%5Cb'', pct ''m%C6%B0a%5Cs*(%5Cd+(?:%5C.%5Cd+)?)'']"

definition precipitation_keywords :: "(real \<times> string list) list" where
  "precipitation_keywords =
     [(0, [pct ''kh%C3%B4ng%5Cs*m%C6%B0a'']),
      (10, [pct ''%C3%ADt%5Cs*m%C6%B0a|kh%C3%B4%5Cs*r%C3%A1o'']),
      (20, [pct ''m%C6%B0a%5Cs*v%E1%BB%ABa|b%C3%ACnh%5Cs*th%C6%B0%E1%BB%9Dng'']),
      (30, [pct ''m%C6%B0a%5Cs*nhi%E1%BB%81u|m%C3%B9a%5Cs*m%C6%B0a''])]"

definition cloud_cover_patterns :: "string list" where
  "cloud_cover_patterns = [pct ''(%5Cd+(?:%5C.%5Cd+)?)%5Cs*%25%5Cs*m%C3%A2y'', pct ''m%C3%A2y%5Cs*(%5Cd+(?:%5C.%5Cd+)?)'']"

definition cloud_cover_keywords :: "(real \<times> string list) list" where
  "cloud_cover_keywords =
     [(20, [pct ''tr%E1%BB%9Di%5Cs*quang|%C3%ADt%5Cs*m%C3%A2y'']),
      (80, [pct ''nhi%E1%BB%81u%5Cs*m%C3%A2y|u%5Cs*%C3%A1m'']),
      (50, [pct ''m%C3%A2y%5Cs*v%E1%BB%ABa|b%C3%ACnh%5Cs*th%C6%B0%E1%BB%9Dng''])]"

definition region_patterns :: "(string \<times> string list) list" where
  "region_patterns =
     [(pct ''T%C3%A2y Nguy%C3%AAn'', [pct ''t%C3%A2y%5Cs*nguy%C3%AAn'', pct ''%C4%91%C3%A0%5Cs*l%E1%BA%A1t'']),
      (pct ''%C4%90%E1%BB%93ng b%E1%BA%B1ng s%C3%B4ng H%E1%BB%93ng'', [pct ''h%C3%A0%5Cs*n%E1%BB%99i'', pct ''h%E1%BA%A3i%5Cs*ph%C3%B2ng'', pct ''mi%E1%BB%81n%5Cs*b%E1%BA%AFc'']),
      (pct ''%C4%90%E1%BB%93ng b%E1%BA%B1ng s%C3%B4ng C%E1%BB%ADu Long'', [pct ''c%E1%BA%A7n%5Cs*th%C6%A1'', pct ''mi%E1%BB%81n%5Cs*nam'', pct ''mi%E1%BB%81n%5Cs*t%C3%A2y'']),
      (pct ''B%E1%BA%AFc Trung B%E1%BB%99 v%C3%A0 Duy%C3%AAn h%E1%BA%A3i mi%E1%BB%81n Trung'', [pct ''mi%E1%BB%81n%5Cs*trung'', pct ''hu%E1%BA%BF'', pct ''%C4%91%C3%A0%5Cs*n%E1%BA%B5ng'', pct ''nha%5Cs*trang''])]"

definition terrain_patterns :: "(string \<times> string list) list" where
  "terrain_patterns =
     [(pct ''ven bi%E1%BB%83n'', [pct ''bi%E1%BB%83n'', pct ''b%C3%A3i%5Cs*bi%E1%BB%83n'', pct ''t%E1%BA%AFm%5Cs*bi%E1%BB%83n'']),
      (pct ''mi%E1%BB%81n n%C3%BAi'', [pct ''n%C3%BAi'', pct ''leo%5Cs*n%C3%BAi'', pct ''v%C3%B9ng%5Cs*n%C3%BAi'']),
      (pct ''%C4%91%E1%BB%93ng b%E1%BA%B1ng'', [pct ''%C4%91%E1%BB%93ng%5Cs*b%E1%BA%B1ng'', pct ''n%C3%B4ng%5Cs*th%C3%B4n''])]"

subsection \<open>The fallback extractor\<close>

text \<open>The first entry whose patterns match (\<open>any(re.search(p, u) for p in patterns)\<close>).\<close>

fun first_match :: "pyrt \<Rightarrow> string \<Rightarrow> ('a \<times> string list) list \<Rightarrow> 'a option" where
  "first_match rt u [] = None"
| "first_match rt u ((a, ps) # rest) =
     (if list_ex (\<lambda>p. rt_re_search rt p u) ps then Some a else first_match rt u rest)"

text \<open>The loop over the numeric patterns: a match whose number lies outside the range
  is passed over.\<close>

fun first_number :: "pyrt \<Rightarrow> string \<Rightarrow> real \<Rightarrow> real \<Rightarrow> string list \<Rightarrow> real option" where
  "first_number rt u lo hi [] = None"
| "first_number rt u lo hi (p # ps) =
     (case rt_re_num rt p u of
        Some v \<Rightarrow> if lo \<le> v \<and> v \<le> hi then Some v else first_number rt u lo hi ps
      | None \<Rightarrow> first_number rt u lo hi ps)"

definition numeric_fallback ::
  "pyrt \<Rightarrow> string \<Rightarrow> string list \<Rightarrow> real \<Rightarrow> real \<Rightarrow> (real \<times> string list) list \<Rightarrow> real option" where
  "numeric_fallback rt u pats lo hi kws =
     (case first_number rt u lo hi pats of Some v \<Rightarrow> Some v | None \<Rightarrow> first_match rt u kws)"

definition fallback_month :: "pyrt \<Rightarrow> string \<Rightarrow> int option" where
  "fallback_month rt user_input = first_match rt (rt_lower rt user_input) month_patterns"

definition fallback_numeric :: "pyrt \<Rightarrow> string \<Rightarrow> fb_kind \<Rightarrow> real option" where
  "fallback_numeric rt user_input ty =
     (let u = rt_lower rt user_input in
      case ty of
        FB_temperature \<Rightarrow> numeric_fallback rt u temperature_patterns 15 35 temperature_keywords
      | FB_wind \<Rightarrow> numeric_fallback rt u wind_patterns 5 30 wind_keywords
      | FB_humidity \<Rightarrow> numeric_fallback rt u humidity_patterns 50 90 humidity_keywords
      | FB_precipitation \<Rightarrow> numeric_fallback rt u precipitation_patterns 0 30 precipitation_keywords
      | FB_cloud_cover \<Rightarrow> numeric_fallback rt u cloud_cover_patterns 0 100 cloud_cover_keywords)"

definition fallback_region :: "pyrt \<Rightarrow> string \<Rightarrow> string option" where
  "fallback_region rt user_input = first_match rt (rt_lower rt user_input) region_patterns"

definition fallback_terrain :: "pyrt \<Rightarrow> string \<Rightarrow> string option" where
  "fallback_terrain rt user_input = first_match rt (rt_lower rt user_input) terrain_patterns"

text \<open>\<open>_has_specific_wind_pattern\<close> (lines 527--529); nothing in the repository calls it.\<close>

definition has_specific_wind_pattern :: "pyrt \<Rightarrow> string \<Rightarrow> bool" where
  "has_specific_wind_pattern rt user_input =
     rt_re_search rt (pct ''(kh%C3%B4ng%5Cs*th%C3%ADch%5Cs*gi%C3%B3|%C3%ADt%5Cs*gi%C3%B3|gi%C3%B3%5Cs*nh%E1%BA%B9|gi%C3%B3%5Cs*m%E1%BA%A1nh|%5Cd+%5Cs*km/h)'') (rt_lower rt user_input)"

subsection \<open>Defaults with fallback\<close>

text \<open>\<open>str(n)\<close> of an integer.\<close>

fun nat_str :: "nat \<Rightarrow> string" where
  "nat_str n = (if n < 10 then [char_of (48 + n)] else nat_str (n div 10) @ [char_of (48 + n mod 10)])"

definition int_str :: "int \<Rightarrow> string" where
  "int_str i = (if i < 0 then CHR ''-'' # nat_str (nat (- i)) else nat_str (nat i))"

text \<open>\<open>sep.join(parts)\<close>.\<close>

fun py_join :: "string \<Rightarrow> string list \<Rightarrow> string" where
  "py_join sep [] = []"
| "py_join sep [x] = x"
| "py_join sep (x # y # zs) = x @ sep @ py_join sep (y # zs)"

text \<open>\<open>d[key] = v\<close> when the fallback found \<open>v\<close>, otherwise the old value.\<close>

definition found :: "'a option \<Rightarrow> 'b field \<Rightarrow> ('a \<Rightarrow> 'b) \<Rightarrow> 'b field" where
  "found x old f = (case x of Some v \<Rightarrow> Val (f v) | None \<Rightarrow> old)"

definition desc_parts ::
  "pyrt \<Rightarrow> int option \<Rightarrow> real option \<Rightarrow> real option \<Rightarrow> real option \<Rightarrow> real option \<Rightarrow> real option \<Rightarrow>
   string option \<Rightarrow> string option \<Rightarrow> string list" where
  "desc_parts rt m t w h r c g tr =
     (case m of Some mo \<Rightarrow> if mo \<noteq> 0 then [pct ''th%C3%A1ng '' @ int_str mo] else [] | None \<Rightarrow> []) @
     (case t of Some x \<Rightarrow> if x \<noteq> 0 then [rt_str_float rt x @ pct ''%C2%B0C''] else [] | None \<Rightarrow> []) @
     (case w of Some x \<Rightarrow> if x \<noteq> 0 then [pct ''gi%C3%B3 '' @ rt_str_float rt x @ ''km/h''] else [] | None \<Rightarrow> []) @
     (case h of Some x \<Rightarrow> if x \<noteq> 0 then [pct ''%C4%91%E1%BB%99 %E1%BA%A9m '' @ rt_str_float rt x @ pct ''%25''] else []
      | None \<Rightarrow> []) @
     (case r of Some x \<Rightarrow> [pct ''m%C6%B0a '' @ rt_str_float rt x @ ''mm''] | None \<Rightarrow> []) @
     (case c of Some x \<Rightarrow> [pct ''m%C3%A2y '' @ rt_str_float rt x @ pct ''%25''] | None \<Rightarrow> []) @
     (case g of Some s \<Rightarrow> if s \<noteq> [] then [s] else [] | None \<Rightarrow> []) @
     (case tr of Some s \<Rightarrow> if s \<noteq> [] then [s] else [] | None \<Rightarrow> [])"

definition default_preferences_with_fallback :: "pyrt \<Rightarrow> string \<Rightarrow> prefs" where
  "default_preferences_with_fallback rt user_input =
     (let m = fallback_month rt user_input;
          t = fallback_numeric rt user_input FB_temperature;
          w = fallback_numeric rt user_input FB_wind;
          h = fallback_numeric rt user_input FB_humidity;
          r = fallback_numeric rt user_input FB_precipitation;
          c = fallback_numeric rt user_input FB_cloud_cover;
          g = fallback_region rt user_input;
          tr = fallback_terrain rt user_input;
          p = default_preferences;
          parts = desc_parts rt m t w h r c g tr
      in \<lparr>pref_avgtemp_c = found t (pref_avgtemp_c p) id, pref_maxwind_kph = found w (pref_maxwind_kph p) id,
          pref_totalprecip_mm = found r (pref_totalprecip_mm p) id,
          pref_avghumidity = found h (pref_avghumidity p) id,
          pref_cloud_cover_mean = found c (pref_cloud_cover_mean p) id,
          pref_month = found m (pref_month p) real_of_int,
          pref_region = found g (pref_region p) id, pref_terrain = found tr (pref_terrain p) id,
          pref_preferences = (if parts \<noteq> [] then Val (pct ''du l%E1%BB%8Bch '' @ py_join '', '' parts)
                              else pref_preferences p)\<rparr>)"

subsection \<open>Reading the LLM's reply\<close>

text \<open>The match of the greedy brace-to-brace pattern under \<open>re.DOTALL\<close> (braces
  escaped in the source): from the first opening brace to the last closing brace after it.\<close>

definition json_match :: "string \<Rightarrow> string option" where
  "json_match s =
     (let a = dropWhile (\<lambda>c. c \<noteq> CHR ''{'') s;
          b = rev (dropWhile (\<lambda>c. c \<noteq> CHR ''}'') (rev a))
      in if b = [] then None else Some b)"

text \<open>The first cleaning \<open>re.sub\<close>: a newline and the whitespace after it become one space.\<close>

function collapse_newlines :: "string \<Rightarrow> string" where
  "collapse_newlines [] = []"
| "collapse_newlines (c # cs) =
     (if c = CHR 0x0A then CHR '' '' # collapse_newlines (dropWhile py_space cs)
      else c # collapse_newlines cs)"
  by pat_completeness auto
termination
  by (relation "measure length") (auto simp: le_imp_less_Suc length_dropWhile_le)

text \<open>The second cleaning \<open>re.sub\<close>: a comma followed by whitespace and a closing brace
  becomes the brace.\<close>

function drop_trailing_commas :: "string \<Rightarrow> string" where
  "drop_trailing_commas [] = []"
| "drop_trailing_commas (c # cs) =
     (let rest = dropWhile py_space cs in
      if c = CHR '','' \<and> rest \<noteq> [] \<and> hd rest = CHR ''}'' then CHR ''}'' # drop_trailing_commas (tl rest)
      else c # drop_trailing_commas cs)"
  by pat_completeness auto
termination
  by (relation "measure length")
    (auto simp: Let_def le_imp_less_Suc length_dropWhile_le length_dropWhile_less_Suc)

text \<open>One step of the loop over \<open>fallback_map\<close>: a key is replaced when it is missing
  or null, or (for the weather keys, which carry a range) when its value is outside
  the range; comparing a string with the bound raises \<open>TypeError\<close>.\<close>

definition needs_fallback :: "(real \<times> real) option \<Rightarrow> jnum field \<Rightarrow> error + bool" where
  "needs_fallback rng v =
     (case dict_get_opt v of
        None \<Rightarrow> Inr True
      | Some x \<Rightarrow>
          (case rng of
             None \<Rightarrow> Inr False
           | Some (lo, hi) \<Rightarrow>
               (case py_num x of
                  None \<Rightarrow> Inl (TypeError (pct ''%27<=%27 not supported between instances of %27int%27 and %27str%27''))
                | Some n \<Rightarrow> Inr (\<not> (lo \<le> n \<and> n \<le> hi)))))"

definition merge_number :: "real option \<Rightarrow> (real \<times> real) option \<Rightarrow> jnum field \<Rightarrow> error + jnum field" where
  "merge_number fb rng v = ebind (needs_fallback rng v) (\<lambda>b. Inr (if b then found fb v JNum else v))"

definition merge_text :: "string option \<Rightarrow> string field \<Rightarrow> string field" where
  "merge_text fb v = (case dict_get_opt v of None \<Rightarrow> found fb v id | Some _ \<Rightarrow> v)"

definition merge_fallbacks :: "pyrt \<Rightarrow> string \<Rightarrow> llm_prefs \<Rightarrow> error + llm_prefs" where
  "merge_fallbacks rt user_input p =
     ebind (merge_number (map_option real_of_int (fallback_month rt user_input)) None (lp_month p)) (\<lambda>mo.
     ebind (merge_number (fallback_numeric rt user_input FB_temperature) (Some (15, 35)) (lp_avgtemp_c p)) (\<lambda>t.
     ebind (merge_number (fallback_numeric rt user_input FB_wind) (Some (5, 30)) (lp_maxwind_kph p)) (\<lambda>w.
     ebind (merge_number (fallback_numeric rt user_input FB_humidity) (Some (50, 90)) (lp_avghumidity p)) (\<lambda>h.
     ebind (merge_number (fallback_numeric rt user_input FB_precipitation) (Some (0, 30)) (lp_totalprecip_mm p)) (\<lambda>r.
     ebind (merge_number (fallback_numeric rt user_input FB_cloud_cover) (Some (0, 100)) (lp_cloud_cover_mean p)) (\<lambda>c.
       Inr (p\<lparr>lp_month := mo, lp_avgtemp_c := t, lp_maxwind_kph := w, lp_avghumidity := h,
              lp_totalprecip_mm := r, lp_cloud_cover_mean := c,
              lp_region := merge_text (fallback_region rt user_input) (lp_region p),
              lp_terrain := merge_text (fallback_terrain rt user_input) (lp_terrain p)\<rparr>)))))))"

definition extract_travel_preferences ::
  "pyrt \<Rightarrow> (string \<Rightarrow> llm_prefs option) \<Rightarrow> string option \<Rightarrow> string \<Rightarrow> prefs" where
  "extract_travel_preferences rt json_loads reply user_input =
     (let dflt = default_preferences_with_fallback rt user_input in
      case reply of
        None \<Rightarrow> dflt
      | Some content \<Rightarrow>
          (case json_match (py_strip content) of
             None \<Rightarrow> dflt
           | Some js \<Rightarrow>
               (case json_loads (drop_trailing_commas (collapse_newlines js)) of
                  None \<Rightarrow> dflt
                | Some p \<Rightarrow>
                    (case ebind (merge_fallbacks rt user_input p) validate_preferences of
                       Inl err \<Rightarrow> dflt
                     | Inr v \<Rightarrow> v))))"


subsection \<open>The fallbacks stay inside the ranges\<close>

lemma first_number_range: "first_number rt u lo hi ps = Some v \<Longrightarrow> lo \<le> v \<and> v \<le> hi"
  by (induction ps) (auto split: option.splits if_splits)

lemma first_match_fst: "first_match rt u xs = Some a \<Longrightarrow> a \<in> set (map fst xs)"
  by (induction xs rule: first_match.induct) (auto split: if_splits)

lemma first_match_none: "(\<And>p. \<not> rt_re_search rt p u) \<Longrightarrow> first_match rt u xs = None"
  by (induction xs rule: first_match.induct) (simp_all add: list_ex_iff)

lemma first_number_none: "(\<And>p. rt_re_num rt p u = None) \<Longrightarrow> first_number rt u lo hi ps = None"
  by (induction ps) simp_all

lemma numeric_fallback_range:
  assumes x: "numeric_fallback rt u pats lo hi kws = Some x"
    and kws: "list_all (\<lambda>v. lo \<le> v \<and> v \<le> hi) (map fst kws)"
  shows "lo \<le> x \<and> x \<le> hi"
proof (cases "first_number rt u lo hi pats")
  case None
  with x have "first_match rt u kws = Some x" by (simp add: numeric_fallback_def)
  then have "x \<in> set (map fst kws)" by (rule first_match_fst)
  with kws show ?thesis by (auto simp: list_all_iff)
next
  case (Some v)
  with x show ?thesis by (simp add: numeric_fallback_def first_number_range)
qed

lemma fallback_keys:
  "map fst month_patterns = [12, 11, 10, 1, 2, 3, 4, 5, 6, 7, 8, 9]"
  "map fst temperature_keywords = [20, 30, 25]" "map fst wind_keywords = [6, 8, 25]"
  "map fst humidity_keywords = [55, 80, 70]" "map fst precipitation_keywords = [0, 10, 20, 30]"
  "map fst cloud_cover_keywords = [20, 80, 50]"
  by (simp_all only: month_patterns_def temperature_keywords_def wind_keywords_def humidity_keywords_def
      precipitation_keywords_def cloud_cover_keywords_def list.map fst_conv)

lemma fallback_numeric_range:
  "fallback_numeric rt s FB_temperature = Some x \<Longrightarrow> 15 \<le> x \<and> x \<le> 35"
  "fallback_numeric rt s FB_wind = Some x \<Longrightarrow> 5 \<le> x \<and> x \<le> 30"
  "fallback_numeric rt s FB_humidity = Some x \<Longrightarrow> 50 \<le> x \<and> x \<le> 90"
  "fallback_numeric rt s FB_precipitation = Some x \<Longrightarrow> 0 \<le> x \<and> x \<le> 30"
  "fallback_numeric rt s FB_cloud_cover = Some x \<Longrightarrow> 0 \<le> x \<and> x \<le> 100"
  by (simp_all add: fallback_numeric_def numeric_fallback_range fallback_keys)

lemma fallback_month_range: "fallback_month rt s = Some m \<Longrightarrow> 1 \<le> m \<and> m \<le> 12"
  using first_match_fst [of rt "rt_lower rt s" month_patterns m] by (auto simp: fallback_month_def fallback_keys)

lemma found_range:
  "(\<And>x. f = Some x \<Longrightarrow> lo \<le> x \<and> x \<le> hi) \<Longrightarrow> lo \<le> d \<Longrightarrow> d \<le> hi \<Longrightarrow> in_range lo hi (found f (Val d) id)"
  by (cases f) (auto simp: found_def)

lemma found_month: "(\<And>m. f = Some m \<Longrightarrow> 1 \<le> m \<and> m \<le> 12) \<Longrightarrow> month_ok (found f Null real_of_int)"
  by (cases f) (auto simp: found_def month_ok_def)

lemma found_not_Absent: "old \<noteq> Absent \<Longrightarrow> found f old g \<noteq> Absent"
  by (cases f) (simp_all add: found_def)

lemma default_preferences_with_fallback_valid: "prefs_valid (default_preferences_with_fallback rt s)"
proof -
  have "in_range 15 35 (found (fallback_numeric rt s FB_temperature) (Val 27) id)"
    and "in_range 5 30 (found (fallback_numeric rt s FB_wind) (Val 15) id)"
    and "in_range 50 90 (found (fallback_numeric rt s FB_humidity) (Val 65) id)"
    and "in_range 0 30 (found (fallback_numeric rt s FB_precipitation) (Val 10) id)"
    and "in_range 0 100 (found (fallback_numeric rt s FB_cloud_cover) (Val 60) id)"
    by (rule found_range; simp add: fallback_numeric_range)+
  moreover have "month_ok (found (fallback_month rt s) Null real_of_int)"
    by (rule found_month) (rule fallback_month_range)
  ultimately show ?thesis
    by (simp add: prefs_valid_def default_preferences_with_fallback_def Let_def default_preferences_def
        found_not_Absent)
qed

lemma extract_travel_preferences_cases:
  "extract_travel_preferences rt jl reply s = default_preferences_with_fallback rt s \<or>
   (\<exists>p. validate_preferences p = Inr (extract_travel_preferences rt jl reply s))"
  by (auto simp: extract_travel_preferences_def Let_def ebind_eq_Inr split: option.splits sum.splits)

subsection \<open>Properties of extraction\<close>

text \<open>C37. Whatever the LLM replies (or when the call fails) and whatever json.loads makes of it, extract_travel_preferences returns a valid preference record: every weather value inside its range, the month null or 1 to 12, no key missing.\<close>

theorem extract_travel_preferences_valid: "prefs_valid (extract_travel_preferences rt jl reply s)"
  using extract_travel_preferences_cases [of rt jl reply s]
  by (auto simp: default_preferences_with_fallback_valid intro: validate_preferences_Inr_valid)


end
