(* ===== verification/Topic.thy ===== *)
theory Topic
  imports Pref_Extraction
begin

text \<open>
  The topic gate and the replies of the chatbot (\<open>src/chatbot.py\<close>):
  \<^item> \<open>check_travel_topic\<close> (lines 149--186) asks the LLM whether the message is
    about travel and reads the JSON object of its reply; a failed call, a reply without
    an object and a reply \<open>json.loads\<close> rejects all fall back to
    \<open>_check_travel_topic_fallback\<close> (lines 188--276, \<open>topic_fallback\<close>): the
    source's keyword patterns searched in the lower-cased, stripped message, and its
    word count;
  \<^item> \<open>generate_polite_refusal\<close> and \<open>_get_default_refusal\<close> (lines 278--312): an
    LLM refusal, or one of the default messages picked by \<open>random.choice\<close>;
  \<^item> \<open>process_user_input\<close> (lines 314--329): refuse when the topic result is not
    travel-related and its confidence is above 0.6, otherwise extract preferences;
  \<^item> \<open>generate_response\<close> and \<open>_get_default_response\<close> (lines 582--656): the reply
    text, which runs \<open>process_user_input\<close> again before writing.
  The outside world is the record \<open>chat_env\<close> (text runtime, the two
  \<open>json.loads\<close> readings, the index \<open>random.choice\<close> draws) and the LLM is a
  stream of replies: every call takes the next one (\<open>None\<close>: the call raised;
  an exhausted stream behaves as a failing call), so the number and order of LLM calls
  of a request are explicit in the model.
\<close>

text \<open>Python's truth value of a JSON scalar.\<close>

fun py_truthy :: "jnum \<Rightarrow> bool" where
  "py_truthy (JNum x) = (x \<noteq> 0)"
| "py_truthy (JStr s) = (s \<noteq> [])"
| "py_truthy (JBool b) = b"

record topic_result =
  tr_is_travel_related :: "jnum field"
  tr_confidence :: "jnum field"
  tr_reason :: "string field"

record chat_env =
  env_rt :: pyrt
  env_prefs_json :: "string \<Rightarrow> llm_prefs option"
  env_topic_json :: "string \<Rightarrow> topic_result option"
  env_choice :: nat

type_synonym llm_stream = "string option list"

definition llm_call :: "llm_stream \<Rightarrow> string option \<times> llm_stream" where
  "llm_call llm = (case llm of [] \<Rightarrow> (None, []) | r # rest \<Rightarrow> (r, rest))"

subsection \<open>The keyword fallback\<close>

definition travel_keywords :: "string list" where
  "travel_keywords =
     [pct ''du%5Cs*l%E1%BB%8Bch'', pct ''%C4%91i%5Cs*ch%C6%A1i'',
      pct ''ngh%E1%BB%89%5Cs*d%C6%B0%E1%BB%A1ng'', pct ''tham%5Cs*quan'', pct ''tour'',
      pct ''%C4%91%E1%BB%8Ba%5Cs*%C4%91i%E1%BB%83m%5Cs*du%5Cs*l%E1%BB%8Bch'',
      pct ''n%C6%A1i%5Cs*du%5Cs*l%E1%BB%8Bch'', pct ''%C4%91i%E1%BB%83m%5Cs*%C4%91%E1%BA%BFn'',
      pct ''th%C3%A0nh%5Cs*ph%E1%BB%91'', pct ''t%E1%BB%89nh'', pct ''v%C3%B9ng'',
      pct ''khu%5Cs*v%E1%BB%B1c'', pct ''mi%E1%BB%81n%5Cs*b%E1%BA%AFc'',
      pct ''mi%E1%BB%81n%5Cs*trung'', pct ''mi%E1%BB%81n%5Cs*nam'', pct ''t%C3%A2y%5Cs*nguy%C3%AAn'',
      pct ''b%E1%BA%AFc%5Cs*b%E1%BB%99'', pct ''trung%5Cs*b%E1%BB%99'', pct ''nam%5Cs*b%E1%BB%99'',
      pct ''bi%E1%BB%83n'', pct ''n%C3%BAi'', pct ''%C4%91%E1%BB%93ng%5Cs*b%E1%BA%B1ng'',
      pct ''ven%5Cs*bi%E1%BB%83n'', pct ''b%C3%A3i%5Cs*bi%E1%BB%83n'', pct ''leo%5Cs*n%C3%BAi'',
      pct ''t%E1%BA%AFm%5Cs*bi%E1%BB%83n'', pct ''ng%E1%BA%AFm%5Cs*c%E1%BA%A3nh'',
      pct ''phong%5Cs*c%E1%BA%A3nh'', pct ''th%E1%BB%9Di%5Cs*ti%E1%BA%BFt.*du%5Cs*l%E1%BB%8Bch'',
      pct ''kh%C3%AD%5Cs*h%E1%BA%ADu.*du%5Cs*l%E1%BB%8Bch'',
      pct ''th%E1%BB%9Di%5Cs*ti%E1%BA%BFt.*th%C3%A1ng'', pct ''kh%C3%AD%5Cs*h%E1%BA%ADu.*th%C3%A1ng'',
      pct ''m%C3%A1t%5Cs*m%E1%BA%BB'', pct ''n%C3%B3ng.*du%5Cs*l%E1%BB%8Bch'',
      pct ''l%E1%BA%A1nh.*du%5Cs*l%E1%BB%8Bch'', pct ''m%C3%B9a%5Cs*kh%C3%B4'',
      pct ''m%C3%B9a%5Cs*m%C6%B0a'', pct ''m%C3%B9a%5Cs*xu%C3%A2n'', pct ''m%C3%B9a%5Cs*h%C3%A8'',
      pct ''m%C3%B9a%5Cs*thu'', pct ''m%C3%B9a%5Cs*%C4%91%C3%B4ng'', pct ''h%C3%A0%5Cs*n%E1%BB%99i'',
      pct ''s%C3%A0i%5Cs*g%C3%B2n'', pct ''tp%5Cs*h%E1%BB%93%5Cs*ch%C3%AD%5Cs*minh'',
      pct ''%C4%91%C3%A0%5Cs*n%E1%BA%B5ng'', pct ''hu%E1%BA%BF'', pct ''nha%5Cs*trang'',
      pct ''h%E1%BA%A1%5Cs*long'', pct ''sapa'', pct ''%C4%91%C3%A0%5Cs*l%E1%BA%A1t'',
      pct ''ph%C3%BA%5Cs*qu%E1%BB%91c'', pct ''c%E1%BA%A7n%5Cs*th%C6%A1'', pct ''h%E1%BB%99i%5Cs*an'',
      pct ''v%C5%A9ng%5Cs*t%C3%A0u'', pct ''kh%C3%A1ch%5Cs*s%E1%BA%A1n'', pct ''resort'',
      pct ''homestay'', pct ''l%C6%B0u%5Cs*tr%C3%BA'',
      pct ''%C4%83n%5Cs*u%E1%BB%91ng.*du%5Cs*l%E1%BB%8Bch'',
      pct ''m%C3%B3n%5Cs*ngon.*%C4%91%E1%BB%8Ba%5Cs*ph%C6%B0%C6%A1ng'',
      pct ''%C4%91%E1%BA%B7c%5Cs*s%E1%BA%A3n'',
      pct ''%E1%BA%A9m%5Cs*th%E1%BB%B1c.*du%5Cs*l%E1%BB%8Bch'', pct ''l%E1%BB%85%5Cs*h%E1%BB%99i'',
      pct ''v%C4%83n%5Cs*h%C3%B3a.*du%5Cs*l%E1%BB%8Bch'',
      pct ''truy%E1%BB%81n%5Cs*th%E1%BB%91ng.*du%5Cs*l%E1%BB%8Bch'',
      pct ''g%E1%BB%A3i%5Cs*%C3%BD.*du%5Cs*l%E1%BB%8Bch'',
      pct ''g%E1%BB%A3i%5Cs*%C3%BD.*%C4%91%E1%BB%8Ba%5Cs*%C4%91i%E1%BB%83m'',
      pct ''khuy%C3%AAn.*du%5Cs*l%E1%BB%8Bch'', pct ''n%C3%AAn%5Cs*%C4%91i.*%C4%91%C3%A2u'',
      pct ''%C4%91i%5Cs*%C4%91%C3%A2u.*du%5Cs*l%E1%BB%8Bch'',
      pct ''%E1%BB%9F%5Cs*%C4%91%C3%A2u.*du%5Cs*l%E1%BB%8Bch'',
      pct ''mu%E1%BB%91n%5Cs*%C4%91i.*bi%E1%BB%83n'', pct ''mu%E1%BB%91n%5Cs*%C4%91i.*n%C3%BAi'',
      pct ''mu%E1%BB%91n%5Cs*%C4%91i.*du%5Cs*l%E1%BB%8Bch'']"

definition short_keywords :: "string list" where
  "short_keywords =
     [pct ''%5Cbth%C3%A1ng%5Cb'', pct ''%5Cbm%C3%B9a%5Cb'', pct ''%5Cbgi%C3%B3%5Cb'',
      pct ''%5Cb%C4%91%E1%BB%99%5Cs*%E1%BA%A9m%5Cb'',
      pct ''%5Cbnhi%E1%BB%87t%5Cs*%C4%91%E1%BB%99%5Cb'',
      pct ''%5Cbth%E1%BB%9Di%5Cs*ti%E1%BA%BFt%5Cb'', pct ''%5Cbkh%C3%AD%5Cs*h%E1%BA%ADu%5Cb'']"

definition topic_verdict :: "bool \<Rightarrow> real \<Rightarrow> string \<Rightarrow> topic_result" where
  "topic_verdict b c r = \<lparr>tr_is_travel_related = Val (JBool b), tr_confidence = Val (JNum c), tr_reason = Val r\<rparr>"

definition topic_fallback :: "pyrt \<Rightarrow> string \<Rightarrow> topic_result" where
  "topic_fallback rt user_input =
     (let u = py_strip (rt_lower rt user_input);
          word_count = length (py_split u);
          has_main = list_ex (\<lambda>k. rt_re_search rt k u) travel_keywords;
          has_short = list_ex (\<lambda>k. rt_re_search rt k u) short_keywords
      in if has_main then topic_verdict True 0.8 (pct ''Ch%E1%BB%A9a t%E1%BB%AB kh%C3%B3a du l%E1%BB%8Bch r%C3%B5 r%C3%A0ng'')
         else if has_short \<and> 4 \<le> word_count then
           topic_verdict True 0.6 (pct ''C%C3%B3 t%E1%BB%AB kh%C3%B3a li%C3%AAn quan, c%C3%B3 th%E1%BB%83 v%E1%BB%81 du l%E1%BB%8Bch'')
         else if word_count < 3 then
           topic_verdict False 0.9 (pct ''C%C3%A2u qu%C3%A1 ng%E1%BA%AFn, c%E1%BA%A7n n%C3%B3i r%C3%B5 h%C6%A1n v%E1%BB%81 du l%E1%BB%8Bch'')
         else topic_verdict False 0.7 (pct ''Kh%C3%B4ng ch%E1%BB%A9a t%E1%BB%AB kh%C3%B3a du l%E1%BB%8Bch''))"

text \<open>The JSON object of a reply, cut out and cleaned as both LLM readers do it.\<close>

definition reply_json :: "string \<Rightarrow> string option" where
  "reply_json content = map_option (\<lambda>js. drop_trailing_commas (collapse_newlines js)) (json_match (py_strip content))"

definition check_travel_topic :: "chat_env \<Rightarrow> string \<Rightarrow> llm_stream \<Rightarrow> topic_result \<times> llm_stream" where
  "check_travel_topic env user_input llm =
     (let (reply, rest) = llm_call llm;
          fb = topic_fallback (env_rt env) user_input
      in (case reply of
            None \<Rightarrow> fb
          | Some content \<Rightarrow>
              (case reply_json content of
                 None \<Rightarrow> fb
               | Some js \<Rightarrow> (case env_topic_json env js of None \<Rightarrow> fb | Some t \<Rightarrow> t)), rest))"

subsection \<open>Refusals\<close>

definition refusal_short :: "string list" where
  "refusal_short =
     [pct ''B%E1%BA%A1n c%C3%B3 th%E1%BB%83 n%C3%B3i r%C3%B5 h%C6%A1n v%E1%BB%81 y%C3%AAu c%E1%BA%A7u du l%E1%BB%8Bch kh%C3%B4ng? V%C3%AD d%E1%BB%A5: %27T%C3%B4i mu%E1%BB%91n %C4%91i bi%E1%BB%83n mi%E1%BB%81n Trung th%C3%A1ng 6%27.'',
      pct ''C%C3%A2u h%E1%BB%8Fi h%C6%A1i ng%E1%BA%AFn, h%C3%A3y cho t%C3%B4i bi%E1%BA%BFt c%E1%BB%A5 th%E1%BB%83 v%E1%BB%81 n%C6%A1i b%E1%BA%A1n mu%E1%BB%91n %C4%91i, th%E1%BB%9Di gian ho%E1%BA%B7c th%E1%BB%9Di ti%E1%BA%BFt b%E1%BA%A1n th%C3%ADch nh%C3%A9!'']"

definition refusal_default :: "string list" where
  "refusal_default =
     [pct ''T%C3%B4i ch%E1%BB%89 h%E1%BB%97 tr%E1%BB%A3 v%E1%BB%81 du l%E1%BB%8Bch Vi%E1%BB%87t Nam. B%E1%BA%A1n c%C3%B3 th%E1%BB%83 h%E1%BB%8Fi v%E1%BB%81 %C4%91%E1%BB%8Ba %C4%91i%E1%BB%83m, th%E1%BB%9Di ti%E1%BA%BFt, th%E1%BB%9Di gian du l%E1%BB%8Bch ph%C3%B9 h%E1%BB%A3p.'',
      pct ''Xin l%E1%BB%97i, t%C3%B4i chuy%C3%AAn t%C6%B0 v%E1%BA%A5n du l%E1%BB%8Bch Vi%E1%BB%87t Nam. B%E1%BA%A1n mu%E1%BB%91n t%C3%B4i g%E1%BB%A3i %C3%BD %C4%91%E1%BB%8Ba %C4%91i%E1%BB%83m th%C3%BA v%E1%BB%8B kh%C3%B4ng?'',
      pct ''T%C3%B4i ch%E1%BB%89 chuy%C3%AAn v%E1%BB%81 du l%E1%BB%8Bch Vi%E1%BB%87t Nam. H%C3%A3y cho t%C3%B4i bi%E1%BA%BFt b%E1%BA%A1n mu%E1%BB%91n %C4%91i %C4%91%C3%A2u, khi n%C3%A0o nh%C3%A9!'']"

text \<open>\<open>random.choice(xs)\<close>, with the drawn index a parameter.\<close>

definition py_choice :: "nat \<Rightarrow> string list \<Rightarrow> string" where
  "py_choice ch xs = xs ! (ch mod length xs)"

text \<open>\<open>_get_default_refusal(topic_result.get('reason', ''))\<close>: a null reason makes the
  substring test raise \<open>TypeError\<close>.\<close>

definition default_refusal :: "nat \<Rightarrow> string field \<Rightarrow> error + string" where
  "default_refusal ch reason =
     (case dict_get reason [] of
        None \<Rightarrow> Inl (TypeError (pct ''argument of type %27NoneType%27 is not iterable''))
      | Some r \<Rightarrow> Inr (if sublist (pct ''qu%C3%A1 ng%E1%BA%AFn'') r then py_choice ch refusal_short
                      else py_choice ch refusal_default))"

definition generate_polite_refusal ::
  "chat_env \<Rightarrow> topic_result \<Rightarrow> llm_stream \<Rightarrow> error + (string \<times> llm_stream)" where
  "generate_polite_refusal env t llm =
     (let (reply, rest) = llm_call llm in
      case reply of
        Some content \<Rightarrow> Inr (py_strip content, rest)
      | None \<Rightarrow> ebind (default_refusal (env_choice env) (tr_reason t)) (\<lambda>r. Inr (r, rest)))"

subsection \<open>The gate\<close>

datatype topic_outcome = Refused string | Travel prefs

text \<open>\<open>not t.get('is_travel_related', False) and t.get('confidence', 0) > 0.6\<close>:
  comparing a null or a string confidence with 0.6 raises \<open>TypeError\<close>.\<close>

definition refuse_condition :: "topic_result \<Rightarrow> error + bool" where
  "refuse_condition t =
     (if (case dict_get (tr_is_travel_related t) (JBool False) of None \<Rightarrow> False | Some v \<Rightarrow> py_truthy v)
      then Inr False
      else (case dict_get (tr_confidence t) (JNum 0) of
              None \<Rightarrow> Inl (TypeError (pct ''%27>%27 not supported between instances of %27NoneType%27 and %27float%27''))
            | Some v \<Rightarrow>
                (case py_num v of
                   None \<Rightarrow> Inl (TypeError (pct ''%27>%27 not supported between instances of %27str%27 and %27float%27''))
                 | Some c \<Rightarrow> Inr (0.6 < c))))"

definition process_user_input ::
  "chat_env \<Rightarrow> string \<Rightarrow> llm_stream \<Rightarrow> error + (topic_outcome \<times> llm_stream)" where
  "process_user_input env user_input llm =
     (let (t, llm1) = check_travel_topic env user_input llm in
      ebind (refuse_condition t) (\<lambda>refuse.
        if refuse then ebind (generate_polite_refusal env t llm1) (\<lambda>(r, llm2). Inr (Refused r, llm2))
        else (let (reply, llm2) = llm_call llm1 in
              Inr (Travel (extract_travel_preferences (env_rt env) (env_prefs_json env) reply user_input), llm2))))"

subsection \<open>The reply text\<close>

definition no_match_message :: string where
  "no_match_message = pct ''T%C3%B4i hi%E1%BB%83u y%C3%AAu c%E1%BA%A7u c%E1%BB%A7a b%E1%BA%A1n, nh%C6%B0ng hi%E1%BB%87n t%E1%BA%A1i ch%C6%B0a t%C3%ACm %C4%91%C6%B0%E1%BB%A3c %C4%91%E1%BB%8Ba %C4%91i%E1%BB%83m ph%C3%B9 h%E1%BB%A3p. B%E1%BA%A1n c%C3%B3 th%E1%BB%83 cung c%E1%BA%A5p th%C3%AAm th%C3%B4ng tin c%E1%BB%A5 th%E1%BB%83 v%E1%BB%81 th%E1%BB%9Di gian, %C4%91%E1%BB%8Ba %C4%91i%E1%BB%83m, ho%E1%BA%B7c %C4%91i%E1%BB%81u ki%E1%BB%87n th%E1%BB%9Di ti%E1%BA%BFt mong mu%E1%BB%91n kh%C3%B4ng?''"

definition default_response_item :: "pyrt \<Rightarrow> nat \<Rightarrow> recommendation \<Rightarrow> string" where
  "default_response_item rt i r =
     int_str (int i) @ ''. **'' @ rec_city r @ '', '' @ rec_province r @ ''** ('' @ rec_region r @ pct '')%0A'' @
     pct ''   - Th%E1%BB%9Di gian: Th%C3%A1ng '' @ int_str (rec_month r) @ pct ''%0A'' @
     pct ''   - Th%E1%BB%9Di ti%E1%BA%BFt: '' @ rt_fmt_fixed rt 1 (rec_avgtemp_c r) @ pct ''%C2%B0C, gi%C3%B3 '' @
     rt_fmt_fixed rt 1 (rec_maxwind_kph r) @ ''km/h, '' @
     pct ''m%C6%B0a '' @ rt_fmt_fixed rt 1 (rec_totalprecip_mm r) @ pct ''mm, %C4%91%E1%BB%99 %E1%BA%A9m '' @
     rt_fmt_fixed rt 1 (rec_avghumidity r) @ pct ''%25%0A'' @
     pct ''   - %C4%90i%E1%BB%83m ph%C3%B9 h%E1%BB%A3p: '' @ rt_fmt_fixed rt 2 (rec_score r) @ pct ''%0A%0A''"

definition default_response :: "pyrt \<Rightarrow> recommendation list \<Rightarrow> string" where
  "default_response rt recs =
     (if recs = [] then pct ''Xin l%E1%BB%97i, t%C3%B4i kh%C3%B4ng t%C3%ACm th%E1%BA%A5y %C4%91%E1%BB%8Ba %C4%91i%E1%BB%83m n%C3%A0o ph%C3%B9 h%E1%BB%A3p v%E1%BB%9Bi y%C3%AAu c%E1%BA%A7u c%E1%BB%A7a b%E1%BA%A1n. B%E1%BA%A1n c%C3%B3 th%E1%BB%83 th%E1%BB%AD v%E1%BB%9Bi %C4%91i%E1%BB%81u ki%E1%BB%87n kh%C3%A1c kh%C3%B4ng?''
      else pct ''D%E1%BB%B1a tr%C3%AAn y%C3%AAu c%E1%BA%A7u c%E1%BB%A7a b%E1%BA%A1n, t%C3%B4i g%E1%BB%A3i %C3%BD nh%E1%BB%AFng %C4%91%E1%BB%8Ba %C4%91i%E1%BB%83m sau:%0A%0A'' @
           concat (map2 (default_response_item rt) [1..<Suc (length (take 5 recs))] (take 5 recs)) @
           pct ''B%E1%BA%A1n c%C3%B3 mu%E1%BB%91n bi%E1%BA%BFt th%C3%AAm th%C3%B4ng tin v%E1%BB%81 %C4%91%E1%BB%8Ba %C4%91i%E1%BB%83m n%C3%A0o kh%C3%B4ng?'')"

definition generate_response ::
  "chat_env \<Rightarrow> string \<Rightarrow> recommendation list \<Rightarrow> llm_stream \<Rightarrow> error + (string \<times> llm_stream)" where
  "generate_response env user_input recs llm =
     ebind (process_user_input env user_input llm) (\<lambda>(out, llm1).
       case out of
         Refused r \<Rightarrow> Inr (r, llm1)
       | Travel p \<Rightarrow>
           if recs = [] then Inr (no_match_message, llm1)
           else (let (reply, llm2) = llm_call llm1 in
                 case reply of
                   Some content \<Rightarrow> Inr (py_strip content, llm2)
                 | None \<Rightarrow> Inr (default_response (env_rt env) recs, llm2)))"

text \<open>\<open>chat\<close> (lines 658--663), the entry point, is \<open>generate_response\<close>.\<close>

definition chat ::
  "chat_env \<Rightarrow> string \<Rightarrow> recommendation list \<Rightarrow> llm_stream \<Rightarrow> error + (string \<times> llm_stream)" where
  "chat env user_input recs llm = generate_response env user_input recs llm"

end
