(* ===== verification/Endpoint.thy ===== *)
theory Endpoint
  imports Topic Lookup
begin

text \<open>
  The HTTP layer (\<open>src/main.py\<close>) and the chat-history table (\<open>src/models.py\<close>).
  \<^item> The table \<open>chat_history\<close> (class \<open>ChatHistory\<close>, \<open>models.py\<close> lines 13--24) is a
    list of \<open>chat_row\<close>s in insertion order. SQLite gives a new row of an
    \<open>INTEGER PRIMARY KEY\<close> table the largest id so far plus one (\<open>next_row_id\<close>);
    the timestamp is \<open>datetime.utcnow\<close> at the insert, a parameter.
  \<^item> \<open>chat_endpoint\<close> (\<open>POST /chat\<close>, lines 43--110) is one step on the table: it
    reads the request body (\<open>None\<close> when \<open>request.json()\<close> fails or is not an
    object), strips the message, runs the topic gate, asks the engine for five
    recommendations, has the chatbot write the reply (which runs the gate a second
    time), inserts one row and answers; every exception raised on the way, the
    \<open>HTTPException(400)\<close> of an empty message included, is caught by the handler's
    \<open>except Exception\<close> and answered with status 500, and then no row is inserted.
    The request-time values (a fresh \<open>uuid4\<close>, the clock, the client address) are
    the record \<open>request_world\<close>.
  \<^item> \<open>get_chat_history\<close> (\<open>GET /api/history\<close>, lines 129--160): the rows by
    descending timestamp, cut by SQL \<open>LIMIT\<close> (a negative limit is no limit in
    SQLite); the database's order among equal timestamps is left open, as the sort of
    the pipeline is, by the contract \<open>history_sort_ok\<close>.
  \<^item> \<open>GET /api/clusters\<close> and \<open>GET /api/search/{location}\<close> (lines 112--127) wrap
    the lookups of the engine.
  FastAPI routing, templates, \<open>/health\<close> and the session plumbing of \<open>get_db\<close>
  are not modelled.
\<close>

datatype stored_features = FeaturesPrefs prefs | FeaturesNonTravel

record chat_row =
  row_id :: int
  row_timestamp :: int
  row_user_message :: string
  row_bot_response :: string
  row_extracted_features :: stored_features
  row_recommended_locations :: "recommendation list"
  row_user_ip :: string
  row_session_id :: "string option"

record chat_request =
  rq_message :: "jnum field"
  rq_session_id :: "string field"

record request_world =
  w_uuid :: string
  w_now :: int
  w_client_host :: string

record chat_reply =
  cr_response :: string
  cr_is_travel_related :: bool
  cr_recommendations :: "recommendation list"
  cr_preferences :: stored_features
  cr_session_id :: "string option"
  cr_has_recommendations :: bool

record history_item =
  hi_id :: int
  hi_timestamp :: string
  hi_user_message :: string
  hi_bot_response :: string
  hi_session_id :: "string option"

datatype api_response =
    ChatOk chat_reply
  | HistoryOk "history_item list" nat
  | SearchOk "recommendation list" nat
  | ClustersOk "cluster_summary list"
  | ServerError string

text \<open>\<open>str(e)\<close> of the exceptions the handlers catch.\<close>

fun err_str :: "error \<Rightarrow> string" where
  "err_str (KeyError k) = CHR 0x27 # k @ [CHR 0x27]"
| "err_str (ValueError m) = m"
| "err_str (TypeError m) = m"
| "err_str (RegexError m) = m"
| "err_str (AttributeError m) = m"
| "err_str (HTTPError code detail) = int_str code @ '': '' @ detail"

definition next_row_id :: "chat_row list \<Rightarrow> int" where
  "next_row_id db = foldl max 0 (map row_id db) + 1"

text \<open>\<open>data.get("message", "").strip()\<close>: a message that is not a string has no
  \<open>strip\<close> (\<open>AttributeError\<close>).\<close>

definition request_message :: "jnum field \<Rightarrow> error + string" where
  "request_message v =
     (case dict_get v (JStr []) of
        Some (JStr s) \<Rightarrow> Inr (py_strip s)
      | Some (JNum _) \<Rightarrow> Inl (AttributeError (pct ''%27float%27 object has no attribute %27strip%27''))
      | Some (JBool _) \<Rightarrow> Inl (AttributeError (pct ''%27bool%27 object has no attribute %27strip%27''))
      | None \<Rightarrow> Inl (AttributeError (pct ''%27NoneType%27 object has no attribute %27strip%27'')))"

text \<open>The body of the handler's \<open>try\<close>: the reply and the row it inserts.\<close>

definition chat_handler ::
  "chat_env \<Rightarrow> (obs list \<Rightarrow> obs list) \<Rightarrow> engine \<Rightarrow> request_world \<Rightarrow> chat_request option \<Rightarrow>
   llm_stream \<Rightarrow> chat_row list \<Rightarrow> error + (chat_reply \<times> chat_row)" where
  "chat_handler env srt e w body llm db =
     (case body of
        None \<Rightarrow> Inl (ValueError ''Expecting value: line 1 column 1 (char 0)'')
      | Some data \<Rightarrow>
          ebind (request_message (rq_message data)) (\<lambda>user_message.
          let session_id = dict_get (rq_session_id data) (w_uuid w) in
          if user_message = [] then Inl (HTTPError 400 ''Message cannot be empty'')
          else ebind (process_user_input env user_message llm) (\<lambda>(out, llm1).
            ebind (case out of
                     Travel p \<Rightarrow>
                       ebind (get_recommendations_with srt e p 5) (\<lambda>recs.
                       ebind (generate_response env user_message recs llm1) (\<lambda>(resp, llm2).
                         Inr (True, recs, FeaturesPrefs p, resp)))
                   | Refused r \<Rightarrow> Inr (False, [], FeaturesNonTravel, r))
              (\<lambda>(is_travel, recs, feats, resp).
                 Inr (\<lparr>cr_response = resp, cr_is_travel_related = is_travel, cr_recommendations = recs,
                       cr_preferences = feats, cr_session_id = session_id, cr_has_recommendations = (recs \<noteq> [])\<rparr>,
                      \<lparr>row_id = next_row_id db, row_timestamp = w_now w, row_user_message = user_message,
                       row_bot_response = resp, row_extracted_features = feats,
                       row_recommended_locations = recs, row_user_ip = w_client_host w,
                       row_session_id = session_id\<rparr>)))))"

definition chat_endpoint ::
  "chat_env \<Rightarrow> (obs list \<Rightarrow> obs list) \<Rightarrow> engine \<Rightarrow> request_world \<Rightarrow> chat_request option \<Rightarrow>
   llm_stream \<Rightarrow> chat_row list \<Rightarrow> api_response \<times> chat_row list" where
  "chat_endpoint env srt e w body llm db =
     (case chat_handler env srt e w body llm db of
        Inl err \<Rightarrow> (ServerError (err_str err), db)
      | Inr (reply, row) \<Rightarrow> (ChatOk reply, db @ [row]))"

definition history_sort_ok :: "(chat_row list \<Rightarrow> chat_row list) \<Rightarrow> bool" where
  "history_sort_ok hsrt \<longleftrightarrow>
     (\<forall>xs. mset (hsrt xs) = mset xs \<and> sorted_wrt (\<lambda>a b. row_timestamp b \<le> row_timestamp a) (hsrt xs))"

text \<open>SQLite's \<open>LIMIT n\<close>: a negative \<open>n\<close> sets no limit.\<close>

definition sql_limit :: "int \<Rightarrow> 'a list \<Rightarrow> 'a list" where
  "sql_limit n xs = (if n < 0 then xs else take (nat n) xs)"

definition get_chat_history ::
  "(chat_row list \<Rightarrow> chat_row list) \<Rightarrow> (int \<Rightarrow> string) \<Rightarrow> int \<Rightarrow> chat_row list \<Rightarrow> api_response" where
  "get_chat_history hsrt isoformat limit db =
     (let history = sql_limit limit (hsrt db);
          result = map (\<lambda>r. \<lparr>hi_id = row_id r, hi_timestamp = isoformat (row_timestamp r),
                             hi_user_message = row_user_message r, hi_bot_response = row_bot_response r,
                             hi_session_id = row_session_id r\<rparr>) history
      in HistoryOk result (length result))"

definition api_search ::
  "pyrt \<Rightarrow> (obs list \<Rightarrow> obs list) \<Rightarrow> engine \<Rightarrow> string \<Rightarrow> api_response" where
  "api_search rt srt e location =
     (case search_by_location rt srt e location 10 of
        Inl err \<Rightarrow> ServerError (err_str err)
      | Inr results \<Rightarrow> SearchOk results (length results))"

definition api_clusters :: "engine \<Rightarrow> api_response" where
  "api_clusters e = ClustersOk (get_all_clusters_summary e)"

text \<open>The tables a sequence of \<open>/chat\<close> requests can leave behind, from the empty table.\<close>

inductive chat_reachable :: "chat_row list \<Rightarrow> bool" where
  empty: "chat_reachable []"
| chat: "chat_reachable db \<Longrightarrow> chat_endpoint env srt e w body llm db = (resp, db') \<Longrightarrow> chat_reachable db'"

subsection \<open>Lemmas\<close>

lemma chat_endpoint_store:
  "chat_endpoint env srt e w body llm db = (resp, db') \<Longrightarrow>
   db' = db \<or> (\<exists>row. db' = db @ [row] \<and> row_id row = next_row_id db)"
  by (auto simp: chat_endpoint_def chat_handler_def ebind_def Let_def split: sum.splits option.splits
      topic_outcome.splits prod.splits if_splits)

lemma foldl_max_ge: "x \<in> set xs \<Longrightarrow> x \<le> foldl max (a::int) xs"
  and foldl_max_ge_acc: "a \<le> foldl max (a::int) xs"
proof (induction xs arbitrary: a)
  case Nil
  { case 1 then show ?case by simp }
  { case 2 then show ?case by simp }
next
  case (Cons y ys)
  { case 1 then show ?case
      using Cons.IH(2) [of "max a y"] by (auto intro: Cons.IH(1) order_trans [OF _ Cons.IH(2)]) }
  { case 2 then show ?case using Cons.IH(2) [of "max a y"] by simp }
qed

lemma next_row_id_gt: "r \<in> set db \<Longrightarrow> row_id r < next_row_id db"
  using foldl_max_ge [of "row_id r" "map row_id db" 0] by (simp add: next_row_id_def)

lemma next_row_id_pos: "0 < next_row_id db"
  using foldl_max_ge_acc [of 0 "map row_id db"] by (simp add: next_row_id_def)

lemma int_str_400: "int_str 400 = ''400''"
  by code_simp

lemma chat_handler_empty_message:
  "request_message (rq_message data) = Inr [] \<Longrightarrow>
   chat_handler env srt e w (Some data) llm db = Inl (HTTPError 400 ''Message cannot be empty'')"
  by (simp add: chat_handler_def Let_def)

subsection \<open>Properties of the HTTP layer\<close>

text \<open>C39. A /chat request whose message is empty after strip() is answered with status 500 and the error text '400: Message cannot be empty', and nothing is stored: the handler's except Exception catches its own HTTPException(400).\<close>

theorem chat_endpoint_empty_message:
  assumes "py_strip s = []"
  shows "chat_endpoint env srt e w (Some \<lparr>rq_message = Val (JStr s), rq_session_id = sid\<rparr>) llm db =
         (ServerError ''400: Message cannot be empty'', db)"
proof -
  have "request_message (Val (JStr s)) = Inr []" using assms by (simp add: request_message_def)
  then show ?thesis
    by (simp add: chat_endpoint_def chat_handler_empty_message int_str_400)
qed


end
