(* ===== verification/Chat_Examples.thy ===== *)
theory Chat_Examples
  imports Endpoint Examples
begin

text \<open>
  Concrete inputs for the chatbot side of the model: an LLM reply dictionary with an
  out-of-range temperature, a boolean precipitation and a month given as a string,
  and the record the validator makes of it; the instances (witnesses) of the
  chatbot lemmas.
\<close>

definition fx_raw :: llm_prefs where
  "fx_raw = \<lparr>lp_avgtemp_c = Val (JNum 40), lp_maxwind_kph = Absent, lp_totalprecip_mm = Val (JBool True),
             lp_avghumidity = Val (JNum 60), lp_cloud_cover_mean = Val (JNum 20),
             lp_month = Val (JStr '' 7 ''), lp_region = Val ''Central'', lp_terrain = Null,
             lp_preferences = Absent\<rparr>"

definition fx_valid :: prefs where
  "fx_valid = \<lparr>pref_avgtemp_c = Val 35, pref_maxwind_kph = Val 15, pref_totalprecip_mm = Val 1,
               pref_avghumidity = Val 60, pref_cloud_cover_mean = Val 20, pref_month = Val 7,
               pref_region = Val ''Central'', pref_terrain = Null, pref_preferences = Val default_desc\<rparr>"

text \<open>A world in which no LLM reply can be read as JSON, so every topic check and
  extraction takes the keyword fallbacks; and one whose topic reader understands two
  canned replies, used to show the two topic checks of one request disagreeing.\<close>

definition fx_env :: chat_env where
  "fx_env = \<lparr>env_rt = fx_rt, env_prefs_json = (\<lambda>js. None), env_topic_json = (\<lambda>js. None), env_choice = 0\<rparr>"

definition fx_topic_json :: "string \<Rightarrow> topic_result option" where
  "fx_topic_json js =
     (if js = ''{yes}'' then Some (topic_verdict True 0.9 [])
      else if js = ''{no}'' then Some (topic_verdict False 0.9 []) else None)"

definition fx_env2 :: chat_env where
  "fx_env2 = fx_env\<lparr>env_rt := fx_rt\<lparr>rt_re_search := (\<lambda>p u. False)\<rparr>, env_topic_json := fx_topic_json\<rparr>"

definition fx_world :: request_world where
  "fx_world = \<lparr>w_uuid = ''u-1'', w_now = 100, w_client_host = ''127.0.0.1''\<rparr>"

definition fx_request :: "string \<Rightarrow> chat_request" where
  "fx_request msg = \<lparr>rq_message = Val (JStr msg), rq_session_id = Absent\<rparr>"

lemma fx_validate: "validate_preferences fx_raw = Inr fx_valid"
  by code_simp

lemma fx_valid_valid: "prefs_valid fx_valid"
  by (simp add: prefs_valid_def fx_valid_def month_ok_def)

theorem validate_preferences_typed_witness:
  "validate_preferences fx_raw = Inr fx_valid \<and> prefs_valid fx_valid \<and> weather_complete fx_valid"
  using validate_preferences_typed [OF fx_validate] fx_validate by simp

theorem validate_preferences_fails_iff_witness:
  "\<exists>err. validate_preferences (fx_raw\<lparr>lp_maxwind_kph := Null\<rparr>) = Inl err"
  using validate_preferences_fails_iff [of "fx_raw\<lparr>lp_maxwind_kph := Null\<rparr>"] by simp

theorem validate_preferences_roundtrip_witness:
  "prefs_valid fx_valid \<and> validate_preferences (raw_of_prefs fx_valid) = Inr fx_valid"
  using validate_preferences_roundtrip [OF fx_valid_valid] fx_valid_valid by simp


theorem chat_endpoint_empty_message_witness:
  "py_strip ''  '' = [] \<and>
   chat_endpoint fx_env sort_values_stable fx_engine fx_world
     (Some \<lparr>rq_message = Val (JStr ''  ''), rq_session_id = Absent\<rparr>) [] [] =
   (ServerError ''400: Message cannot be empty'', [])"
proof -
  have s: "py_strip ''  '' = []" by code_simp
  show ?thesis using chat_endpoint_empty_message [OF s] s by simp
qed


lemma fx2_topic:
  "check_travel_topic fx_env2 ''du lich'' (Some ''{yes}'' # rest) = (topic_verdict True 0.9 [], rest)"
  "check_travel_topic fx_env2 ''du lich'' (Some ''{no}'' # rest) = (topic_verdict False 0.9 [], rest)"
  by (simp_all add: check_travel_topic_def llm_call_def reply_json_def json_match_def py_strip_def
      py_space_def fx_env2_def fx_env_def fx_topic_json_def)

lemma fx2_extract: "extract_travel_preferences (env_rt fx_env2) (env_prefs_json fx_env2) None ''du lich'' = default_preferences"
  by (simp add: extract_travel_preferences_def default_preferences_with_fallback_def fallback_month_def
      fallback_numeric_def numeric_fallback_def fallback_region_def fallback_terrain_def first_match_none
      first_number_none desc_parts_def found_def default_preferences_def fx_env2_def fx_env_def fx_rt_def)

lemma fx2_process:
  "process_user_input fx_env2 ''du lich'' (Some ''{yes}'' # None # rest) = Inr (Travel default_preferences, rest)"
  "process_user_input fx_env2 ''du lich'' (Some ''{no}'' # Some ''Sorry'' # rest) = Inr (Refused ''Sorry'', rest)"
  by (simp_all add: process_user_input_def fx2_topic fx2_extract refuse_condition_def topic_verdict_def
      generate_polite_refusal_def llm_call_def py_strip_def py_space_def)

lemma fx2_recs:
  "get_recommendations_with sort_values_stable fx_engine default_preferences 5 =
   Inr (map row_to_dict [fx_B, fx_D, fx_A, fx_C])"
  by (simp add: fx_run_simps default_preferences_def sort_values_stable_def py_head_def)


theorem get_chat_history_negative_limit:
  "history_sort_ok hsrt \<Longrightarrow>
   get_chat_history hsrt isoformat (-1) db = get_chat_history hsrt isoformat (int (length db)) db"
proof -
  assume "history_sort_ok hsrt"
  then have "length (hsrt db) = length db"
    unfolding history_sort_ok_def by (blast intro: mset_eq_length)
  then show ?thesis by (simp add: get_chat_history_def sql_limit_def)
qed

end
