(* ===== verification/Spec2Isabelle.thy ===== *)
theory Spec2Isabelle
  imports Examples Lookup Chat_Examples
begin

text \<open>
  \<^bold>\<open>A verification model of the Vietnam travel recommendation engine.\<close>

  \<^bigskip>\<^bold>\<open>The program.\<close> \<open>src/clustering.py\<close> holds the core, class
  \<open>TravelRecommendationEngine\<close>: \<open>__init__\<close> loads a table of
  (location, month) weather rows, each tagged with a cluster id, a centroid flag and a
  suitability score \<open>hci\<close>, fits a \<open>StandardScaler\<close> on the five weather
  columns and keeps the centroid rows; \<open>find_best_cluster\<close> normalises a
  preference vector and returns the cluster of the nearest centroid;
  \<open>get_recommendations\<close> narrows the table by month, region and terrain (each only
  when it leaves something), narrows a large working set to the nearest cluster, sorts by
  \<open>hci\<close> and keeps the first \<open>top_k\<close> rows. \<open>src/chatbot.py\<close> turns a user
  message into the preference dictionary (through an LLM, with regex fallbacks and a
  clamping validator); \<open>src/main.py\<close> is the HTTP layer that calls both and stores
  the exchange through \<open>src/models.py\<close>.

  \<^bigskip>\<^bold>\<open>Theories.\<close>
  \<^item> \<open>Prelude\<close>: the Python values the model needs: exceptions as the datatype
    \<open>error\<close> (results are \<open>error + 'a\<close>), a dictionary entry as
    \<open>'a field\<close> (absent, null or a value) with \<open>d[k]\<close>, \<open>d.get(k, v)\<close> and
    \<open>d.get(k)\<close>, the preference dictionary \<open>prefs\<close> shared by
    \<open>chatbot.py\<close> and \<open>clustering.py\<close>, pandas \<open>head(n)\<close> as
    \<open>py_head\<close> (Python slicing, so negative \<open>n\<close> drops rows from the end) and the
    "narrow only if something is left" step as \<open>guarded_filter\<close>.
  \<^item> \<open>Dataset\<close> (\<open>__init__\<close>, lines 8--24): the row record \<open>obs\<close>, the
    feature list, the scaler record with \<open>scaler_fit\<close> (population mean and
    standard deviation, zero scale replaced by 1) and \<open>scaler_transform\<close>, the
    engine handle \<open>engine\<close> built by \<open>engine_init\<close>, and its invariant
    \<open>engine_wf\<close>. The engine is never mutated after \<open>__init__\<close>: every query
    below takes the handle and returns a value, so the invariant established at load
    holds for the whole process.
  \<^item> \<open>Matcher\<close> (\<open>find_best_cluster\<close>, lines 26--52): \<open>user_vector\<close> (the
    \<open>KeyError\<close> of \<open>preferences['avgtemp_c']\<close> and the defaults of the two
    \<open>.get\<close> calls), the NaN check of \<open>transform\<close>, Euclidean distances to the
    normalised centroids, and \<open>np_argmin\<close> as a scan that keeps the first minimum.
  \<^item> \<open>Pipeline\<close> (\<open>get_recommendations\<close> and \<open>_row_to_dict\<close>, lines
    54--108), split into \<open>filter_stage\<close> (month, region, terrain),
    \<open>cluster_stage\<close> (empty fallback, narrowing above \<open>2 * top_k\<close>) and
    sort/head/convert. pandas' \<open>sort_values\<close> with its default (quicksort) kind
    promises a permutation ordered by \<open>hci\<close> but no tie order, so the sort is a
    parameter \<open>srt\<close> of \<open>get_recommendations_with\<close> and every theorem about the
    code assumes only the contract \<open>sort_desc_ok srt\<close>; \<open>sort_values_stable\<close> is
    the stable sort the specification asks for, and \<open>sort_desc_ok_unique\<close> shows that
    with pairwise different scores every admissible sort is that one.
  \<^item> \<open>Fixture\<close>: the specification's two-cluster dataset (section 8) as a concrete
    engine, evaluated by \<open>simp\<close> (the scaler's square roots are exact there).
  \<^item> \<open>Examples\<close>: the specification's scenarios run on the fixture and the
    instances (witnesses) of the lemmas.
  \<^item> \<open>Lookup\<close> (\<open>search_by_location\<close>, \<open>get_cluster_info\<close>,
    \<open>get_all_clusters_summary\<close>, lines 110--163): the query is a regular
    expression (pandas \<open>str.contains\<close>), so matching is the text runtime of the
    Prelude (record \<open>pyrt\<close>: \<open>str.lower\<close>, \<open>re.search\<close>, number parsing and
    formatting), and the theorems assume only its contract \<open>rt_literal_ok\<close> (a
    pattern without metacharacters compiles and matches as a substring).
  \<^item> \<open>Validator\<close> (\<open>_validate_preferences\<close>, \<open>_get_default_preferences\<close>):
    the LLM's JSON dictionary as the record \<open>llm_prefs\<close> of JSON scalars
    \<open>jnum\<close> (number, string or boolean), Python's \<open>min\<close>/\<open>max\<close> clamping and
    \<open>int()\<close> with their \<open>TypeError\<close> and \<open>ValueError\<close>; the output is the engine's
    \<open>prefs\<close> record.
  \<^item> \<open>Pref_Extraction\<close> (\<open>_extract_fallback\<close>,
    \<open>_get_default_preferences_with_fallback\<close>, \<open>extract_travel_preferences\<close>):
    the source's regex tables, as UTF-8 percent-encoded strings decoded by \<open>pct\<close>
    (Isabelle strings are ASCII), the first-match loops, the JSON cut-out and the two
    \<open>re.sub\<close> cleanings (functions with termination proofs), the fallback merge and
    the validator.
  \<^item> \<open>Topic\<close> (\<open>check_travel_topic\<close> and its keyword fallback, the refusals,
    \<open>process_user_input\<close>, \<open>generate_response\<close>, \<open>chat\<close>): the LLM is a stream
    of replies, one per \<open>client.chat.completions.create\<close> call, so the number and
    order of calls is part of the model; \<open>json.loads\<close> and \<open>random.choice\<close> are
    parameters in the record \<open>chat_env\<close>.
  \<^item> \<open>Endpoint\<close> (\<open>src/main.py\<close>, \<open>src/models.py\<close>): \<open>POST /chat\<close> as one
    step on the chat-history table (a list of \<open>chat_row\<close>, ids as SQLite assigns
    them) with the inductive set \<open>chat_reachable\<close> of the tables a run produces,
    \<open>/api/history\<close>, \<open>/api/search\<close> and \<open>/api/clusters\<close>.
  \<^item> \<open>Chat_Examples\<close>: concrete requests, LLM streams and replies, and the
    witnesses of the chatbot and endpoint lemmas.

  \<^bigskip>\<^bold>\<open>What is shown.\<close>
  \<^item> Ranking (C1--C6, C10--C16, C18--C21): results are sorted by score, at most \<open>top_k\<close>
    long for \<open>top_k \<ge> 0\<close>, rows of the dataset, honour the month (and the region,
    terrain) whenever that filter was applied, a month no row has changes nothing,
    sorting and truncating refine an abstract top-\<open>k\<close> selection \<open>top_k_spec\<close>,
    a large working set is narrowed to the nearest cluster and a small one is returned
    without calling the matcher, the engine raises exactly when the matcher is called
    and raises, a loaded engine always answers a complete request, and with a stable
    sort ties keep dataset order.
  \<^item> Matching (C7--C9, C14, C22, C23): the result is the cluster of a nearest
    centroid with ties to the earlier row, the scan equals the reference "first index of
    the minimum", the errors are exactly missing or null weather keys and an empty
    centroid set, and a centroid's own weather is matched to its own cluster.
  \<^item> Loading and normalising (C24--C28): every normalised column has mean 0 and,
    when not constant, variance 1; all scales are positive; a loaded engine satisfies
    \<open>engine_wf\<close>; loading fails exactly on an empty table.
  \<^item> Lookups (C29, C30, C32--C34): a location search is a top-\<open>k\<close> selection of the
    rows whose lower-cased name or province contains the query; the cluster summary has
    one entry per cluster id in ascending order, its counts add up to the table, and
    each entry names the cluster's first centroid.
  \<^item> Chatbot (C31, C35--C38): the validator's output is a valid, complete
    preference record (its type); it raises exactly on null or string weather values
    and unparsable month strings; it is the identity on valid records (round trip);
    \<open>extract_travel_preferences\<close> returns a valid record for every LLM reply and
    every \<open>json.loads\<close> outcome, so the engine never raises on what the chatbot hands
    it.
  \<^item> HTTP layer (C39, C40): an empty message is answered with status 500 (the handler
    catches its own \<open>HTTPException(400)\<close>) and stores nothing; in every reachable
    history table the ids are positive and strictly increasing.
  \<^item> Divergences the model exposes (C17, C19--C21, C39, and the lemma
    \<open>get_chat_history_negative_limit\<close> of \<open>Chat_Examples\<close>): \<open>top_k = -1\<close> returns rows (pandas \<open>head\<close> slices); a
    region present in the dataset is not honoured when the month filter removed its rows;
    the "empty working set" fallback is dead code for a loaded engine; the two topic
    checks of one \<open>/chat\<close> request can disagree, giving a travel response with
    recommendations whose text is a refusal; a negative history limit returns the whole
    table.

  \<^bigskip>\<^bold>\<open>Modelling choices.\<close> Python floats are \<open>real\<close> (no rounding, no NaN in
  the table); integers are \<open>int\<close>. Strings are HOL strings; non-ASCII text of the
  source is its UTF-8 bytes, written percent-encoded and decoded by \<open>pct\<close>. The
  scaler's near-zero threshold of sklearn is taken as exactly zero.
  \<open>euclidean_distances\<close> is the exact Euclidean distance. Exceptions are values of
  \<open>error + 'a\<close>, chained by \<open>ebind\<close>; every \<open>try\<close>/\<open>except\<close> of the source is a
  case on that sum. Library behaviour the code relies on but does not define is a
  parameter with a contract: the sort (\<open>sort_desc_ok\<close>), the regex engine
  (\<open>pyrt\<close>, \<open>rt_literal_ok\<close>), \<open>json.loads\<close>, \<open>random.choice\<close>, the LLM (a
  reply stream), the database order of equal timestamps (\<open>history_sort_ok\<close>). There
  are no loops that may fail to end: every loop of the source runs over a finite list
  or string, every recursion of the model is structural or has a termination proof,
  so no fuel is needed.

  \<^bigskip>\<^bold>\<open>Not modelled.\<close> Reading the CSV (\<open>pd.read_csv\<close>) and the
  \<open>DataLoadError\<close> of a missing file (I/O); the prompt texts of
  \<open>TravelChatbot.__init__\<close> (they are only sent to the LLM); the regex engine
  itself (a parameter); FastAPI routing, the \<open>/\<close> template page, \<open>/health\<close> (the
  clock only), the lifespan hook and the SQLAlchemy engine and session set-up of
  \<open>get_db\<close> and \<open>create_tables\<close> (I/O).
\<close>

end
